theory Spec2Isabelle
  imports Main "HOL-Library.Sublist"
begin

section \<open>JavaScript values\<close>

text \<open>
  The sources are TypeScript. A value of type \<open>string\<close> that may be \<open>null\<close> or
  \<open>undefined\<close> is a \<open>string option\<close>; \<open>None\<close> stands for both (the code never
  tells them apart: it tests \<open>=== undefined || === null\<close> or truthiness). A thrown
  exception or a rejected promise is the left summand of \<open>error + 'a\<close>.
\<close>

datatype error = Error string | TypeError string

definition truthy :: "string option \<Rightarrow> bool" where
  "truthy v = (case v of None \<Rightarrow> False | Some s \<Rightarrow> s \<noteq> [])"

definition truthy_bool :: "bool option \<Rightarrow> bool" where
  "truthy_bool v = (v = Some True)"

definition truthy_num :: "nat option \<Rightarrow> bool" where
  "truthy_num v = (case v of None \<Rightarrow> False | Some n \<Rightarrow> n \<noteq> 0)"

definition is_digit :: "char \<Rightarrow> bool" where
  "is_digit c = (c \<in> set ''0123456789'')"

definition is_alpha :: "char \<Rightarrow> bool" where
  "is_alpha c = (c \<in> set ''abcdefghijklmnopqrstuvwxyzABCDEFGHIJKLMNOPQRSTUVWXYZ'')"

definition is_space :: "char \<Rightarrow> bool" where
  "is_space c = (c \<in> {CHR '' '', CHR 0x09, CHR 0x0A, CHR 0x0B, CHR 0x0C, CHR 0x0D})"

text \<open>\<open>String.prototype.trim\<close>, on the ASCII white space.\<close>

definition trim :: "string \<Rightarrow> string" where
  "trim s = rev (dropWhile is_space (rev (dropWhile is_space s)))"

text \<open>\<open>s.indexOf(pat)\<close>: the first position where \<open>pat\<close> starts in \<open>s\<close>, or \<open>-1\<close>.\<close>

fun indexOf_from :: "string \<Rightarrow> string \<Rightarrow> nat \<Rightarrow> int" where
  "indexOf_from [] pat i = (if pat = [] then int i else - 1)"
| "indexOf_from (c # cs) pat i =
     (if prefix pat (c # cs) then int i else indexOf_from cs pat (Suc i))"

definition indexOf :: "string \<Rightarrow> string \<Rightarrow> int" where
  "indexOf s pat = indexOf_from s pat 0"

text \<open>\<open>xs.find(p)\<close>: the first element satisfying \<open>p\<close>, or \<open>undefined\<close>.\<close>

fun array_find :: "('a \<Rightarrow> bool) \<Rightarrow> 'a list \<Rightarrow> 'a option" where
  "array_find p [] = None"
| "array_find p (x # xs) = (if p x then Some x else array_find p xs)"

text \<open>\<open>s.split(sep)\<close> for a one-character separator.\<close>

fun split_on :: "char \<Rightarrow> string \<Rightarrow> string list" where
  "split_on sep [] = [[]]"
| "split_on sep (c # cs) =
     (if c = sep then [] # split_on sep cs
      else (case split_on sep cs of [] \<Rightarrow> [[c]] | w # ws \<Rightarrow> (c # w) # ws))"

fun join_with :: "string \<Rightarrow> string list \<Rightarrow> string" where
  "join_with sep [] = []"
| "join_with sep [x] = x"
| "join_with sep (x # y # ys) = x @ sep @ join_with sep (y # ys)"

text \<open>
  \<open>path.join\<close> of Node (POSIX): zero-length arguments are skipped, the rest joined by
  the separator, and the result normalised. \<open>normalizeString\<close> goes through the
  segments: an empty segment and \<open>.\<close> are dropped, \<open>..\<close> removes the segment before it,
  and where there is none it is kept in a relative path and dropped in an absolute one.
\<close>

fun normalizeString :: "bool \<Rightarrow> string list \<Rightarrow> string list \<Rightarrow> string list" where
  "normalizeString allowAboveRoot res [] = res"
| "normalizeString allowAboveRoot res (seg # segs) =
     (if seg = [] \<or> seg = ''.'' then normalizeString allowAboveRoot res segs
      else if seg = ''..'' then
        (if res \<noteq> [] \<and> last res \<noteq> ''..''
         then normalizeString allowAboveRoot (butlast res) segs
         else if allowAboveRoot then normalizeString allowAboveRoot (res @ [''..'']) segs
         else normalizeString allowAboveRoot res segs)
      else normalizeString allowAboveRoot (res @ [seg]) segs)"

definition path_normalize :: "string \<Rightarrow> string" where
  "path_normalize p =
     (if p = [] then ''.''
      else
        let isAbsolute = (hd p = CHR ''/'');
            trailingSeparator = (last p = CHR ''/'');
            path = join_with ''/'' (normalizeString (\<not> isAbsolute) [] (split_on CHR ''/'' p));
            path1 = (if path = [] \<and> \<not> isAbsolute then ''.'' else path);
            path2 = (if path1 \<noteq> [] \<and> trailingSeparator then path1 @ ''/'' else path1)
        in if isAbsolute then ''/'' @ path2 else path2)"

definition path_join :: "string list \<Rightarrow> string" where
  "path_join segs =
     (let ps = filter (\<lambda>s. s \<noteq> []) segs
      in if ps = [] then ''.'' else path_normalize (join_with ''/'' ps))"

section \<open>The semver library (version 5.5.1, as pinned by package.json)\<close>

text \<open>
  The strict grammar of a version: an optional \<open>v\<close>, three numeric identifiers without
  leading zeros, an optional prerelease (\<open>-id.id...\<close>) and optional build metadata
  (\<open>+id.id...\<close>). \<open>SemVer\<close> is the constructor: \<open>None\<close> is its \<open>TypeError\<close>
  (\<open>Invalid Version\<close>).
\<close>

datatype ident = NumId nat | StrId string

record semver =
  major :: nat
  minor :: nat
  patch :: nat
  prerelease :: "ident list"

definition MAX_LENGTH :: nat where
  "MAX_LENGTH = 256"

definition MAX_SAFE_INTEGER :: int where
  "MAX_SAFE_INTEGER = 9007199254740991"

definition digit_val :: "char \<Rightarrow> nat" where
  "digit_val c = of_char c - 48"

definition nat_of_digits :: "string \<Rightarrow> nat" where
  "nat_of_digits s = foldl (\<lambda>n c. 10 * n + digit_val c) 0 s"

text \<open>A numeric identifier: \<open>0|[1-9]\d*\<close>.\<close>

definition is_numeric_id :: "string \<Rightarrow> bool" where
  "is_numeric_id s = (s \<noteq> [] \<and> list_all is_digit s \<and> (s = ''0'' \<or> hd s \<noteq> CHR ''0''))"

definition is_id_char :: "char \<Rightarrow> bool" where
  "is_id_char c = (is_digit c \<or> is_alpha c \<or> c = CHR ''-'')"

text \<open>A prerelease identifier: numeric, or \<open>\d*[a-zA-Z-][a-zA-Z0-9-]*\<close>.\<close>

definition parse_prerelease_id :: "string \<Rightarrow> ident option" where
  "parse_prerelease_id s =
     (if is_numeric_id s then
        (if int (nat_of_digits s) < MAX_SAFE_INTEGER then Some (NumId (nat_of_digits s))
         else Some (StrId s))
      else if s \<noteq> [] \<and> list_all is_id_char s \<and> \<not> list_all is_digit s then Some (StrId s)
      else None)"

definition is_build_id :: "string \<Rightarrow> bool" where
  "is_build_id s = (s \<noteq> [] \<and> list_all is_id_char s)"

fun those_ids :: "ident option list \<Rightarrow> ident list option" where
  "those_ids [] = Some []"
| "those_ids (None # xs) = None"
| "those_ids (Some x # xs) = (case those_ids xs of None \<Rightarrow> None | Some ys \<Rightarrow> Some (x # ys))"

text \<open>The part of a string before the first occurrence of a character, and the part after it.\<close>

definition before_char :: "char \<Rightarrow> string \<Rightarrow> string" where
  "before_char c s = takeWhile (\<lambda>x. x \<noteq> c) s"

definition after_char :: "char \<Rightarrow> string \<Rightarrow> string option" where
  "after_char c s = (case dropWhile (\<lambda>x. x \<noteq> c) s of [] \<Rightarrow> None | _ # r \<Rightarrow> Some r)"

definition SemVer :: "string \<Rightarrow> semver option" where
  "SemVer version =
     (if length version > MAX_LENGTH then None
      else
        let t = trim version;
            u = (case t of c # r \<Rightarrow> if c = CHR ''v'' then r else t | [] \<Rightarrow> t);
            build = after_char CHR ''+'' u;
            w = before_char CHR ''+'' u;
            pre = after_char CHR ''-'' w;
            main = split_on CHR ''.'' (before_char CHR ''-'' w)
        in
          if length main \<noteq> 3 \<or> \<not> list_all is_numeric_id main then None
          else if \<not> (case build of None \<Rightarrow> True
                       | Some b \<Rightarrow> list_all is_build_id (split_on CHR ''.'' b)) then None
          else if list_ex (\<lambda>n. int (nat_of_digits n) > MAX_SAFE_INTEGER) main then None
          else
            (case (case pre of None \<Rightarrow> Some []
                   | Some p \<Rightarrow> those_ids (map parse_prerelease_id (split_on CHR ''.'' p))) of
               None \<Rightarrow> None
             | Some ids \<Rightarrow>
                 Some \<lparr> major = nat_of_digits (main ! 0), minor = nat_of_digits (main ! 1),
                        patch = nat_of_digits (main ! 2), prerelease = ids \<rparr>))"

text \<open>\<open>semver.valid\<close> tests the grammar on the string as given (not trimmed).\<close>

definition semver_valid :: "string option \<Rightarrow> bool" where
  "semver_valid v =
     (case v of None \<Rightarrow> False
      | Some s \<Rightarrow> s = trim s \<and> SemVer s \<noteq> None)"

fun cmp_nat :: "nat \<Rightarrow> nat \<Rightarrow> int" where
  "cmp_nat a b = (if a < b then - 1 else if a > b then 1 else 0)"

text \<open>Strings compare by code units.\<close>

fun cmp_string :: "string \<Rightarrow> string \<Rightarrow> int" where
  "cmp_string [] [] = 0"
| "cmp_string [] (b # bs) = - 1"
| "cmp_string (a # as) [] = 1"
| "cmp_string (a # as) (b # bs) =
     (if a = b then cmp_string as bs else cmp_nat (of_char a) (of_char b))"

fun compareIdentifiers :: "ident \<Rightarrow> ident \<Rightarrow> int" where
  "compareIdentifiers (NumId a) (NumId b) = cmp_nat a b"
| "compareIdentifiers (NumId a) (StrId b) = - 1"
| "compareIdentifiers (StrId a) (NumId b) = 1"
| "compareIdentifiers (StrId a) (StrId b) = cmp_string a b"

fun comparePre_loop :: "ident list \<Rightarrow> ident list \<Rightarrow> int" where
  "comparePre_loop [] [] = 0"
| "comparePre_loop (a # as) [] = 1"
| "comparePre_loop [] (b # bs) = - 1"
| "comparePre_loop (a # as) (b # bs) =
     (if a = b then comparePre_loop as bs else compareIdentifiers a b)"

definition comparePre :: "semver \<Rightarrow> semver \<Rightarrow> int" where
  "comparePre a b =
     (if prerelease a \<noteq> [] \<and> prerelease b = [] then - 1
      else if prerelease a = [] \<and> prerelease b \<noteq> [] then 1
      else if prerelease a = [] \<and> prerelease b = [] then 0
      else comparePre_loop (prerelease a) (prerelease b))"

definition compareMain :: "semver \<Rightarrow> semver \<Rightarrow> int" where
  "compareMain a b =
     (if cmp_nat (major a) (major b) \<noteq> 0 then cmp_nat (major a) (major b)
      else if cmp_nat (minor a) (minor b) \<noteq> 0 then cmp_nat (minor a) (minor b)
      else cmp_nat (patch a) (patch b))"

definition compare :: "semver \<Rightarrow> semver \<Rightarrow> int" where
  "compare a b = (if compareMain a b \<noteq> 0 then compareMain a b else comparePre a b)"

text \<open>
  \<open>semver.lt(a, b)\<close> and \<open>semver.gte(a, b)\<close> construct both versions first: an argument
  that is not a string, or not a version, throws.
\<close>

definition invalid_version :: "string option \<Rightarrow> error" where
  "invalid_version v =
     TypeError (''Invalid Version: '' @ (case v of None \<Rightarrow> ''undefined'' | Some s \<Rightarrow> s))"

definition semver_compare :: "string option \<Rightarrow> string \<Rightarrow> error + int" where
  "semver_compare a b =
     (case (case a of None \<Rightarrow> None | Some s \<Rightarrow> SemVer s) of
        None \<Rightarrow> Inl (invalid_version a)
      | Some x \<Rightarrow>
          (case SemVer b of None \<Rightarrow> Inl (invalid_version (Some b))
           | Some y \<Rightarrow> Inr (compare x y)))"

definition semver_lt :: "string option \<Rightarrow> string \<Rightarrow> error + bool" where
  "semver_lt a b = (case semver_compare a b of Inl e \<Rightarrow> Inl e | Inr c \<Rightarrow> Inr (c < 0))"

definition semver_gte :: "string option \<Rightarrow> string \<Rightarrow> error + bool" where
  "semver_gte a b = (case semver_compare a b of Inl e \<Rightarrow> Inl e | Inr c \<Rightarrow> Inr (c \<ge> 0))"

text \<open>
  The two range strings the code builds are \<open>>=23 <=25\<close> and \<open>>=c <c+1\<close>: comparators
  on a bare major number. The library reads \<open>>=M\<close> as \<open>>=M.0.0\<close>, \<open><=M\<close> as
  \<open><(M+1).0.0\<close> and \<open><M\<close> as \<open><M.0.0\<close>, and a version with a prerelease satisfies
  a comparator set only if one of the comparators carries a prerelease, which none does.
\<close>

datatype comparator = GTE nat | LTE nat | LT nat

type_synonym range = "comparator list"

definition release :: "nat \<Rightarrow> semver" where
  "release m = \<lparr> major = m, minor = 0, patch = 0, prerelease = [] \<rparr>"

fun comparator_test :: "comparator \<Rightarrow> semver \<Rightarrow> bool" where
  "comparator_test (GTE m) v = (compare v (release m) \<ge> 0)"
| "comparator_test (LTE m) v = (compare v (release (m + 1)) < 0)"
| "comparator_test (LT m) v = (compare v (release m) < 0)"

definition range_test :: "range \<Rightarrow> semver \<Rightarrow> bool" where
  "range_test r v = (list_all (\<lambda>c. comparator_test c v) r \<and> prerelease v = [])"

text \<open>
  \<open>semver.maxSatisfying(versions, range)\<close>: the loop keeps the first of equal maxima
  (\<open>maxSV.compare(v) === -1\<close>), skips an empty string and throws on a string that is not
  a version.
\<close>

fun maxSatisfying_loop :: "string list \<Rightarrow> range \<Rightarrow> (string \<times> semver) option \<Rightarrow> error + string option" where
  "maxSatisfying_loop [] r mx = Inr (map_option fst mx)"
| "maxSatisfying_loop (v # vs) r mx =
     (if v = [] then maxSatisfying_loop vs r mx
      else
        (case SemVer v of
           None \<Rightarrow> Inl (invalid_version (Some v))
         | Some sv \<Rightarrow>
             if range_test r sv \<and> (case mx of None \<Rightarrow> True | Some (m, msv) \<Rightarrow> compare msv sv = - 1)
             then maxSatisfying_loop vs r (Some (v, sv))
             else maxSatisfying_loop vs r mx))"

definition maxSatisfying :: "string list \<Rightarrow> range \<Rightarrow> error + string option" where
  "maxSatisfying versions r = maxSatisfying_loop versions r None"

section \<open>Collaborators: file system and constants\<close>

text \<open>
  The wrapper around the file system (\<open>wrappers/file-system.ts\<close>) and the constants
  (\<open>constants.ts\<close>) are parameters: a record of what they answer at the time of a call.
  \<open>readDirectory\<close> and \<open>extractZip\<close> may throw.
\<close>

record file_system =
  fs_exists :: "string \<Rightarrow> bool"
  fs_readDirectory :: "string \<Rightarrow> error + string list"
  fs_extractZip :: "string \<Rightarrow> string \<Rightarrow> error + unit"

record constants =
  ANDROID_PLATFORM_NAME :: string
  IOS_PLATFORM_NAME :: string
  SUPPORTED_PLATFORMS :: "string list"

record IWarning =
  warning :: string
  additionalInformation :: string
  platforms :: "string list"

section \<open>AndroidToolsInfo\<close>

record IAndroidToolsInfoData =
  androidHomeEnvVar :: "string option"
  compileSdkVersion :: "nat option"
  buildToolsVersion :: "string option"
  supportRepositoryVersion :: "string option"

text \<open>
  The object: \<open>toolsInfo\<close> is unset until the first \<open>getToolsInfo\<close>; \<open>androidHome\<close> is
  read from \<open>ANDROID_HOME\<close> when the object is constructed.
\<close>

record AndroidToolsInfo =
  toolsInfo :: "IAndroidToolsInfoData option"
  androidHome :: "string option"

definition ANDROID_TARGET_PREFIX :: string where
  "ANDROID_TARGET_PREFIX = ''android''"

definition SUPPORTED_TARGETS :: "string list" where
  "SUPPORTED_TARGETS = [''android-17'', ''android-18'', ''android-19'', ''android-21'',
     ''android-22'', ''android-23'', ''android-24'', ''android-25'']"

definition MIN_REQUIRED_COMPILE_TARGET :: int where
  "MIN_REQUIRED_COMPILE_TARGET = 22"

definition REQUIRED_BUILD_TOOLS_RANGE_PREFIX :: comparator where
  "REQUIRED_BUILD_TOOLS_RANGE_PREFIX = GTE 23"

text \<open>
  \<open>VERSION_REGEX = /((\d+\.){2}\d+)/\<close>: the leftmost match of digits, dot, digits, dot,
  digits; \<open>match(...)[1]\<close> is the whole match.
\<close>

definition digits_dot :: "string \<Rightarrow> (string \<times> string) option" where
  "digits_dot s =
     (let ds = takeWhile is_digit s in
      case dropWhile is_digit s of
        [] \<Rightarrow> None
      | c # r \<Rightarrow> if ds \<noteq> [] \<and> c = CHR ''.'' then Some (ds @ ''.'', r) else None)"

definition version_at :: "string \<Rightarrow> string option" where
  "version_at s =
     (case digits_dot s of
        None \<Rightarrow> None
      | Some (a, r1) \<Rightarrow>
          (case digits_dot r1 of
             None \<Rightarrow> None
           | Some (b, r2) \<Rightarrow>
               (let c = takeWhile is_digit r2 in if c = [] then None else Some (a @ b @ c))))"

fun VERSION_REGEX_match :: "string \<Rightarrow> string option" where
  "VERSION_REGEX_match [] = None"
| "VERSION_REGEX_match (c # cs) =
     (case version_at (c # cs) of Some v \<Rightarrow> Some v | None \<Rightarrow> VERSION_REGEX_match cs)"

text \<open>\<open>Array.prototype.sort()\<close> without a comparator: ascending by code units.\<close>

fun sort_insert :: "string \<Rightarrow> string list \<Rightarrow> string list" where
  "sort_insert x [] = [x]"
| "sort_insert x (y # ys) = (if cmp_string x y \<le> 0 then x # y # ys else y # sort_insert x ys)"

definition array_sort :: "string list \<Rightarrow> string list" where
  "array_sort xs = foldr sort_insert xs []"

text \<open>\<open>s.replace(pat, "")\<close>: the first occurrence of \<open>pat\<close> is removed.\<close>

fun remove_first :: "string \<Rightarrow> string \<Rightarrow> string" where
  "remove_first pat [] = []"
| "remove_first pat (c # cs) =
     (if prefix pat (c # cs) then drop (length pat) (c # cs) else c # remove_first pat cs)"

text \<open>
  \<open>parseInt\<close> on decimal input: leading white space, an optional sign, then the longest
  run of digits; \<open>None\<close> is \<open>NaN\<close>. (The arguments are the members of
  \<open>SUPPORTED_TARGETS\<close> without their prefix; none has a hexadecimal prefix.)
\<close>

definition parseInt :: "string \<Rightarrow> int option" where
  "parseInt s =
     (let t = dropWhile is_space s;
          neg = (t \<noteq> [] \<and> hd t = CHR ''-'');
          u = (if t \<noteq> [] \<and> (hd t = CHR ''-'' \<or> hd t = CHR ''+'') then tl t else t);
          ds = takeWhile is_digit u
      in if ds = [] then None
         else Some (if neg then - int (nat_of_digits ds) else int (nat_of_digits ds)))"

definition parseAndroidSdkString :: "string \<Rightarrow> int option" where
  "parseAndroidSdkString androidSdkString =
     parseInt (remove_first (ANDROID_TARGET_PREFIX @ ''-'') androidSdkString)"

text \<open>
  \<open>getInstalledTargets\<close> wraps everything in \<open>try\<close>: an unset \<open>androidHome\<close> (on which
  \<open>path.join\<close> throws), a missing directory and a failing listing all give \<open>[]\<close>.
\<close>

definition getInstalledTargets :: "file_system \<Rightarrow> AndroidToolsInfo \<Rightarrow> string list" where
  "getInstalledTargets fs t =
     (case androidHome t of
        None \<Rightarrow> []
      | Some home \<Rightarrow>
          (let pathToInstalledTargets = path_join [home, ''platforms''] in
           if \<not> fs_exists fs pathToInstalledTargets then []
           else (case fs_readDirectory fs pathToInstalledTargets of
                   Inl e \<Rightarrow> []
                 | Inr names \<Rightarrow> names)))"

definition getLatestValidAndroidTarget :: "file_system \<Rightarrow> AndroidToolsInfo \<Rightarrow> string option" where
  "getLatestValidAndroidTarget fs t =
     (let installedTargets = getInstalledTargets fs t;
          sortedAndroidToolsInfo = array_sort SUPPORTED_TARGETS
      in foldl (\<lambda>latestValidAndroidTarget s.
                  if s \<in> set installedTargets then Some s else latestValidAndroidTarget)
           None sortedAndroidToolsInfo)"

definition getCompileSdk :: "file_system \<Rightarrow> AndroidToolsInfo \<Rightarrow> nat option" where
  "getCompileSdk fs t =
     (let latestValidAndroidTarget = getLatestValidAndroidTarget fs t in
      if truthy latestValidAndroidTarget then
        (case parseAndroidSdkString (the latestValidAndroidTarget) of
           None \<Rightarrow> None
         | Some integerVersion \<Rightarrow>
             if integerVersion \<noteq> 0 \<and> integerVersion \<ge> MIN_REQUIRED_COMPILE_TARGET
             then Some (nat integerVersion) else None)
      else None)"

definition getMaxSupportedVersion :: "int option" where
  "getMaxSupportedVersion =
     (case array_sort SUPPORTED_TARGETS of
        [] \<Rightarrow> None
      | x # xs \<Rightarrow> parseAndroidSdkString (last (x # xs)))"

text \<open>
  The range \<open>>=23 <=max\<close>; \<open>None\<close> stands for a string that is no range (a maximum that
  is \<open>NaN\<close> or negative), on which \<open>maxSatisfying\<close> returns \<open>null\<close>.
\<close>

definition getBuildToolsRange :: "range option" where
  "getBuildToolsRange =
     (case getMaxSupportedVersion of
        None \<Rightarrow> None
      | Some m \<Rightarrow> if m < 0 then None else Some [REQUIRED_BUILD_TOOLS_RANGE_PREFIX, LTE (nat m)])"

definition getMatchingDir :: "file_system \<Rightarrow> string \<Rightarrow> range option \<Rightarrow> error + string option" where
  "getMatchingDir fs pathToDir versionRange =
     (if fs_exists fs pathToDir then
        (case fs_readDirectory fs pathToDir of
           Inl e \<Rightarrow> Inl e
         | Inr subDirs \<Rightarrow>
             (let subDirsVersions =
                    map the (filter truthy (map VERSION_REGEX_match subDirs)) in
              case (case versionRange of None \<Rightarrow> Inr None
                    | Some r \<Rightarrow> maxSatisfying subDirsVersions r) of
                Inl e \<Rightarrow> Inl e
              | Inr None \<Rightarrow> Inr None
              | Inr (Some version) \<Rightarrow>
                  if version \<noteq> []
                  then Inr (array_find (\<lambda>dir. indexOf dir version \<noteq> - 1) subDirs)
                  else Inr None))
      else Inr None)"

definition getBuildToolsVersion :: "file_system \<Rightarrow> AndroidToolsInfo \<Rightarrow> error + string option" where
  "getBuildToolsVersion fs t =
     (if truthy (androidHome t) then
        (let pathToBuildTools = path_join [the (androidHome t), ''build-tools''];
             buildToolsRange = getBuildToolsRange
         in getMatchingDir fs pathToBuildTools buildToolsRange)
      else Inr None)"

definition getAppCompatRange :: "file_system \<Rightarrow> AndroidToolsInfo \<Rightarrow> range option" where
  "getAppCompatRange fs t =
     (let compileSdkVersion = getCompileSdk fs t in
      if truthy_num compileSdkVersion
      then Some [GTE (the compileSdkVersion), LT (the compileSdkVersion + 1)]
      else None)"

definition getAndroidSupportRepositoryVersion :: "file_system \<Rightarrow> AndroidToolsInfo \<Rightarrow> error + string option" where
  "getAndroidSupportRepositoryVersion fs t =
     (let requiredAppCompatRange = getAppCompatRange fs t in
      if truthy (androidHome t) \<and> requiredAppCompatRange \<noteq> None then
        (let pathToAppCompat = path_join [the (androidHome t), ''extras'', ''android'',
               ''m2repository'', ''com'', ''android'', ''support'', ''appcompat-v7'']
         in getMatchingDir fs pathToAppCompat requiredAppCompatRange)
      else Inr None)"


definition expectedDirectoriesInAndroidHome :: "string list" where
  "expectedDirectoriesInAndroidHome = [''build-tools'', ''tools'', ''platform-tools'', ''extras'']"

definition androidHome_not_set_warning :: "constants \<Rightarrow> IWarning" where
  "androidHome_not_set_warning c =
     \<lparr> warning = ''The ANDROID_HOME environment variable is not set or it points to a non-existent directory. You will not be able to perform any build-related operations for Android.'',
       additionalInformation = ''To be able to perform Android build-related operations, set the `ANDROID_HOME` variable to point to the root of your Android SDK installation directory.'',
       platforms = [ANDROID_PLATFORM_NAME c] \<rparr>"

definition androidHome_incorrect_warning :: "constants \<Rightarrow> IWarning" where
  "androidHome_incorrect_warning c =
     \<lparr> warning = ''The ANDROID_HOME environment variable points to incorrect directory. You will not be able to perform any build-related operations for Android.'',
       additionalInformation = ''To be able to perform Android build-related operations, set the `ANDROID_HOME` variable to point to the root of your Android SDK installation directory, where you will find `tools` and `platform-tools` directories.'',
       platforms = [ANDROID_PLATFORM_NAME c] \<rparr>"

definition validateAndroidHomeEnvVariable :: "constants \<Rightarrow> file_system \<Rightarrow> AndroidToolsInfo \<Rightarrow> IWarning list" where
  "validateAndroidHomeEnvVariable c fs t =
     (if \<not> truthy (androidHome t) \<or> \<not> fs_exists fs (the (androidHome t))
      then [androidHome_not_set_warning c]
      else if length (map (\<lambda>dir. fs_exists fs (path_join [the (androidHome t), dir]))
                        expectedDirectoriesInAndroidHome) = 0
      then [androidHome_incorrect_warning c]
      else [])"

section \<open>Collaborators of SysInfo: processes, host, registry\<close>

record IProcessInfo =
  stdout :: string
  stderr :: string
  exitCode :: nat

text \<open>What the operating system does with a command line: it cannot be started, or it
  runs and exits with a code and its output.\<close>

datatype process_outcome = SpawnError error | Exit IProcessInfo

text \<open>
  The environment of one call: the file system, the outcome of every command line, the
  host flags of \<open>HostInfo\<close>, the registry reader, the process variables, the temporary
  directory maker and the line separator. It is a parameter of every operation, so two
  calls can meet two different environments.
\<close>

record environment =
  fileSystem :: file_system
  run_process :: "string \<Rightarrow> process_outcome"
  isDarwin :: bool
  isWindows :: bool
  isLinux :: bool
  isWindows64 :: bool
  dotNetVersion :: "error + string option"
  getRegistryValue :: "string \<Rightarrow> error + string option"
  process_env :: "string \<Rightarrow> string option"
  process_version :: string
  process_arch :: string
  os_platform :: string
  osenv_shell :: "string option"
  temp_mkdirSync :: "string \<Rightarrow> error + string"
  dirname :: string
  EOL :: string

section \<open>SysInfo: the state\<close>

record ISysInfoData =
  platform :: string
  shell :: "string option"
  os :: "string option"
  procArch :: string
  nodeVer :: "string option"
  npmVer :: "string option"
  nodeGypVer :: "string option"
  dotNetVer :: "string option"
  javaVer :: "string option"
  javacVersion :: "string option"
  xcodeVer :: "string option"
  xcodeprojGemLocation :: "string option"
  itunesInstalled :: "bool option"
  cocoaPodsVer :: "string option"
  adbVer :: "string option"
  androidInstalled :: "bool option"
  monoVer :: "string option"
  gitVer :: "string option"
  gradleVer :: "string option"
  isCocoaPodsWorkingCorrectly_value :: "bool option"
  nativeScriptCliVersion :: "string option"
  isCocoaPodsUpdateRequired_value :: "bool option"
  cocoapodVer :: "string option"

text \<open>
  \<open>isCocoaPodsWorkingCorrectly_value\<close> and \<open>isCocoaPodsUpdateRequired_value\<close> are the
  properties \<open>isCocoaPodsWorkingCorrectly\<close> and \<open>isCocoaPodsUpdateRequired\<close> of the
  snapshot (the methods of \<open>SysInfo\<close> keep the plain names). \<open>cocoapodVer\<close> is the
  property \<open>Doctor.getWarnings\<close> reads; \<open>getSysInfo\<close> assigns \<open>cocoaPodsVer\<close> and
  never \<open>cocoapodVer\<close>, which therefore reads as \<open>undefined\<close>.
\<close>

record IXcprojInfo =
  shouldUseXcproj :: bool
  xcprojAvailable :: "bool option"

text \<open>
  The fields of the class, plus \<open>executed\<close>: the command lines the process has run so
  far, in order (the trace of the environment, not a field of the class).
  \<open>monoVerRegExp_lastIndex\<close> is the \<open>lastIndex\<close> of the global regular expression
  \<open>monoVerRegExp\<close>.
\<close>

record SysInfo =
  javaVerCache :: "string option"
  javaCompilerVerCache :: "string option"
  xCodeVerCache :: "string option"
  npmVerCache :: "string option"
  nodeGypVerCache :: "string option"
  xCodeprojGemLocationCache :: "string option"
  iTunesInstalledCache :: "bool option"
  cocoaPodsVerCache :: "string option"
  osCache :: "string option"
  adbVerCache :: "string option"
  androidInstalledCache :: "bool option"
  monoVerCache :: "string option"
  gitVerCache :: "string option"
  gradleVerCache :: "string option"
  sysInfoCache :: "ISysInfoData option"
  isCocoaPodsWorkingCorrectlyCache :: "bool option"
  nativeScriptCliVersionCache :: "string option"
  xcprojInfoCache :: "IXcprojInfo option"
  isCocoaPodsUpdateRequiredCache :: "bool option"
  shouldCache :: bool
  monoVerRegExp_lastIndex :: nat
  executed :: "string list"

definition new_SysInfo :: SysInfo where
  "new_SysInfo =
     \<lparr> javaVerCache = None, javaCompilerVerCache = None, xCodeVerCache = None,
       npmVerCache = None, nodeGypVerCache = None, xCodeprojGemLocationCache = None,
       iTunesInstalledCache = None, cocoaPodsVerCache = None, osCache = None,
       adbVerCache = None, androidInstalledCache = None, monoVerCache = None,
       gitVerCache = None, gradleVerCache = None, sysInfoCache = None,
       isCocoaPodsWorkingCorrectlyCache = None, nativeScriptCliVersionCache = None,
       xcprojInfoCache = None, isCocoaPodsUpdateRequiredCache = None,
       shouldCache = True, monoVerRegExp_lastIndex = 0, executed = [] \<rparr>"

section \<open>Promises: state passing with rejection\<close>

type_synonym 'a promise = "SysInfo \<Rightarrow> (error + 'a) \<times> SysInfo"

definition resolve :: "'a \<Rightarrow> 'a promise" where
  "resolve x s = (Inr x, s)"

definition reject :: "error \<Rightarrow> 'a promise" where
  "reject e s = (Inl e, s)"

definition await :: "'a promise \<Rightarrow> ('a \<Rightarrow> 'b promise) \<Rightarrow> 'b promise" where
  "await m f s = (case m s of (Inl e, s') \<Rightarrow> (Inl e, s') | (Inr x, s') \<Rightarrow> f x s')"

definition try_catch :: "'a promise \<Rightarrow> (error \<Rightarrow> 'a promise) \<Rightarrow> 'a promise" where
  "try_catch m h s = (case m s of (Inl e, s') \<Rightarrow> h e s' | (Inr x, s') \<Rightarrow> (Inr x, s'))"

definition settled :: "error + 'a \<Rightarrow> 'a promise" where
  "settled r s = (r, s)"

subsection \<open>The process runner\<close>

text \<open>
  Modelled from the spec: the wrapper \<open>wrappers/child-process.ts\<close> is not among the
  sources. The spec's Process Runner returns \<open>{exitCode, stdout, stderr}\<close> and "by
  default rejects/fails on nonzero exit unless an ignore-error option is set". A command
  that cannot be started rejects. Every run is appended to \<open>executed\<close>.
\<close>

definition command_failed :: "string \<Rightarrow> IProcessInfo \<Rightarrow> error" where
  "command_failed cmd r = Error (''Command '' @ cmd @ '' failed'')"

definition run_command :: "environment \<Rightarrow> string \<Rightarrow> bool \<Rightarrow> IProcessInfo promise" where
  "run_command env cmd ignoreError s =
     (let s' = s\<lparr>executed := executed s @ [cmd]\<rparr> in
      case run_process env cmd of
        SpawnError e \<Rightarrow> (Inl e, s')
      | Exit r \<Rightarrow>
          if ignoreError \<or> exitCode r = 0 then (Inr r, s') else (Inl (command_failed cmd r), s'))"

definition childProcess_exec :: "environment \<Rightarrow> string \<Rightarrow> IProcessInfo promise" where
  "childProcess_exec env cmd = run_command env cmd False"

definition childProcess_spawnFromEvent :: "environment \<Rightarrow> string \<Rightarrow> string list \<Rightarrow> bool \<Rightarrow> IProcessInfo promise" where
  "childProcess_spawnFromEvent env command args ignoreError =
     run_command env (join_with '' '' (command # args)) ignoreError"

subsection \<open>The memoization wrapper\<close>

text \<open>
  \<open>getValueForProperty(property, getValueMethod)\<close>. \<open>helpers.getPropertyName\<close> turns
  the function \<open>() => this.xCache\<close> into the name of the field; here the field is given
  by its reader \<open>property\<close> and its writer \<open>assign\<close>.
\<close>

definition getValueForProperty :: "(SysInfo \<Rightarrow> 'a option) \<Rightarrow> ('a option \<Rightarrow> SysInfo \<Rightarrow> SysInfo) \<Rightarrow> 'a option promise \<Rightarrow> 'a option promise" where
  "getValueForProperty property assign getValueMethod s =
     (if shouldCache s then
        (case property s of
           None \<Rightarrow>
             (case getValueMethod s of
                (Inl e, s') \<Rightarrow> (Inl e, s')
              | (Inr result, s') \<Rightarrow> (Inr result, assign result s'))
         | Some cachedValue \<Rightarrow> (Inr (Some cachedValue), s))
      else getValueMethod s)"

definition setShouldCacheSysInfo :: "bool \<Rightarrow> SysInfo \<Rightarrow> SysInfo" where
  "setShouldCacheSysInfo b s = s\<lparr>shouldCache := b\<rparr>"

definition exec :: "environment \<Rightarrow> string \<Rightarrow> IProcessInfo option promise" where
  "exec env cmd =
     (if cmd \<noteq> [] then
        try_catch (await (childProcess_exec env cmd) (\<lambda>r. resolve (Some r)))
          (\<lambda>err. resolve None)
      else resolve None)"

definition execCommand :: "environment \<Rightarrow> string \<Rightarrow> string option promise" where
  "execCommand env cmd =
     await (exec env cmd) (\<lambda>output. resolve (map_option stdout output))"

subsection \<open>The regular expressions of SysInfo\<close>

text \<open>A search tries the pattern at every position, leftmost first.\<close>

fun first_match :: "(string \<Rightarrow> 'a option) \<Rightarrow> string \<Rightarrow> 'a option" where
  "first_match f [] = f []"
| "first_match f (c # cs) = (case f (c # cs) of Some r \<Rightarrow> Some r | None \<Rightarrow> first_match f cs)"

definition to_lower :: "char \<Rightarrow> char" where
  "to_lower c = (if c \<in> set ''ABCDEFGHIJKLMNOPQRSTUVWXYZ'' then char_of (of_char c + (32::nat)) else c)"

text \<open>A literal at the start of a string, and what follows it; with flag \<open>i\<close>, ignoring case.\<close>

definition literal :: "string \<Rightarrow> string \<Rightarrow> string option" where
  "literal lit s = (if prefix lit s then Some (drop (length lit) s) else None)"

definition literal_i :: "string \<Rightarrow> string \<Rightarrow> string option" where
  "literal_i lit s =
     (if length lit \<le> length s \<and> map to_lower (take (length lit) s) = map to_lower lit
      then Some (drop (length lit) s) else None)"

definition is_line_terminator :: "char \<Rightarrow> bool" where
  "is_line_terminator c = (c = CHR 0x0A \<or> c = CHR 0x0D)"

text \<open>The group \<open>(.*)\<close>: the rest of the line.\<close>

definition rest_of_line :: "string \<Rightarrow> string" where
  "rest_of_line s = takeWhile (\<lambda>c. \<not> is_line_terminator c) s"

definition is_word_char :: "char \<Rightarrow> bool" where
  "is_word_char c = (is_digit c \<or> is_alpha c \<or> c = CHR ''_'')"

text \<open>
  \<open>JAVA_VERSION_REGEXP = /(?:openjdk|java) version \"((?:\d+\.)+(?:\d+))/i\<close>. The group
  is the longest run \<open>d.d. ... .d\<close> with at least one dot: of the digits and dots that
  follow the quote, the segments before the first empty one.
\<close>

definition dotted_number :: "string \<Rightarrow> string option" where
  "dotted_number s =
     (let segs = takeWhile (\<lambda>seg. seg \<noteq> [])
                   (split_on CHR ''.'' (takeWhile (\<lambda>c. is_digit c \<or> c = CHR ''.'') s))
      in if length segs < 2 then None else Some (join_with ''.'' segs))"

definition java_version_at :: "string \<Rightarrow> string option" where
  "java_version_at s =
     (case (case literal_i ''openjdk'' s of Some r \<Rightarrow> Some r | None \<Rightarrow> literal_i ''java'' s) of
        None \<Rightarrow> None
      | Some r \<Rightarrow>
          (case literal_i '' version \"'' r of None \<Rightarrow> None | Some q \<Rightarrow> dotted_number q))"

definition JAVA_VERSION_REGEXP_exec :: "string \<Rightarrow> string option" where
  "JAVA_VERSION_REGEXP_exec s = first_match java_version_at s"

text \<open>
  \<open>JAVA_COMPILER_VERSION_REGEXP = /^javac (.*)/im\<close>: with flag \<open>m\<close> the pattern may
  start at the beginning of any line.
\<close>

fun javac_search :: "bool \<Rightarrow> string \<Rightarrow> string option" where
  "javac_search atLineStart [] = None"
| "javac_search atLineStart (c # cs) =
     (case (if atLineStart then literal_i ''javac '' (c # cs) else None) of
        Some r \<Rightarrow> Some (rest_of_line r)
      | None \<Rightarrow> javac_search (is_line_terminator c) cs)"

definition JAVA_COMPILER_VERSION_REGEXP_exec :: "string \<Rightarrow> string option" where
  "JAVA_COMPILER_VERSION_REGEXP_exec s = javac_search True s"

text \<open>\<open>XCODE_VERSION_REGEXP = /Xcode (.*)/\<close>; only whether it matches is used.\<close>

definition XCODE_VERSION_REGEXP_match :: "string \<Rightarrow> string option" where
  "XCODE_VERSION_REGEXP_match s =
     first_match (\<lambda>t. map_option rest_of_line (literal ''Xcode '' t)) s"

text \<open>
  \<open>VERSION_REGEXP = /(\d{1,})\.(\d{1,})\.*([\w-]{0,})/m\<close>: the whole match and the
  three groups.
\<close>

record version_match =
  whole :: string
  group1 :: string
  group2 :: string
  group3 :: string

definition version_regexp_at :: "string \<Rightarrow> version_match option" where
  "version_regexp_at s =
     (let d1 = takeWhile is_digit s in
      case dropWhile is_digit s of
        [] \<Rightarrow> None
      | c # r \<Rightarrow>
          (let d2 = takeWhile is_digit r;
               r2 = dropWhile is_digit r;
               dots = takeWhile (\<lambda>x. x = CHR ''.'') r2;
               g3 = takeWhile (\<lambda>x. is_word_char x \<or> x = CHR ''-'')
                      (dropWhile (\<lambda>x. x = CHR ''.'') r2)
           in if d1 \<noteq> [] \<and> c = CHR ''.'' \<and> d2 \<noteq> []
              then Some \<lparr> whole = d1 @ ''.'' @ d2 @ dots @ g3,
                          group1 = d1, group2 = d2, group3 = g3 \<rparr>
              else None))"

definition VERSION_REGEXP_match :: "string \<Rightarrow> version_match option" where
  "VERSION_REGEXP_match s = first_match version_regexp_at s"

text \<open>\<open>GIT_VERSION_REGEXP = /^git version (.*)/\<close>, without flags: at the start only.\<close>

definition GIT_VERSION_REGEXP_exec :: "string \<Rightarrow> string option" where
  "GIT_VERSION_REGEXP_exec s = map_option rest_of_line (literal ''git version '' s)"

text \<open>\<open>GRADLE_VERSION_REGEXP = /Gradle (.*)/i\<close>.\<close>

definition GRADLE_VERSION_REGEXP_exec :: "string \<Rightarrow> string option" where
  "GRADLE_VERSION_REGEXP_exec s =
     first_match (\<lambda>t. map_option rest_of_line (literal_i ''Gradle '' t)) s"

text \<open>
  \<open>monoVerRegExp = /version (\d+[.]\d+[.]\d+) /gm\<close> is global: \<open>exec\<close> starts at
  \<open>lastIndex\<close>, and leaves there the end of the match, or \<open>0\<close> when nothing matches.
  The result is the group and the new \<open>lastIndex\<close>.
\<close>

definition mono_at :: "string \<Rightarrow> (string \<times> nat) option" where
  "mono_at s =
     (case literal ''version '' s of
        None \<Rightarrow> None
      | Some r \<Rightarrow>
          (case version_at r of
             None \<Rightarrow> None
           | Some v \<Rightarrow>
               (case drop (length v) r of
                  [] \<Rightarrow> None
                | c # q \<Rightarrow> if c = CHR '' '' then Some (v, 8 + length v + 1) else None)))"

fun mono_search :: "nat \<Rightarrow> string \<Rightarrow> (string \<times> nat) option" where
  "mono_search i [] = None"
| "mono_search i (c # cs) =
     (case mono_at (c # cs) of
        Some (v, len) \<Rightarrow> Some (v, i + len)
      | None \<Rightarrow> mono_search (Suc i) cs)"

definition monoVerRegExp_exec :: "string \<Rightarrow> nat \<Rightarrow> string option \<times> nat" where
  "monoVerRegExp_exec s lastIndex =
     (if lastIndex > length s then (None, 0)
      else (case mono_search lastIndex (drop lastIndex s) of
              None \<Rightarrow> (None, 0)
            | Some (v, e) \<Rightarrow> (Some v, e)))"

text \<open>A regular expression applied to \<open>null\<close> is applied to the string \<open>null\<close>.\<close>

definition to_string :: "string option \<Rightarrow> string" where
  "to_string v = (case v of None \<Rightarrow> ''null'' | Some s \<Rightarrow> s)"

definition getVersionFromString :: "string \<Rightarrow> string option" where
  "getVersionFromString versionString =
     (case VERSION_REGEXP_match versionString of
        Some matches \<Rightarrow>
          Some (group1 matches @ ''.'' @ group2 matches @ ''.'' @
                (if group3 matches \<noteq> [] then group3 matches else ''0''))
      | None \<Rightarrow> None)"

section \<open>SysInfo: the probe accessors\<close>

definition getJavaVersion :: "environment \<Rightarrow> string option promise" where
  "getJavaVersion env =
     getValueForProperty javaVerCache (\<lambda>v s. s\<lparr>javaVerCache := v\<rparr>)
       (try_catch
          (await (childProcess_spawnFromEvent env ''java'' [''-version''] False)
             (\<lambda>spawnResult. resolve (JAVA_VERSION_REGEXP_exec (stderr spawnResult))))
          (\<lambda>err. resolve None))"

definition getJavaCompilerVersion :: "environment \<Rightarrow> string option promise" where
  "getJavaCompilerVersion env =
     getValueForProperty javaCompilerVerCache (\<lambda>v s. s\<lparr>javaCompilerVerCache := v\<rparr>)
       (let javaCompileExecutableName = ''javac'';
            javaHome = process_env env ''JAVA_HOME'';
            pathToJavaCompilerExecutable =
              (if truthy javaHome then path_join [the javaHome, ''bin'', javaCompileExecutableName]
               else javaCompileExecutableName)
        in try_catch
             (await (childProcess_exec env (''\"'' @ pathToJavaCompilerExecutable @ ''\" -version''))
                (\<lambda>output.
                   case JAVA_COMPILER_VERSION_REGEXP_exec (stderr output) of
                     None \<Rightarrow> reject (TypeError ''Cannot read property 1 of null'')
                   | Some v \<Rightarrow> resolve (Some v)))
             (\<lambda>err. resolve None))"

definition getXcodeVersion :: "environment \<Rightarrow> string option promise" where
  "getXcodeVersion env =
     getValueForProperty xCodeVerCache (\<lambda>v s. s\<lparr>xCodeVerCache := v\<rparr>)
       (if isDarwin env then
          await (execCommand env ''xcodebuild -version'')
            (\<lambda>output.
               if truthy output \<and> XCODE_VERSION_REGEXP_match (the output) \<noteq> None
               then resolve (getVersionFromString (the output))
               else resolve None)
        else resolve None)"

definition getNodeVersion :: "environment \<Rightarrow> string option promise" where
  "getNodeVersion env = resolve (getVersionFromString (process_version env))"

definition getNpmVersion :: "environment \<Rightarrow> string option promise" where
  "getNpmVersion env =
     getValueForProperty npmVerCache (\<lambda>v s. s\<lparr>npmVerCache := v\<rparr>)
       (await (execCommand env ''npm -v'')
          (\<lambda>output.
             resolve (if truthy output then Some (hd (split_on CHR 0x0A (the output))) else None)))"

definition getNodeGypVersion :: "environment \<Rightarrow> string option promise" where
  "getNodeGypVersion env =
     getValueForProperty nodeGypVerCache (\<lambda>v s. s\<lparr>nodeGypVerCache := v\<rparr>)
       (await (execCommand env ''node-gyp -v'')
          (\<lambda>output. resolve (if truthy output then getVersionFromString (the output) else None)))"

definition getXcodeprojGemLocation :: "environment \<Rightarrow> string option promise" where
  "getXcodeprojGemLocation env =
     getValueForProperty xCodeprojGemLocationCache (\<lambda>v s. s\<lparr>xCodeprojGemLocationCache := v\<rparr>)
       (await (execCommand env ''gem which xcodeproj'')
          (\<lambda>output. resolve (if truthy output then Some (trim (the output)) else None)))"

text \<open>
  \<open>isITunesInstalled\<close>: on Windows \<open>path.join\<close> throws when the variable of the common
  program files is not set; on a host that is none of the three, both paths are
  \<open>undefined\<close>, and \<open>exists(undefined)\<close> is false.
\<close>

definition isITunesInstalled :: "environment \<Rightarrow> bool option promise" where
  "isITunesInstalled env =
     getValueForProperty iTunesInstalledCache (\<lambda>v s. s\<lparr>iTunesInstalledCache := v\<rparr>)
       (if isLinux env then resolve (Some False)
        else if isWindows env then
          (let commonProgramFiles =
                 (if isWindows64 env then process_env env ''CommonProgramFiles(x86)''
                  else process_env env ''CommonProgramFiles'')
           in case commonProgramFiles of
                None \<Rightarrow> reject (TypeError ''Path must be a string. Received undefined'')
              | Some dir \<Rightarrow>
                  (let coreFoundationDir = path_join [dir, ''Apple'', ''Apple Application Support''];
                       mobileDeviceDir = path_join [dir, ''Apple'', ''Mobile Device Support'']
                   in resolve (Some (fs_exists (fileSystem env) coreFoundationDir \<and>
                                     fs_exists (fileSystem env) mobileDeviceDir))))
        else if isDarwin env then
          (let coreFoundationDir = ''/System/Library/Frameworks/CoreFoundation.framework/CoreFoundation'';
               mobileDeviceDir = ''/System/Library/PrivateFrameworks/MobileDevice.framework/MobileDevice''
           in resolve (Some (fs_exists (fileSystem env) coreFoundationDir \<and>
                             fs_exists (fileSystem env) mobileDeviceDir)))
        else resolve (Some False))"

definition getCocoaPodsVersion :: "environment \<Rightarrow> string option promise" where
  "getCocoaPodsVersion env =
     getValueForProperty cocoaPodsVerCache (\<lambda>v s. s\<lparr>cocoaPodsVerCache := v\<rparr>)
       (if isDarwin env then
          await (execCommand env ''pod --version'')
            (\<lambda>output.
               case (if truthy output then VERSION_REGEXP_match (the output) else None) of
                 Some cocoaPodsVersionMatch \<Rightarrow>
                   if whole cocoaPodsVersionMatch \<noteq> []
                   then resolve (Some (trim (whole cocoaPodsVersionMatch)))
                   else resolve None
               | None \<Rightarrow> resolve None)
        else resolve None)"

text \<open>\<open>winVer\<close> has no \<open>try\<close>: a rejected registry read rejects \<open>getOs\<close>.\<close>

definition render :: "string option \<Rightarrow> string" where
  "render v = (case v of None \<Rightarrow> ''undefined'' | Some s \<Rightarrow> s)"

definition winVer :: "environment \<Rightarrow> string option promise" where
  "winVer env =
     await (settled (getRegistryValue env ''ProductName'')) (\<lambda>productName.
     await (settled (getRegistryValue env ''CurrentVersion'')) (\<lambda>currentVersion.
     await (settled (getRegistryValue env ''CurrentBuild'')) (\<lambda>currentBuild.
       resolve (Some (render productName @ '' '' @ render currentVersion @ ''.'' @
                      render currentBuild)))))"

definition unixVer :: "environment \<Rightarrow> string option promise" where
  "unixVer env = execCommand env ''uname -a''"

definition getOs :: "environment \<Rightarrow> string option promise" where
  "getOs env =
     getValueForProperty osCache (\<lambda>v s. s\<lparr>osCache := v\<rparr>)
       (if isWindows env then winVer env else unixVer env)"

definition getAdbVersion :: "environment \<Rightarrow> string option promise" where
  "getAdbVersion env =
     getValueForProperty adbVerCache (\<lambda>v s. s\<lparr>adbVerCache := v\<rparr>)
       (await (execCommand env ''adb version'')
          (\<lambda>output. resolve (if truthy output then getVersionFromString (the output) else None)))"

definition isAndroidInstalled :: "environment \<Rightarrow> bool option promise" where
  "isAndroidInstalled env =
     getValueForProperty androidInstalledCache (\<lambda>v s. s\<lparr>androidInstalledCache := v\<rparr>)
       (let pathToAndroid = (if isWindows env then ''android'' @ ''.bat'' else ''android'')
        in try_catch
             (await (childProcess_spawnFromEvent env pathToAndroid [''-h''] True)
                (\<lambda>output. resolve (Some (indexOf (stdout output) ''android'' \<ge> 0))))
             (\<lambda>err. resolve None))"

definition getMonoVersion :: "environment \<Rightarrow> string option promise" where
  "getMonoVersion env =
     getValueForProperty monoVerCache (\<lambda>v s. s\<lparr>monoVerCache := v\<rparr>)
       (await (execCommand env ''mono --version'')
          (\<lambda>output s.
             (case monoVerRegExp_exec (to_string output) (monoVerRegExp_lastIndex s) of
                (match, lastIndex) \<Rightarrow> (Inr match, s\<lparr>monoVerRegExp_lastIndex := lastIndex\<rparr>))))"

definition getGitVersion :: "environment \<Rightarrow> string option promise" where
  "getGitVersion env =
     getValueForProperty gitVerCache (\<lambda>v s. s\<lparr>gitVerCache := v\<rparr>)
       (await (execCommand env ''git --version'')
          (\<lambda>output. resolve (GIT_VERSION_REGEXP_exec (to_string output))))"

definition getGradleVersion :: "environment \<Rightarrow> string option promise" where
  "getGradleVersion env =
     getValueForProperty gradleVerCache (\<lambda>v s. s\<lparr>gradleVerCache := v\<rparr>)
       (await (execCommand env ''gradle -v'')
          (\<lambda>output. resolve (GRADLE_VERSION_REGEXP_exec (to_string output))))"

text \<open>
  \<open>isCocoaPodsWorkingCorrectly\<close>: the temporary directory and the extraction of the
  fixture stand before the \<open>try\<close>; only the install step is inside it.
\<close>

definition isCocoaPodsWorkingCorrectly :: "environment \<Rightarrow> bool option promise" where
  "isCocoaPodsWorkingCorrectly env =
     getValueForProperty isCocoaPodsWorkingCorrectlyCache
       (\<lambda>v s. s\<lparr>isCocoaPodsWorkingCorrectlyCache := v\<rparr>)
       (if isDarwin env then
          await (settled (temp_mkdirSync env ''nativescript-check-cocoapods'')) (\<lambda>tempDirectory.
            let pathToXCodeProjectZip =
                  path_join [dirname env, ''..'', ''resources'', ''cocoapods-verification'', ''cocoapods.zip'']
            in
            await (settled (fs_extractZip (fileSystem env) pathToXCodeProjectZip tempDirectory)) (\<lambda>_.
              let xcodeProjectDir = path_join [tempDirectory, ''cocoapods''] in
              try_catch
                (await (childProcess_spawnFromEvent env ''pod'' [''install''] False)
                   (\<lambda>spawnResult.
                      if exitCode spawnResult \<noteq> 0 then resolve (Some False)
                      else resolve (Some (fs_exists (fileSystem env)
                                            (path_join [xcodeProjectDir, ''cocoapods.xcworkspace''])))))
                (\<lambda>err. resolve None)))
        else resolve (Some False))"

definition getNativeScriptCliVersion :: "environment \<Rightarrow> string option promise" where
  "getNativeScriptCliVersion env =
     getValueForProperty nativeScriptCliVersionCache (\<lambda>v s. s\<lparr>nativeScriptCliVersionCache := v\<rparr>)
       (await (execCommand env ''tns --version'')
          (\<lambda>output. resolve (if truthy output then Some (trim (the output)) else output)))"

text \<open>
  \<open>getXcprojInfo\<close>: \<open>semver.lt\<close> and \<open>semver.gte\<close> are called outside any \<open>try\<close>, and
  throw on a version that is absent or not a version.
\<close>

definition getXcprojInfo :: "environment \<Rightarrow> IXcprojInfo option promise" where
  "getXcprojInfo env =
     getValueForProperty xcprojInfoCache (\<lambda>v s. s\<lparr>xcprojInfoCache := v\<rparr>)
       (await (getCocoaPodsVersion env) (\<lambda>cocoaPodsVersion.
        await (getXcodeVersion env) (\<lambda>xcodeVersion.
        await (if truthy cocoaPodsVersion then
                 await (settled (semver_lt cocoaPodsVersion ''1.0.0'')) (\<lambda>lower.
                   if lower then settled (semver_gte xcodeVersion ''7.3.0'') else resolve False)
               else resolve False) (\<lambda>shouldUseXcproj.
        if shouldUseXcproj then
          await (exec env ''xcproj --version'') (\<lambda>info.
            resolve (Some \<lparr> shouldUseXcproj = shouldUseXcproj,
                             xcprojAvailable = Some (info \<noteq> None) \<rparr>))
        else resolve (Some \<lparr> shouldUseXcproj = shouldUseXcproj, xcprojAvailable = None \<rparr>)))))"

definition isCocoaPodsUpdateRequired :: "environment \<Rightarrow> bool option promise" where
  "isCocoaPodsUpdateRequired env =
     getValueForProperty isCocoaPodsUpdateRequiredCache
       (\<lambda>v s. s\<lparr>isCocoaPodsUpdateRequiredCache := v\<rparr>)
       (await (getXcprojInfo env) (\<lambda>xcprojInfo.
          case xcprojInfo of
            None \<Rightarrow> reject (TypeError ''Cannot read property shouldUseXcproj of null'')
          | Some info \<Rightarrow>
              if shouldUseXcproj info \<and> \<not> truthy_bool (xcprojAvailable info)
              then resolve (Some True) else resolve (Some False)))"

definition getSysInfo :: "environment \<Rightarrow> ISysInfoData option promise" where
  "getSysInfo env =
     getValueForProperty sysInfoCache (\<lambda>v s. s\<lparr>sysInfoCache := v\<rparr>)
       (await (getOs env) (\<lambda>r_os.
        await (getNodeVersion env) (\<lambda>r_nodeVer.
        await (getNpmVersion env) (\<lambda>r_npmVer.
        await (getNodeGypVersion env) (\<lambda>r_nodeGypVer.
        await (settled (dotNetVersion env)) (\<lambda>r_dotNetVer.
        await (getJavaVersion env) (\<lambda>r_javaVer.
        await (getJavaCompilerVersion env) (\<lambda>r_javacVersion.
        await (getXcodeVersion env) (\<lambda>r_xcodeVer.
        await (getXcodeprojGemLocation env) (\<lambda>r_xcodeprojGemLocation.
        await (isITunesInstalled env) (\<lambda>r_itunesInstalled.
        await (getCocoaPodsVersion env) (\<lambda>r_cocoaPodsVer.
        await (getAdbVersion env) (\<lambda>r_adbVer.
        await (isAndroidInstalled env) (\<lambda>r_androidInstalled.
        await (getMonoVersion env) (\<lambda>r_monoVer.
        await (getGitVersion env) (\<lambda>r_gitVer.
        await (getGradleVersion env) (\<lambda>r_gradleVer.
        await (isCocoaPodsWorkingCorrectly env) (\<lambda>r_isCocoaPodsWorkingCorrectly.
        await (getNativeScriptCliVersion env) (\<lambda>r_nativeScriptCliVersion.
        await (isCocoaPodsUpdateRequired env) (\<lambda>r_isCocoaPodsUpdateRequired.
          resolve (Some
            \<lparr> platform = os_platform env, shell = osenv_shell env, os = r_os,
              procArch = process_arch env, nodeVer = r_nodeVer, npmVer = r_npmVer,
              nodeGypVer = r_nodeGypVer, dotNetVer = r_dotNetVer, javaVer = r_javaVer,
              javacVersion = r_javacVersion, xcodeVer = r_xcodeVer,
              xcodeprojGemLocation = r_xcodeprojGemLocation,
              itunesInstalled = r_itunesInstalled, cocoaPodsVer = r_cocoaPodsVer,
              adbVer = r_adbVer, androidInstalled = r_androidInstalled, monoVer = r_monoVer,
              gitVer = r_gitVer, gradleVer = r_gradleVer,
              isCocoaPodsWorkingCorrectly_value = r_isCocoaPodsWorkingCorrectly,
              nativeScriptCliVersion = r_nativeScriptCliVersion,
              isCocoaPodsUpdateRequired_value = r_isCocoaPodsUpdateRequired,
              cocoapodVer = None \<rparr>)))))))))))))))))))))"

section \<open>Doctor\<close>

definition MIN_SUPPORTED_POD_VERSION :: string where
  "MIN_SUPPORTED_POD_VERSION = ''0.38.2''"

text \<open>The warnings of \<open>getWarnings\<close>; they carry no \<open>platforms\<close>.\<close>

definition adb_warning :: "string \<Rightarrow> IWarning" where
  "adb_warning eol =
     \<lparr> warning = ''WARNING: adb from the Android SDK is not installed or is not configured properly. '',
       additionalInformation = ''For Android-related operations, the AppBuilder CLI will use a built-in version of adb.'' @ eol
         @ ''To avoid possible issues with the native Android emulator, Genymotion or connected'' @ eol
         @ ''Android devices, verify that you have installed the latest Android SDK and'' @ eol
         @ ''its dependencies as described in http://developer.android.com/sdk/index.html#Requirements'' @ eol,
       platforms = [] \<rparr>"

definition android_sdk_warning :: "string \<Rightarrow> IWarning" where
  "android_sdk_warning eol =
     \<lparr> warning = ''WARNING: The Android SDK is not installed or is not configured properly.'',
       additionalInformation = ''You will not be able to run your apps in the native emulator. To be able to run apps'' @ eol
         @ ''in the native Android emulator, verify that you have installed the latest Android SDK '' @ eol
         @ ''and its dependencies as described in http://developer.android.com/sdk/index.html#Requirements'' @ eol,
       platforms = [] \<rparr>"

definition xcode_warning :: "string \<Rightarrow> IWarning" where
  "xcode_warning eol =
     \<lparr> warning = ''WARNING: Xcode is not installed or is not configured properly.'',
       additionalInformation = ''You will not be able to build your projects for iOS or run them in the iOS Simulator.'' @ eol
         @ ''To be able to build for iOS and run apps in the native emulator, verify that you have installed Xcode.'' @ eol,
       platforms = [] \<rparr>"

definition xcodeproj_warning :: "string \<Rightarrow> IWarning" where
  "xcodeproj_warning eol =
     \<lparr> warning = ''WARNING: xcodeproj gem is not installed or is not configured properly.'',
       additionalInformation = ''You will not be able to build your projects for iOS.'' @ eol
         @ ''To be able to build for iOS and run apps in the native emulator, verify that you have installed xcodeproj.'' @ eol,
       platforms = [] \<rparr>"

definition cocoapods_warning :: "string \<Rightarrow> IWarning" where
  "cocoapods_warning eol =
     \<lparr> warning = ''WARNING: CocoaPods is not installed or is not configured properly.'',
       additionalInformation = ''You will not be able to build your projects for iOS if they contain plugin with CocoaPod file.'' @ eol
         @ ''To be able to build such projects, verify that you have installed CocoaPods.'',
       platforms = [] \<rparr>"

definition cocoapods_problem_warning :: "string \<Rightarrow> IWarning" where
  "cocoapods_problem_warning eol =
     \<lparr> warning = ''WARNING: There was a problem with CocoaPods'',
       additionalInformation = ''Verify that CocoaPods are configured properly.'',
       platforms = [] \<rparr>"

definition cocoapods_version_warning :: "string \<Rightarrow> IWarning" where
  "cocoapods_version_warning eol =
     \<lparr> warning = ''WARNING: Your current CocoaPods version is earlier than '' @ MIN_SUPPORTED_POD_VERSION @ ''.'',
       additionalInformation = ''You will not be able to build your projects for iOS if they contain plugin with CocoaPod file.'' @ eol
         @ ''To be able to build such projects, verify that you have at least '' @ MIN_SUPPORTED_POD_VERSION @ '' version installed.'',
       platforms = [] \<rparr>"

definition mono_warning :: "string \<Rightarrow> IWarning" where
  "mono_warning eol =
     \<lparr> warning = ''WARNING: Mono 3.12 or later is not installed or not configured properly.'',
       additionalInformation = ''You will not be able to work with Android devices in the device simulator or debug on connected Android devices.'' @ eol
         @ ''To be able to work with Android in the device simulator and debug on connected Android devices,'' @ eol
         @ ''download and install Mono 3.12 or later from http://www.mono-project.com/download/'' @ eol,
       platforms = [] \<rparr>"

definition ios_note :: "string \<Rightarrow> IWarning" where
  "ios_note eol =
     \<lparr> warning = ''NOTE: You can develop for iOS only on Mac OS X systems.'',
       additionalInformation = ''To be able to work with iOS devices and projects, you need Mac OS X Mavericks or later.'' @ eol,
       platforms = [] \<rparr>"

definition itunes_warning :: "string \<Rightarrow> IWarning" where
  "itunes_warning eol =
     \<lparr> warning = ''WARNING: iTunes is not installed.'',
       additionalInformation = ''You will not be able to work with iOS devices via cable connection.'' @ eol
         @ ''To be able to work with connected iOS devices,'' @ eol
         @ ''download and install iTunes from http://www.apple.com'' @ eol,
       platforms = [] \<rparr>"

definition jdk_warning :: "string \<Rightarrow> IWarning" where
  "jdk_warning eol =
     \<lparr> warning = ''WARNING: The Java Development Kit (JDK) is not installed or is not configured properly.'',
       additionalInformation = ''You will not be able to work with the Android SDK and you might not be able'' @ eol
         @ ''to perform some Android-related operations. To ensure that you can develop and'' @ eol
         @ ''test your apps for Android, verify that you have installed the JDK as'' @ eol
         @ ''described in http://docs.oracle.com/javase/8/docs/technotes/guides/install/install_overview.html (for JDK 8)'' @ eol
         @ ''or http://docs.oracle.com/javase/7/docs/webnotes/install/ (for JDK 7).'' @ eol,
       platforms = [] \<rparr>"

definition git_warning :: "string \<Rightarrow> IWarning" where
  "git_warning eol =
     \<lparr> warning = ''WARNING: Git is not installed or not configured properly.'',
       additionalInformation = ''You will not be able to create and work with Screen Builder projects.'' @ eol
         @ ''To be able to work with Screen Builder projects, download and install Git as described'' @ eol
         @ ''in https://git-scm.com/downloads and add the git executable to your PATH.'' @ eol,
       platforms = [] \<rparr>"

text \<open>\<open>if (cond) result.push(w)\<close>: the list with \<open>w\<close> appended when \<open>cond\<close> holds.\<close>

definition push_if :: "bool \<Rightarrow> IWarning \<Rightarrow> IWarning list \<Rightarrow> IWarning list" where
  "push_if cond w result = (if cond then result @ [w] else result)"

text \<open>
  The block of \<open>getWarnings\<close> under \<open>if (this.hostInfo.isDarwin)\<close>. It calls the
  accessor \<open>isCocoaPodsWorkingCorrectly\<close> (it does not read the snapshot's property),
  and \<open>semver.lt\<close> on the Mono version without \<open>semver.valid\<close> before it.
\<close>

definition darwin_checks :: "environment \<Rightarrow> ISysInfoData \<Rightarrow> IWarning list \<Rightarrow> IWarning list promise" where
  "darwin_checks env sysInfoData result0 =
     (let result1 = push_if (\<not> truthy (xcodeVer sysInfoData)) (xcode_warning (EOL env)) result0;
          result2 = push_if (\<not> truthy (xcodeprojGemLocation sysInfoData))
                      (xcodeproj_warning (EOL env)) result1;
          result3 = push_if (\<not> truthy (cocoapodVer sysInfoData)) (cocoapods_warning (EOL env)) result2
      in
      await (if truthy (xcodeVer sysInfoData) \<and> truthy (cocoapodVer sysInfoData) then
               await (isCocoaPodsWorkingCorrectly env) (\<lambda>working.
                 resolve (push_if (\<not> truthy_bool working) (cocoapods_problem_warning (EOL env)) result3))
             else resolve result3) (\<lambda>result4.
      await (if truthy (cocoapodVer sysInfoData) \<and> semver_valid (cocoapodVer sysInfoData) then
               await (settled (semver_lt (cocoapodVer sysInfoData) MIN_SUPPORTED_POD_VERSION)) (\<lambda>older.
                 resolve (push_if older (cocoapods_version_warning (EOL env)) result4))
             else resolve result4) (\<lambda>result5.
      await (if \<not> truthy (monoVer sysInfoData) then resolve True
             else settled (semver_lt (monoVer sysInfoData) ''3.12.0'')) (\<lambda>monoMissing.
        resolve (push_if monoMissing (mono_warning (EOL env)) result5)))))"

definition getWarnings_checks :: "environment \<Rightarrow> ISysInfoData \<Rightarrow> IWarning list promise" where
  "getWarnings_checks env sysInfoData =
     (let result1 = push_if (\<not> truthy (adbVer sysInfoData)) (adb_warning (EOL env)) [];
          result2 = push_if (\<not> truthy_bool (androidInstalled sysInfoData))
                      (android_sdk_warning (EOL env)) result1
      in
      await (if isDarwin env then darwin_checks env sysInfoData result2
             else resolve (result2 @ [ios_note (EOL env)])) (\<lambda>result3.
        let result4 = push_if (\<not> truthy_bool (itunesInstalled sysInfoData))
                        (itunes_warning (EOL env)) result3;
            result5 = push_if (\<not> truthy (javaVer sysInfoData)) (jdk_warning (EOL env)) result4;
            result6 = push_if (\<not> truthy (gitVer sysInfoData)) (git_warning (EOL env)) result5
        in resolve result6))"

definition getWarnings :: "environment \<Rightarrow> IWarning list promise" where
  "getWarnings env =
     await (getSysInfo env) (\<lambda>snapshot.
       case snapshot of
         None \<Rightarrow> reject (TypeError ''Cannot read property adbVer of null'')
       | Some sysInfoData \<Rightarrow> getWarnings_checks env sysInfoData)"

subsection \<open>canExecuteLocalBuild\<close>

text \<open>\<open>toLocaleLowerCase\<close>, on the ASCII letters.\<close>

definition toLocaleLowerCase :: "string \<Rightarrow> string" where
  "toLocaleLowerCase s = map to_lower s"

definition isPlatformSupported :: "constants \<Rightarrow> string \<Rightarrow> bool" where
  "isPlatformSupported c platformName =
     foldl (\<lambda>prevValue currentValue.
              if \<not> prevValue then toLocaleLowerCase currentValue = toLocaleLowerCase platformName
              else prevValue)
       False (SUPPORTED_PLATFORMS c)"

definition validatePlatform :: "constants \<Rightarrow> string \<Rightarrow> error + unit" where
  "validatePlatform c platformName =
     (if platformName = [] then Inl (Error ''You must specify a platform.'')
      else if \<not> isPlatformSupported c platformName then
        Inl (Error (''Platform '' @ platformName @ '' is not supported. The supported platforms are: ''
                    @ join_with '', '' (SUPPORTED_PLATFORMS c)))
      else Inr ())"

text \<open>
  The two requirement checks (\<open>local-build-requirements/*.ts\<close>) are not among the
  sources: their outcomes at the time of the call are parameters.
\<close>

definition canExecuteLocalBuild :: "constants \<Rightarrow> error + bool \<Rightarrow> error + bool \<Rightarrow> string \<Rightarrow> error + bool" where
  "canExecuteLocalBuild c androidCheckRequirements iosCheckRequirements platformName =
     (case validatePlatform c platformName of
        Inl e \<Rightarrow> Inl e
      | Inr _ \<Rightarrow>
          if toLocaleLowerCase platformName = toLocaleLowerCase (ANDROID_PLATFORM_NAME c)
          then androidCheckRequirements
          else if toLocaleLowerCase platformName = toLocaleLowerCase (IOS_PLATFORM_NAME c)
          then iosCheckRequirements
          else Inr False)"

section \<open>Example environments\<close>

text \<open>Hosts and SDK layouts on which the properties below are evaluated.\<close>

definition no_files :: file_system where
  "no_files = \<lparr> fs_exists = (\<lambda>p. False), fs_readDirectory = (\<lambda>p. Inl (Error ''ENOENT'')),
                 fs_extractZip = (\<lambda>zip dir. Inr ()) \<rparr>"

definition linux_bare :: environment where
  "linux_bare = \<lparr> fileSystem = no_files, run_process = (\<lambda>cmd. SpawnError (Error ''ENOENT'')),
     isDarwin = False, isWindows = False, isLinux = True, isWindows64 = False,
     dotNetVersion = Inr None, getRegistryValue = (\<lambda>n. Inr None), process_env = (\<lambda>n. None),
     process_version = ''v10.16.0'', process_arch = ''x64'', os_platform = ''linux'',
     osenv_shell = Some ''/bin/bash'', temp_mkdirSync = (\<lambda>p. Inr (''/tmp/'' @ p)),
     dirname = ''/app/lib'', EOL = [CHR 0x0A] \<rparr>"

text \<open>The same host with a JDK whose \<open>java -version\<close> prints version 1.8.0_211.\<close>

definition linux_java :: environment where
  "linux_java = linux_bare\<lparr> run_process := (\<lambda>cmd.
     if cmd = ''java -version''
     then Exit \<lparr> stdout = [], stderr = ''java version \"1.8.0_211\"'', exitCode = 0 \<rparr>
     else SpawnError (Error ''ENOENT'')) \<rparr>"

text \<open>A Mac on which no tool is installed: every command fails to start.\<close>

definition mac_bare :: environment where
  "mac_bare = linux_bare\<lparr> isDarwin := True, isLinux := False, os_platform := ''darwin'' \<rparr>"

text \<open>A Mac with CocoaPods 0.39.0 and no Xcode.\<close>

definition mac_old_pods :: environment where
  "mac_old_pods = mac_bare\<lparr> run_process := (\<lambda>cmd.
     if cmd = ''pod --version''
     then Exit \<lparr> stdout = ''0.39.0'', stderr = [], exitCode = 0 \<rparr>
     else SpawnError (Error ''ENOENT'')) \<rparr>"

text \<open>A Mac with CocoaPods 1.2.1 and Xcode 9.0, and nothing else.\<close>

definition mac_pods_xcode :: environment where
  "mac_pods_xcode = mac_bare\<lparr> run_process := (\<lambda>cmd.
     if cmd = ''pod --version''
     then Exit \<lparr> stdout = ''1.2.1'', stderr = [], exitCode = 0 \<rparr>
     else if cmd = ''xcodebuild -version''
     then Exit \<lparr> stdout = ''Xcode 9.0'' @ [CHR 0x0A] @ ''Build version 9A235'', stderr = [],
                 exitCode = 0 \<rparr>
     else SpawnError (Error ''ENOENT'')) \<rparr>"

text \<open>A Mac on which the fixture archive cannot be extracted.\<close>

definition mac_broken_fixture :: environment where
  "mac_broken_fixture =
     mac_bare\<lparr> fileSystem := no_files\<lparr> fs_extractZip := (\<lambda>zip dir. Inl (Error ''cannot extract'')) \<rparr> \<rparr>"

text \<open>A Mac on which \<open>pod install\<close> runs and exits with code 1.\<close>

definition mac_failing_install :: environment where
  "mac_failing_install = mac_bare\<lparr> run_process := (\<lambda>cmd.
     if cmd = ''pod install''
     then Exit \<lparr> stdout = [], stderr = ''[!] Unable to find a specification'', exitCode = 1 \<rparr>
     else SpawnError (Error ''ENOENT'')) \<rparr>"

text \<open>\<open>ANDROID_HOME=/sdk\<close>, an existing directory with nothing in it.\<close>

definition empty_sdk_dir :: file_system where
  "empty_sdk_dir = \<lparr> fs_exists = (\<lambda>p. p = ''/sdk''), fs_readDirectory = (\<lambda>p. Inr []),
                      fs_extractZip = (\<lambda>zip dir. Inr ()) \<rparr>"

text \<open>An SDK whose build-tools directory lists \<open>125.0.0\<close> before \<open>25.0.0\<close>.\<close>

definition odd_build_tools :: file_system where
  "odd_build_tools = \<lparr> fs_exists = (\<lambda>p. True),
     fs_readDirectory = (\<lambda>p. if p = ''/sdk/build-tools'' then Inr [''125.0.0'', ''25.0.0'']
                               else Inr []),
     fs_extractZip = (\<lambda>zip dir. Inr ()) \<rparr>"


text \<open>
  Two SDKs with platform 25 whose support-library directory lists, before \<open>25.1.0\<close>, a
  name that contains \<open>25.1.0\<close>: \<open>125.1.0\<close>, and \<open>24.25.1.0\<close>.
\<close>

definition odd_support_125 :: file_system where
  "odd_support_125 = \<lparr> fs_exists = (\<lambda>p. True),
     fs_readDirectory = (\<lambda>p.
       if p = ''/sdk/platforms'' then Inr [''android-19'', ''android-25'']
       else if p = ''/sdk/build-tools'' then Inr [''25.0.2'']
       else if p = ''/sdk/extras/android/m2repository/com/android/support/appcompat-v7''
       then Inr [''125.1.0'', ''25.1.0'']
       else Inr []),
     fs_extractZip = (\<lambda>zip dir. Inr ()) \<rparr>"

definition odd_support_24 :: file_system where
  "odd_support_24 = \<lparr> fs_exists = (\<lambda>p. True),
     fs_readDirectory = (\<lambda>p.
       if p = ''/sdk/platforms'' then Inr [''android-19'', ''android-25'']
       else if p = ''/sdk/build-tools'' then Inr [''25.0.2'']
       else if p = ''/sdk/extras/android/m2repository/com/android/support/appcompat-v7''
       then Inr [''24.25.1.0'', ''25.1.0'']
       else Inr []),
     fs_extractZip = (\<lambda>zip dir. Inr ()) \<rparr>"

definition tools_sdk :: AndroidToolsInfo where
  "tools_sdk = \<lparr> toolsInfo = None, androidHome = Some ''/sdk'' \<rparr>"

definition standard_constants :: constants where
  "standard_constants = \<lparr> ANDROID_PLATFORM_NAME = ''Android'', IOS_PLATFORM_NAME = ''iOS'',
                            SUPPORTED_PLATFORMS = [''Android'', ''iOS''] \<rparr>"

text \<open>What \<open>getSysInfo\<close> returns and leaves behind on \<open>linux_java\<close>, from the new object.\<close>

definition linux_java_snapshot :: ISysInfoData where
  "linux_java_snapshot =
     \<lparr> platform = ''linux'', shell = Some ''/bin/bash'', os = None, procArch = ''x64'',
       nodeVer = Some ''10.16.0'', npmVer = None, nodeGypVer = None, dotNetVer = None,
       javaVer = Some ''1.8.0'', javacVersion = None, xcodeVer = None,
       xcodeprojGemLocation = None, itunesInstalled = Some False, cocoaPodsVer = None,
       adbVer = None, androidInstalled = None, monoVer = None, gitVer = None, gradleVer = None,
       isCocoaPodsWorkingCorrectly_value = Some False, nativeScriptCliVersion = None,
       isCocoaPodsUpdateRequired_value = Some False, cocoapodVer = None \<rparr>"

definition linux_java_state :: SysInfo where
  "linux_java_state =
     new_SysInfo\<lparr> javaVerCache := Some ''1.8.0'', iTunesInstalledCache := Some False,
       sysInfoCache := Some linux_java_snapshot,
       isCocoaPodsWorkingCorrectlyCache := Some False,
       xcprojInfoCache := Some \<lparr> shouldUseXcproj = False, xcprojAvailable = None \<rparr>,
       isCocoaPodsUpdateRequiredCache := Some False,
       executed := [''uname -a'', ''npm -v'', ''node-gyp -v'', ''java -version'',
         ''\"javac\" -version'', ''gem which xcodeproj'', ''adb version'', ''android -h'',
         ''mono --version'', ''git --version'', ''gradle -v'', ''tns --version''] \<rparr>"

text \<open>What \<open>getSysInfo\<close> returns and leaves behind on \<open>mac_pods_xcode\<close>, from the new
  object.\<close>

definition mac_pods_xcode_snapshot :: ISysInfoData where
  "mac_pods_xcode_snapshot =
     \<lparr> platform = ''darwin'', shell = Some ''/bin/bash'', os = None, procArch = ''x64'',
       nodeVer = Some ''10.16.0'', npmVer = None, nodeGypVer = None, dotNetVer = None,
       javaVer = None, javacVersion = None, xcodeVer = Some ''9.0.0'',
       xcodeprojGemLocation = None, itunesInstalled = Some False,
       cocoaPodsVer = Some ''1.2.1'', adbVer = None, androidInstalled = None, monoVer = None,
       gitVer = None, gradleVer = None, isCocoaPodsWorkingCorrectly_value = None,
       nativeScriptCliVersion = None, isCocoaPodsUpdateRequired_value = Some False,
       cocoapodVer = None \<rparr>"

definition mac_pods_xcode_state :: SysInfo where
  "mac_pods_xcode_state =
     new_SysInfo\<lparr> xCodeVerCache := Some ''9.0.0'', iTunesInstalledCache := Some False,
       cocoaPodsVerCache := Some ''1.2.1'',
       sysInfoCache := Some mac_pods_xcode_snapshot,
       xcprojInfoCache := Some \<lparr> shouldUseXcproj = False, xcprojAvailable = None \<rparr>,
       isCocoaPodsUpdateRequiredCache := Some False,
       executed := [''uname -a'', ''npm -v'', ''node-gyp -v'', ''java -version'',
         ''\"javac\" -version'', ''xcodebuild -version'', ''gem which xcodeproj'',
         ''pod --version'', ''adb version'', ''android -h'', ''mono --version'',
         ''git --version'', ''gradle -v'', ''pod install'', ''tns --version''] \<rparr>"

section \<open>Notions used in the properties\<close>

text \<open>The directory of the support library under the SDK root.\<close>

definition appCompatPath :: "string \<Rightarrow> string" where
  "appCompatPath home = path_join [home, ''extras'', ''android'', ''m2repository'', ''com'',
     ''android'', ''support'', ''appcompat-v7'']"

text \<open>
  The fixed order of the spec: debug bridge, Android SDK, the iOS subsequence (Xcode,
  xcodeproj gem, CocoaPods presence, functional check, version, Mono) or the note that
  replaces it, device-sync utility, JDK, version control.
\<close>

definition ios_subsequence :: "string \<Rightarrow> IWarning list" where
  "ios_subsequence eol = [xcode_warning eol, xcodeproj_warning eol, cocoapods_warning eol,
     cocoapods_problem_warning eol, cocoapods_version_warning eol, mono_warning eol]"

definition warning_order :: "string \<Rightarrow> IWarning list" where
  "warning_order eol = [adb_warning eol, android_sdk_warning eol] @ ios_subsequence eol @
     [ios_note eol, itunes_warning eol, jdk_warning eol, git_warning eol]"

text \<open>The warnings about the second target: the subsequence and the note.\<close>

definition ios_related :: "string \<Rightarrow> IWarning \<Rightarrow> bool" where
  "ios_related eol w = (w \<in> set (ios_subsequence eol @ [ios_note eol]))"

text \<open>
  \<open>keeps P f m\<close>: from a state where \<open>P\<close> holds, running \<open>m\<close> (whatever its outcome)
  leads to a state where \<open>P\<close> holds and \<open>f\<close> has the value it had.
\<close>

definition keeps :: "(SysInfo \<Rightarrow> bool) \<Rightarrow> (SysInfo \<Rightarrow> 'b) \<Rightarrow> 'a promise \<Rightarrow> bool" where
  "keeps P f m = (\<forall>s. P s \<longrightarrow> P (snd (m s)) \<and> f (snd (m s)) = f s)"

text \<open>\<open>P\<close> and \<open>f\<close> do not depend on the trace nor on \<open>lastIndex\<close>.\<close>

definition ignores_trace :: "(SysInfo \<Rightarrow> bool) \<Rightarrow> (SysInfo \<Rightarrow> 'b) \<Rightarrow> bool" where
  "ignores_trace P f =
     ((\<forall>s xs. P (s\<lparr>executed := xs\<rparr>) = P s \<and> f (s\<lparr>executed := xs\<rparr>) = f s) \<and>
      (\<forall>s i. P (s\<lparr>monoVerRegExp_lastIndex := i\<rparr>) = P s \<and>
             f (s\<lparr>monoVerRegExp_lastIndex := i\<rparr>) = f s))"

text \<open>
  The write of a cache field is harmless to \<open>P\<close> and \<open>f\<close>: whenever the wrapper reaches
  the write (caching on and the field empty when the call started), the write keeps them.
\<close>

definition ok_field :: "(SysInfo \<Rightarrow> bool) \<Rightarrow> (SysInfo \<Rightarrow> 'b) \<Rightarrow> (SysInfo \<Rightarrow> 'a option) \<Rightarrow> ('a option \<Rightarrow> SysInfo \<Rightarrow> SysInfo) \<Rightarrow> bool" where
  "ok_field P f property assign =
     (\<forall>s s1 v. P s \<and> shouldCache s \<and> property s = None \<and> P s1 \<and> f s1 = f s \<longrightarrow>
        P (assign v s1) \<and> f (assign v s1) = f s1)"

definition cache_stable :: "(SysInfo \<Rightarrow> bool) \<Rightarrow> (SysInfo \<Rightarrow> 'b) \<Rightarrow> bool" where
  "cache_stable P f =
     (ignores_trace P f \<and>
      ok_field P f javaVerCache (\<lambda>v s. s\<lparr>javaVerCache := v\<rparr>) \<and>
      ok_field P f javaCompilerVerCache (\<lambda>v s. s\<lparr>javaCompilerVerCache := v\<rparr>) \<and>
      ok_field P f xCodeVerCache (\<lambda>v s. s\<lparr>xCodeVerCache := v\<rparr>) \<and>
      ok_field P f npmVerCache (\<lambda>v s. s\<lparr>npmVerCache := v\<rparr>) \<and>
      ok_field P f nodeGypVerCache (\<lambda>v s. s\<lparr>nodeGypVerCache := v\<rparr>) \<and>
      ok_field P f xCodeprojGemLocationCache (\<lambda>v s. s\<lparr>xCodeprojGemLocationCache := v\<rparr>) \<and>
      ok_field P f iTunesInstalledCache (\<lambda>v s. s\<lparr>iTunesInstalledCache := v\<rparr>) \<and>
      ok_field P f cocoaPodsVerCache (\<lambda>v s. s\<lparr>cocoaPodsVerCache := v\<rparr>) \<and>
      ok_field P f osCache (\<lambda>v s. s\<lparr>osCache := v\<rparr>) \<and>
      ok_field P f adbVerCache (\<lambda>v s. s\<lparr>adbVerCache := v\<rparr>) \<and>
      ok_field P f androidInstalledCache (\<lambda>v s. s\<lparr>androidInstalledCache := v\<rparr>) \<and>
      ok_field P f monoVerCache (\<lambda>v s. s\<lparr>monoVerCache := v\<rparr>) \<and>
      ok_field P f gitVerCache (\<lambda>v s. s\<lparr>gitVerCache := v\<rparr>) \<and>
      ok_field P f gradleVerCache (\<lambda>v s. s\<lparr>gradleVerCache := v\<rparr>) \<and>
      ok_field P f isCocoaPodsWorkingCorrectlyCache
        (\<lambda>v s. s\<lparr>isCocoaPodsWorkingCorrectlyCache := v\<rparr>) \<and>
      ok_field P f nativeScriptCliVersionCache (\<lambda>v s. s\<lparr>nativeScriptCliVersionCache := v\<rparr>) \<and>
      ok_field P f xcprojInfoCache (\<lambda>v s. s\<lparr>xcprojInfoCache := v\<rparr>) \<and>
      ok_field P f isCocoaPodsUpdateRequiredCache
        (\<lambda>v s. s\<lparr>isCocoaPodsUpdateRequiredCache := v\<rparr>) \<and>
      ok_field P f sysInfoCache (\<lambda>v s. s\<lparr>sysInfoCache := v\<rparr>))"


text \<open>\<open>hoare P m Q\<close>: when \<open>m\<close> resolves from a state where \<open>P\<close> holds, \<open>Q\<close> holds of
  its value and the state it leaves.\<close>

definition hoare :: "(SysInfo \<Rightarrow> bool) \<Rightarrow> 'a promise \<Rightarrow> ('a \<Rightarrow> SysInfo \<Rightarrow> bool) \<Rightarrow> bool" where
  "hoare P m Q = (\<forall>s x s'. P s \<longrightarrow> m s = (Inr x, s') \<longrightarrow> Q x s')"

text \<open>Every present value of the snapshot is the content of its probe's cache field.\<close>

definition snapshot_cached :: "ISysInfoData \<Rightarrow> SysInfo \<Rightarrow> bool" where
  "snapshot_cached d s =
     ((os d \<noteq> None \<longrightarrow> osCache s = os d) \<and>
      (npmVer d \<noteq> None \<longrightarrow> npmVerCache s = npmVer d) \<and>
      (nodeGypVer d \<noteq> None \<longrightarrow> nodeGypVerCache s = nodeGypVer d) \<and>
      (javaVer d \<noteq> None \<longrightarrow> javaVerCache s = javaVer d) \<and>
      (javacVersion d \<noteq> None \<longrightarrow> javaCompilerVerCache s = javacVersion d) \<and>
      (xcodeVer d \<noteq> None \<longrightarrow> xCodeVerCache s = xcodeVer d) \<and>
      (xcodeprojGemLocation d \<noteq> None \<longrightarrow> xCodeprojGemLocationCache s = xcodeprojGemLocation d) \<and>
      (itunesInstalled d \<noteq> None \<longrightarrow> iTunesInstalledCache s = itunesInstalled d) \<and>
      (cocoaPodsVer d \<noteq> None \<longrightarrow> cocoaPodsVerCache s = cocoaPodsVer d) \<and>
      (adbVer d \<noteq> None \<longrightarrow> adbVerCache s = adbVer d) \<and>
      (androidInstalled d \<noteq> None \<longrightarrow> androidInstalledCache s = androidInstalled d) \<and>
      (monoVer d \<noteq> None \<longrightarrow> monoVerCache s = monoVer d) \<and>
      (gitVer d \<noteq> None \<longrightarrow> gitVerCache s = gitVer d) \<and>
      (gradleVer d \<noteq> None \<longrightarrow> gradleVerCache s = gradleVer d) \<and>
      (isCocoaPodsWorkingCorrectly_value d \<noteq> None \<longrightarrow>
         isCocoaPodsWorkingCorrectlyCache s = isCocoaPodsWorkingCorrectly_value d) \<and>
      (nativeScriptCliVersion d \<noteq> None \<longrightarrow>
         nativeScriptCliVersionCache s = nativeScriptCliVersion d) \<and>
      (isCocoaPodsUpdateRequired_value d \<noteq> None \<longrightarrow>
         isCocoaPodsUpdateRequiredCache s = isCocoaPodsUpdateRequired_value d))"

text \<open>
  \<open>probe_stable\<close> is \<open>cache_stable\<close> without the field of the snapshot, which only
  \<open>getSysInfo\<close> writes.
\<close>

definition probe_stable :: "(SysInfo \<Rightarrow> bool) \<Rightarrow> (SysInfo \<Rightarrow> 'b) \<Rightarrow> bool" where
  "probe_stable P f =
     (ignores_trace P f \<and>
      ok_field P f javaVerCache (\<lambda>v s. s\<lparr>javaVerCache := v\<rparr>) \<and>
      ok_field P f javaCompilerVerCache (\<lambda>v s. s\<lparr>javaCompilerVerCache := v\<rparr>) \<and>
      ok_field P f xCodeVerCache (\<lambda>v s. s\<lparr>xCodeVerCache := v\<rparr>) \<and>
      ok_field P f npmVerCache (\<lambda>v s. s\<lparr>npmVerCache := v\<rparr>) \<and>
      ok_field P f nodeGypVerCache (\<lambda>v s. s\<lparr>nodeGypVerCache := v\<rparr>) \<and>
      ok_field P f xCodeprojGemLocationCache (\<lambda>v s. s\<lparr>xCodeprojGemLocationCache := v\<rparr>) \<and>
      ok_field P f iTunesInstalledCache (\<lambda>v s. s\<lparr>iTunesInstalledCache := v\<rparr>) \<and>
      ok_field P f cocoaPodsVerCache (\<lambda>v s. s\<lparr>cocoaPodsVerCache := v\<rparr>) \<and>
      ok_field P f osCache (\<lambda>v s. s\<lparr>osCache := v\<rparr>) \<and>
      ok_field P f adbVerCache (\<lambda>v s. s\<lparr>adbVerCache := v\<rparr>) \<and>
      ok_field P f androidInstalledCache (\<lambda>v s. s\<lparr>androidInstalledCache := v\<rparr>) \<and>
      ok_field P f monoVerCache (\<lambda>v s. s\<lparr>monoVerCache := v\<rparr>) \<and>
      ok_field P f gitVerCache (\<lambda>v s. s\<lparr>gitVerCache := v\<rparr>) \<and>
      ok_field P f gradleVerCache (\<lambda>v s. s\<lparr>gradleVerCache := v\<rparr>) \<and>
      ok_field P f isCocoaPodsWorkingCorrectlyCache
        (\<lambda>v s. s\<lparr>isCocoaPodsWorkingCorrectlyCache := v\<rparr>) \<and>
      ok_field P f nativeScriptCliVersionCache (\<lambda>v s. s\<lparr>nativeScriptCliVersionCache := v\<rparr>) \<and>
      ok_field P f xcprojInfoCache (\<lambda>v s. s\<lparr>xcprojInfoCache := v\<rparr>) \<and>
      ok_field P f isCocoaPodsUpdateRequiredCache
        (\<lambda>v s. s\<lparr>isCocoaPodsUpdateRequiredCache := v\<rparr>))"

text \<open>
  The states of a \<open>SysInfo\<close> object: the new object, and what a call of a public method
  of \<open>SysInfo\<close>, or of \<open>getWarnings\<close>, leaves behind, in whatever environment it runs
  and whatever its outcome.
\<close>

definition public_calls :: "environment \<Rightarrow> (SysInfo \<Rightarrow> SysInfo) list" where
  "public_calls env =
     [\<lambda>s. snd (getJavaVersion env s), \<lambda>s. snd (getJavaCompilerVersion env s),
      \<lambda>s. snd (getXcodeVersion env s), \<lambda>s. snd (getNodeVersion env s),
      \<lambda>s. snd (getNpmVersion env s), \<lambda>s. snd (getNodeGypVersion env s),
      \<lambda>s. snd (getXcodeprojGemLocation env s), \<lambda>s. snd (isITunesInstalled env s),
      \<lambda>s. snd (getCocoaPodsVersion env s), \<lambda>s. snd (getOs env s),
      \<lambda>s. snd (getAdbVersion env s), \<lambda>s. snd (isAndroidInstalled env s),
      \<lambda>s. snd (getMonoVersion env s), \<lambda>s. snd (getGitVersion env s),
      \<lambda>s. snd (getGradleVersion env s), \<lambda>s. snd (getSysInfo env s),
      \<lambda>s. snd (isCocoaPodsWorkingCorrectly env s),
      \<lambda>s. snd (getNativeScriptCliVersion env s), \<lambda>s. snd (getXcprojInfo env s),
      \<lambda>s. snd (isCocoaPodsUpdateRequired env s), \<lambda>s. snd (getWarnings env s)]"

inductive reachable :: "SysInfo \<Rightarrow> bool" where
  new_object: "reachable new_SysInfo"
| flag: "reachable s \<Longrightarrow> reachable (setShouldCacheSysInfo b s)"
| call: "reachable s \<Longrightarrow> step \<in> set (public_calls env) \<Longrightarrow> reachable (step s)"

text \<open>The stored snapshot, if there is one, agrees with the cache fields of the probes.\<close>

definition consistent :: "SysInfo \<Rightarrow> bool" where
  "consistent s = (case sysInfoCache s of None \<Rightarrow> True | Some d \<Rightarrow> snapshot_cached d s)"

text \<open>\<open>runs cmd s\<close>: how many times the command has been executed so far.\<close>

definition runs :: "string \<Rightarrow> SysInfo \<Rightarrow> nat" where
  "runs cmd s = count_list (executed s) cmd"

text \<open>
  \<open>costs G cmd m k\<close>: from a state where \<open>G\<close> holds, running \<open>m\<close> (whatever its outcome)
  leads to a state where \<open>G\<close> holds, and executes the command at most \<open>k\<close> times.
\<close>

definition costs :: "(SysInfo \<Rightarrow> bool) \<Rightarrow> string \<Rightarrow> 'a promise \<Rightarrow> nat \<Rightarrow> bool" where
  "costs G cmd m k = (\<forall>s. G s \<longrightarrow> G (snd (m s)) \<and> runs cmd (snd (m s)) \<le> runs cmd s + k)"

section \<open>Properties of AndroidToolsInfo\<close>

lemmas string_eval = trim_def is_space_def before_char_def after_char_def is_numeric_id_def
  is_digit_def nat_of_digits_def digit_val_def MAX_SAFE_INTEGER_def MAX_LENGTH_def

lemmas compare_eval = compare_def compareMain_def comparePre_def release_def range_test_def

text \<open>
  C4. \<open>validateAndroidHomeEnvVariable\<close> tests \<open>expectedDirectories.map(...).length === 0\<close>:
  the length of the mapped array is always 4, so the branch of the "points to incorrect
  directory" warning is never taken. The function returns the "not set / non-existent"
  warning when the variable is unset, empty or names a path that does not exist, and no
  warning at all otherwise, also for an existing directory that has none of the expected
  subdirectories.
\<close>

theorem validateAndroidHomeEnvVariable_result:
  "validateAndroidHomeEnvVariable c fs t =
     (if \<not> truthy (androidHome t) \<or> \<not> fs_exists fs (the (androidHome t))
      then [androidHome_not_set_warning c] else [])"
  by (simp add: validateAndroidHomeEnvVariable_def expectedDirectoriesInAndroidHome_def)

theorem validateAndroidHomeEnvVariable_result_witness:
  "truthy (androidHome tools_sdk) \<and> fs_exists empty_sdk_dir (the (androidHome tools_sdk)) \<and>
   list_all (\<lambda>dir. \<not> fs_exists empty_sdk_dir (path_join [''/sdk'', dir]))
     expectedDirectoriesInAndroidHome \<and>
   validateAndroidHomeEnvVariable standard_constants empty_sdk_dir tools_sdk = []"
  using validateAndroidHomeEnvVariable_result [of standard_constants empty_sdk_dir tools_sdk]
  by (simp add: tools_sdk_def empty_sdk_dir_def truthy_def expectedDirectoriesInAndroidHome_def
      path_join_def path_normalize_def)

lemma array_sort_SUPPORTED_TARGETS: "array_sort SUPPORTED_TARGETS = SUPPORTED_TARGETS"
  by (simp add: array_sort_def SUPPORTED_TARGETS_def)

lemma getMaxSupportedVersion_value: "getMaxSupportedVersion = Some 25"
  unfolding getMaxSupportedVersion_def array_sort_SUPPORTED_TARGETS
  by (simp add: SUPPORTED_TARGETS_def parseAndroidSdkString_def ANDROID_TARGET_PREFIX_def
      parseInt_def string_eval)

lemma getBuildToolsRange_value: "getBuildToolsRange = Some [GTE 23, LTE 25]"
  by (simp add: getBuildToolsRange_def getMaxSupportedVersion_value
      REQUIRED_BUILD_TOOLS_RANGE_PREFIX_def)

lemma extract_125: "VERSION_REGEX_match ''125.0.0'' = Some ''125.0.0''"
  by (simp add: version_at_def digits_dot_def is_digit_def)

lemma extract_25: "VERSION_REGEX_match ''25.0.0'' = Some ''25.0.0''"
  by (simp add: version_at_def digits_dot_def is_digit_def)

lemma SemVer_125: "SemVer ''125.0.0'' = Some \<lparr> major = 125, minor = 0, patch = 0, prerelease = [] \<rparr>"
  by (simp add: SemVer_def string_eval)

lemma SemVer_25: "SemVer ''25.0.0'' = Some \<lparr> major = 25, minor = 0, patch = 0, prerelease = [] \<rparr>"
  by (simp add: SemVer_def string_eval)

lemma maxSatisfying_odd:
  "maxSatisfying [''125.0.0'', ''25.0.0''] [GTE 23, LTE 25] = Inr (Some ''25.0.0'')"
  by (simp add: maxSatisfying_def SemVer_125 SemVer_25 compare_eval)

text \<open>
  C5. The build-tools directory lists \<open>125.0.0\<close> and \<open>25.0.0\<close>. The versions extracted
  are \<open>125.0.0\<close> and \<open>25.0.0\<close>, the maximum within \<open>>=23 <=25\<close> is \<open>25.0.0\<close>, and the
  name returned is \<open>125.0.0\<close>: \<open>subDirs.find(dir => dir.indexOf(version) !== -1)\<close>
  takes the first name that contains the version as a substring, not the name the
  version was extracted from.
\<close>

theorem getBuildToolsVersion_substring:
  "fs_readDirectory odd_build_tools ''/sdk/build-tools'' = Inr [''125.0.0'', ''25.0.0''] \<and>
   map VERSION_REGEX_match [''125.0.0'', ''25.0.0''] = [Some ''125.0.0'', Some ''25.0.0''] \<and>
   getBuildToolsRange = Some [GTE 23, LTE 25] \<and>
   maxSatisfying [''125.0.0'', ''25.0.0''] [GTE 23, LTE 25] = Inr (Some ''25.0.0'') \<and>
   getBuildToolsVersion odd_build_tools tools_sdk = Inr (Some ''125.0.0'')"
  by (simp add: getBuildToolsVersion_def getMatchingDir_def getBuildToolsRange_value tools_sdk_def
      odd_build_tools_def truthy_def path_join_def path_normalize_def extract_125 extract_25 maxSatisfying_odd
      indexOf_def del: VERSION_REGEX_match.simps)

subsection \<open>The support library\<close>

lemma getCompileSdk_min: "getCompileSdk fs t = Some c \<Longrightarrow> 22 \<le> c"
  by (auto simp: getCompileSdk_def Let_def MIN_REQUIRED_COMPILE_TARGET_def
      split: if_splits option.splits)

lemma getAppCompatRange_Some:
  "getCompileSdk fs t = Some c \<Longrightarrow> getAppCompatRange fs t = Some [GTE c, LT (c + 1)]"
  by (frule getCompileSdk_min) (simp add: getAppCompatRange_def truthy_num_def)

lemma getAppCompatRange_None:
  "getCompileSdk fs t = None \<Longrightarrow> getAppCompatRange fs t = None"
  by (simp add: getAppCompatRange_def truthy_num_def)

lemma range_test_major:
  "range_test [GTE c, LT (c + 1)] sv \<longleftrightarrow> major sv = c \<and> prerelease sv = []"
  by (auto simp: compare_eval split: if_splits)

lemma array_find_Some: "array_find p xs = Some d \<Longrightarrow> d \<in> set xs \<and> p d"
  by (induction xs) (auto split: if_splits)

text \<open>What \<open>maxSatisfying\<close> returns is one of the versions given, and satisfies the range.\<close>

lemma maxSatisfying_loop_Some:
  "maxSatisfying_loop vs r mx = Inr (Some v) \<Longrightarrow>
   (\<forall>m msv. mx = Some (m, msv) \<longrightarrow> SemVer m = Some msv \<and> range_test r msv) \<Longrightarrow>
   (\<exists>sv. SemVer v = Some sv \<and> range_test r sv) \<and> (v \<in> set vs \<or> (\<exists>msv. mx = Some (v, msv)))"
proof (induction vs arbitrary: mx)
  case Nil
  then show ?case by (cases mx) auto
next
  case (Cons a vs)
  show ?case
  proof (cases "a = []")
    case True
    with Cons.prems have "maxSatisfying_loop vs r mx = Inr (Some v)" by simp
    from Cons.IH[OF this Cons.prems(2)] show ?thesis by auto
  next
    case False
    with Cons.prems(1) obtain sv where sv: "SemVer a = Some sv"
      by (cases "SemVer a") auto
    show ?thesis
    proof (cases "range_test r sv \<and>
                  (case mx of None \<Rightarrow> True | Some (m, msv) \<Rightarrow> compare msv sv = - 1)")
      case True
      with Cons.prems(1) False sv have "maxSatisfying_loop vs r (Some (a, sv)) = Inr (Some v)"
        by simp
      from Cons.IH[OF this] True sv show ?thesis by auto
    next
      case unchanged: False
      with Cons.prems(1) False sv have "maxSatisfying_loop vs r mx = Inr (Some v)"
        by (simp split: if_splits)
      from Cons.IH[OF this Cons.prems(2)] show ?thesis by auto
    qed
  qed
qed

lemma maxSatisfying_Some:
  "maxSatisfying vs r = Inr (Some v) \<Longrightarrow>
   v \<in> set vs \<and> (\<exists>sv. SemVer v = Some sv \<and> range_test r sv)"
  unfolding maxSatisfying_def by (drule maxSatisfying_loop_Some) auto

lemma extracted_versions:
  "v \<in> set (map the (filter truthy (map VERSION_REGEX_match subDirs))) \<Longrightarrow>
   \<exists>dir \<in> set subDirs. VERSION_REGEX_match dir = Some v"
  by (fastforce simp: truthy_def split: option.splits)

lemma getMatchingDir_Some:
  assumes "getMatchingDir fs p (Some r) = Inr (Some d)"
  shows "\<exists>listing v sv dir. fs_readDirectory fs p = Inr listing \<and> d \<in> set listing \<and>
           dir \<in> set listing \<and> VERSION_REGEX_match dir = Some v \<and> SemVer v = Some sv \<and>
           range_test r sv \<and> indexOf d v \<noteq> - 1"
proof -
  from assms obtain listing where l: "fs_exists fs p" "fs_readDirectory fs p = Inr listing"
    by (auto simp: getMatchingDir_def split: if_splits sum.splits)
  let ?vs = "map the (filter truthy (map VERSION_REGEX_match listing))"
  from assms l obtain v where v: "maxSatisfying ?vs r = Inr (Some v)"
      and f: "array_find (\<lambda>dir. indexOf dir v \<noteq> - 1) listing = Some d"
    by (auto simp: getMatchingDir_def Let_def split: if_splits sum.splits option.splits)
  from maxSatisfying_Some[OF v]
  obtain sv where sv: "v \<in> set ?vs" "SemVer v = Some sv" "range_test r sv"
    by auto
  from extracted_versions[OF sv(1)]
  obtain dir where "dir \<in> set listing" "VERSION_REGEX_match dir = Some v"
    by auto
  with array_find_Some[OF f] l sv show ?thesis by blast
qed

text \<open>
  What holds of the support library in general: it is absent when the SDK root is unset
  (or empty) or no compile target is resolved; for a resolved compile target \<open>c\<close> the
  range is \<open>>=c <c+1\<close>, which a version satisfies exactly when its major component is
  \<open>c\<close> (and it has no prerelease tag).
\<close>

lemma support_library_absent:
  "\<not> truthy (androidHome t) \<or> getCompileSdk fs t = None \<Longrightarrow>
   getAndroidSupportRepositoryVersion fs t = Inr None"
  by (auto simp: getAndroidSupportRepositoryVersion_def Let_def getAppCompatRange_None)



lemma SemVer_25_1_0: "SemVer ''25.1.0'' = Some \<lparr> major = 25, minor = 1, patch = 0, prerelease = [] \<rparr>"
  by (simp add: SemVer_def string_eval)


lemma getCompileSdk_odd_support:
  "getCompileSdk odd_support_125 tools_sdk = Some 25"
  "getCompileSdk odd_support_24 tools_sdk = Some 25"
  unfolding getCompileSdk_def getLatestValidAndroidTarget_def array_sort_SUPPORTED_TARGETS
  by (simp_all add: getInstalledTargets_def tools_sdk_def odd_support_125_def odd_support_24_def
      path_join_def path_normalize_def SUPPORTED_TARGETS_def truthy_def parseAndroidSdkString_def
      ANDROID_TARGET_PREFIX_def parseInt_def string_eval MIN_REQUIRED_COMPILE_TARGET_def)

lemma extract_odd_support:
  "VERSION_REGEX_match ''125.1.0'' = Some ''125.1.0''"
  "VERSION_REGEX_match ''24.25.1.0'' = Some ''24.25.1''"
  "VERSION_REGEX_match ''25.1.0'' = Some ''25.1.0''"
  by (simp_all add: version_at_def digits_dot_def is_digit_def)

lemma SemVer_odd_support:
  "SemVer ''125.1.0'' = Some \<lparr> major = 125, minor = 1, patch = 0, prerelease = [] \<rparr>"
  "SemVer ''24.25.1'' = Some \<lparr> major = 24, minor = 25, patch = 1, prerelease = [] \<rparr>"
  by (simp_all add: SemVer_def string_eval)

lemma maxSatisfying_odd_support:
  "maxSatisfying [''125.1.0'', ''25.1.0''] [GTE 25, LT 26] = Inr (Some ''25.1.0'')"
  "maxSatisfying [''24.25.1'', ''25.1.0''] [GTE 25, LT 26] = Inr (Some ''25.1.0'')"
  by (simp_all add: maxSatisfying_def SemVer_odd_support SemVer_25_1_0 compare_eval)

text \<open>
  C6. The compile target is 25 and the range \<open>>=25 <26\<close>. The support-library directory
  lists \<open>24.25.1.0\<close> and \<open>25.1.0\<close>; the versions extracted are \<open>24.25.1\<close> and
  \<open>25.1.0\<close>, and the maximum within the range is \<open>25.1.0\<close>. The name returned is
  \<open>24.25.1.0\<close>, whose own version has major component 24 and is outside the range:
  \<open>subDirs.find(dir => dir.indexOf(version) !== -1)\<close> takes the first name that
  contains \<open>25.1.0\<close>. In the same way \<open>125.1.0\<close> is returned from a listing of
  \<open>125.1.0\<close> and \<open>25.1.0\<close>. So a candidate whose major component is not the compile
  target is accepted.
\<close>

theorem support_library_substring:
  "getCompileSdk odd_support_24 tools_sdk = Some 25 \<and>
   getAppCompatRange odd_support_24 tools_sdk = Some [GTE 25, LT 26] \<and>
   fs_readDirectory odd_support_24 (appCompatPath ''/sdk'') = Inr [''24.25.1.0'', ''25.1.0''] \<and>
   map VERSION_REGEX_match [''24.25.1.0'', ''25.1.0''] = [Some ''24.25.1'', Some ''25.1.0''] \<and>
   SemVer ''24.25.1'' = Some \<lparr> major = 24, minor = 25, patch = 1, prerelease = [] \<rparr> \<and>
   \<not> range_test [GTE 25, LT 26] \<lparr> major = 24, minor = 25, patch = 1, prerelease = [] \<rparr> \<and>
   maxSatisfying [''24.25.1'', ''25.1.0''] [GTE 25, LT 26] = Inr (Some ''25.1.0'') \<and>
   getAndroidSupportRepositoryVersion odd_support_24 tools_sdk = Inr (Some ''24.25.1.0'') \<and>
   getCompileSdk odd_support_125 tools_sdk = Some 25 \<and>
   fs_readDirectory odd_support_125 (appCompatPath ''/sdk'') = Inr [''125.1.0'', ''25.1.0''] \<and>
   map VERSION_REGEX_match [''125.1.0'', ''25.1.0''] = [Some ''125.1.0'', Some ''25.1.0''] \<and>
   SemVer ''125.1.0'' = Some \<lparr> major = 125, minor = 1, patch = 0, prerelease = [] \<rparr> \<and>
   \<not> range_test [GTE 25, LT 26] \<lparr> major = 125, minor = 1, patch = 0, prerelease = [] \<rparr> \<and>
   maxSatisfying [''125.1.0'', ''25.1.0''] [GTE 25, LT 26] = Inr (Some ''25.1.0'') \<and>
   getAndroidSupportRepositoryVersion odd_support_125 tools_sdk = Inr (Some ''125.1.0'')"
proof -
  have range: "getAppCompatRange odd_support_24 tools_sdk = Some [GTE 25, LT 26]"
    "getAppCompatRange odd_support_125 tools_sdk = Some [GTE 25, LT 26]"
    using getAppCompatRange_Some[OF getCompileSdk_odd_support(2)]
      getAppCompatRange_Some[OF getCompileSdk_odd_support(1)] by simp_all
  have listing: "fs_readDirectory odd_support_24 (appCompatPath ''/sdk'') = Inr [''24.25.1.0'', ''25.1.0'']"
    "fs_readDirectory odd_support_125 (appCompatPath ''/sdk'') = Inr [''125.1.0'', ''25.1.0'']"
    by (simp_all add: odd_support_24_def odd_support_125_def appCompatPath_def path_join_def path_normalize_def)
  have outside:
    "\<not> range_test [GTE 25, LT 26] \<lparr> major = 24, minor = 25, patch = 1, prerelease = [] \<rparr>"
    "\<not> range_test [GTE 25, LT 26] \<lparr> major = 125, minor = 1, patch = 0, prerelease = [] \<rparr>"
    using range_test_major[of 25] by simp_all
  have returned_24:
    "getAndroidSupportRepositoryVersion odd_support_24 tools_sdk = Inr (Some ''24.25.1.0'')"
    unfolding getAndroidSupportRepositoryVersion_def Let_def range(1)
    by (simp add: getMatchingDir_def tools_sdk_def odd_support_24_def truthy_def path_join_def path_normalize_def
        extract_odd_support maxSatisfying_odd_support indexOf_def
        del: VERSION_REGEX_match.simps)
  have returned_125:
    "getAndroidSupportRepositoryVersion odd_support_125 tools_sdk = Inr (Some ''125.1.0'')"
    unfolding getAndroidSupportRepositoryVersion_def Let_def range(2)
    by (simp add: getMatchingDir_def tools_sdk_def odd_support_125_def truthy_def path_join_def path_normalize_def
        extract_odd_support maxSatisfying_odd_support indexOf_def
        del: VERSION_REGEX_match.simps)
  show ?thesis
    using getCompileSdk_odd_support range(1) listing outside returned_24 returned_125
    by (simp add: extract_odd_support SemVer_odd_support maxSatisfying_odd_support
        del: VERSION_REGEX_match.simps)
qed

theorem support_library_substring_witness:
  "getCompileSdk odd_support_24 tools_sdk = Some 25 \<and>
   getAndroidSupportRepositoryVersion odd_support_24 tools_sdk = Inr (Some ''24.25.1.0'') \<and>
   VERSION_REGEX_match ''24.25.1.0'' = Some ''24.25.1'' \<and>
   SemVer ''24.25.1'' = Some \<lparr> major = 24, minor = 25, patch = 1, prerelease = [] \<rparr> \<and>
   getAndroidSupportRepositoryVersion odd_support_125 tools_sdk = Inr (Some ''125.1.0'')"
  using support_library_substring by (simp del: VERSION_REGEX_match.simps)

section \<open>Reasoning about promises\<close>

named_theorems keeps_intros

lemma keepsD: "keeps P f m \<Longrightarrow> P s \<Longrightarrow> m s = (r, s') \<Longrightarrow> P s' \<and> f s' = f s"
  by (auto simp: keeps_def dest!: spec[of _ s])

lemma keeps_resolve [keeps_intros]: "keeps P f (resolve x)"
  by (simp add: keeps_def resolve_def)

lemma keeps_reject [keeps_intros]: "keeps P f (reject e)"
  by (simp add: keeps_def reject_def)

lemma keeps_settled [keeps_intros]: "keeps P f (settled r)"
  by (simp add: keeps_def settled_def)

lemma keeps_await [keeps_intros]:
  assumes "keeps P f m" and "\<And>x. keeps P f (k x)"
  shows "keeps P f (await m k)"
  unfolding keeps_def
proof (intro allI impI)
  fix s assume P: "P s"
  obtain r s1 where m: "m s = (r, s1)" by (cases "m s")
  from keepsD[OF assms(1) P m] have 1: "P s1" "f s1 = f s" by auto
  show "P (snd (await m k s)) \<and> f (snd (await m k s)) = f s"
  proof (cases r)
    case (Inl e)
    with m 1 show ?thesis by (simp add: await_def)
  next
    case (Inr x)
    obtain r2 s2 where k: "k x s1 = (r2, s2)" by (cases "k x s1")
    from keepsD[OF assms(2) 1(1) k] 1 m Inr k show ?thesis by (simp add: await_def)
  qed
qed

lemma keeps_try_catch [keeps_intros]:
  assumes "keeps P f m" and "\<And>e. keeps P f (h e)"
  shows "keeps P f (try_catch m h)"
  unfolding keeps_def
proof (intro allI impI)
  fix s assume P: "P s"
  obtain r s1 where m: "m s = (r, s1)" by (cases "m s")
  from keepsD[OF assms(1) P m] have 1: "P s1" "f s1 = f s" by auto
  show "P (snd (try_catch m h s)) \<and> f (snd (try_catch m h s)) = f s"
  proof (cases r)
    case (Inr x)
    with m 1 show ?thesis by (simp add: try_catch_def)
  next
    case (Inl e)
    obtain r2 s2 where h: "h e s1 = (r2, s2)" by (cases "h e s1")
    from keepsD[OF assms(2) 1(1) h] 1 m Inl h show ?thesis by (simp add: try_catch_def)
  qed
qed

lemma keeps_if [keeps_intros]:
  "keeps P f m1 \<Longrightarrow> keeps P f m2 \<Longrightarrow> keeps P f (if b then m1 else m2)"
  by simp

lemma keeps_case_option [keeps_intros]:
  "keeps P f m1 \<Longrightarrow> (\<And>y. keeps P f (m2 y)) \<Longrightarrow>
   keeps P f (case x of None \<Rightarrow> m1 | Some y \<Rightarrow> m2 y)"
  by (cases x) simp_all

lemma keeps_run_command [keeps_intros]:
  "ignores_trace P f \<Longrightarrow> keeps P f (run_command env cmd ignoreError)"
  by (auto simp: keeps_def run_command_def ignores_trace_def Let_def split: process_outcome.splits)

lemma keeps_childProcess_exec [keeps_intros]:
  "ignores_trace P f \<Longrightarrow> keeps P f (childProcess_exec env cmd)"
  by (simp add: childProcess_exec_def keeps_run_command)

lemma keeps_spawnFromEvent [keeps_intros]:
  "ignores_trace P f \<Longrightarrow> keeps P f (childProcess_spawnFromEvent env command args ignoreError)"
  by (simp add: childProcess_spawnFromEvent_def keeps_run_command)

lemma keeps_exec [keeps_intros]: "ignores_trace P f \<Longrightarrow> keeps P f (exec env cmd)"
  unfolding exec_def by (intro keeps_intros)

lemma keeps_execCommand [keeps_intros]: "ignores_trace P f \<Longrightarrow> keeps P f (execCommand env cmd)"
  unfolding execCommand_def by (intro keeps_intros)

lemma keeps_getValueForProperty:
  assumes "keeps P f m" and "ok_field P f property assign"
  shows "keeps P f (getValueForProperty property assign m)"
  unfolding keeps_def
proof (intro allI impI)
  fix s assume P: "P s"
  obtain r s1 where m: "m s = (r, s1)" by (cases "m s")
  from keepsD[OF assms(1) P m] have 1: "P s1" "f s1 = f s" by auto
  show "P (snd (getValueForProperty property assign m s)) \<and>
        f (snd (getValueForProperty property assign m s)) = f s"
  proof (cases "shouldCache s \<and> property s = None")
    case False
    with P m 1 show ?thesis
      by (auto simp: getValueForProperty_def split: option.splits)
  next
    case True
    with assms(2) P 1 have "\<And>v. P (assign v s1) \<and> f (assign v s1) = f s1"
      unfolding ok_field_def by blast
    with True P m 1 show ?thesis
      by (cases r) (auto simp: getValueForProperty_def split: option.splits)
  qed
qed

lemma cache_stable_trace: "cache_stable P f \<Longrightarrow> ignores_trace P f"
  by (simp add: cache_stable_def)

lemma keeps_getMonoVersion_step:
  "ignores_trace P f \<Longrightarrow>
   keeps P f (\<lambda>s. case monoVerRegExp_exec out (monoVerRegExp_lastIndex s) of
                     (match, lastIndex) \<Rightarrow> (Inr match, s\<lparr>monoVerRegExp_lastIndex := lastIndex\<rparr>))"
  by (auto simp: keeps_def ignores_trace_def split: prod.splits)

text \<open>Every probe accessor keeps what is stable under the writes of the cache fields.\<close>

lemma keeps_getJavaVersion [keeps_intros]: "cache_stable P f \<Longrightarrow> keeps P f (getJavaVersion env)"
  unfolding getJavaVersion_def Let_def
  by (intro keeps_getValueForProperty keeps_intros cache_stable_trace; simp add: cache_stable_def)

lemma keeps_getJavaCompilerVersion [keeps_intros]: "cache_stable P f \<Longrightarrow> keeps P f (getJavaCompilerVersion env)"
  unfolding getJavaCompilerVersion_def Let_def
  by (intro keeps_getValueForProperty keeps_intros cache_stable_trace; simp add: cache_stable_def)

lemma keeps_getXcodeVersion [keeps_intros]: "cache_stable P f \<Longrightarrow> keeps P f (getXcodeVersion env)"
  unfolding getXcodeVersion_def Let_def
  by (intro keeps_getValueForProperty keeps_intros cache_stable_trace; simp add: cache_stable_def)

lemma keeps_getNpmVersion [keeps_intros]: "cache_stable P f \<Longrightarrow> keeps P f (getNpmVersion env)"
  unfolding getNpmVersion_def Let_def
  by (intro keeps_getValueForProperty keeps_intros cache_stable_trace; simp add: cache_stable_def)

lemma keeps_getNodeGypVersion [keeps_intros]: "cache_stable P f \<Longrightarrow> keeps P f (getNodeGypVersion env)"
  unfolding getNodeGypVersion_def Let_def
  by (intro keeps_getValueForProperty keeps_intros cache_stable_trace; simp add: cache_stable_def)

lemma keeps_getXcodeprojGemLocation [keeps_intros]: "cache_stable P f \<Longrightarrow> keeps P f (getXcodeprojGemLocation env)"
  unfolding getXcodeprojGemLocation_def Let_def
  by (intro keeps_getValueForProperty keeps_intros cache_stable_trace; simp add: cache_stable_def)

lemma keeps_isITunesInstalled [keeps_intros]: "cache_stable P f \<Longrightarrow> keeps P f (isITunesInstalled env)"
  unfolding isITunesInstalled_def Let_def
  by (intro keeps_getValueForProperty keeps_intros cache_stable_trace; simp add: cache_stable_def)

lemma keeps_getCocoaPodsVersion [keeps_intros]: "cache_stable P f \<Longrightarrow> keeps P f (getCocoaPodsVersion env)"
  unfolding getCocoaPodsVersion_def Let_def
  by (intro keeps_getValueForProperty keeps_intros cache_stable_trace; simp add: cache_stable_def)

lemma keeps_getOs [keeps_intros]: "cache_stable P f \<Longrightarrow> keeps P f (getOs env)"
  unfolding getOs_def winVer_def unixVer_def Let_def
  by (intro keeps_getValueForProperty keeps_intros cache_stable_trace; simp add: cache_stable_def)

lemma keeps_getAdbVersion [keeps_intros]: "cache_stable P f \<Longrightarrow> keeps P f (getAdbVersion env)"
  unfolding getAdbVersion_def Let_def
  by (intro keeps_getValueForProperty keeps_intros cache_stable_trace; simp add: cache_stable_def)

lemma keeps_isAndroidInstalled [keeps_intros]: "cache_stable P f \<Longrightarrow> keeps P f (isAndroidInstalled env)"
  unfolding isAndroidInstalled_def Let_def
  by (intro keeps_getValueForProperty keeps_intros cache_stable_trace; simp add: cache_stable_def)

lemma keeps_getMonoVersion [keeps_intros]: "cache_stable P f \<Longrightarrow> keeps P f (getMonoVersion env)"
  unfolding getMonoVersion_def Let_def
  by (intro keeps_getValueForProperty keeps_intros keeps_getMonoVersion_step cache_stable_trace; simp add: cache_stable_def)

lemma keeps_getGitVersion [keeps_intros]: "cache_stable P f \<Longrightarrow> keeps P f (getGitVersion env)"
  unfolding getGitVersion_def Let_def
  by (intro keeps_getValueForProperty keeps_intros cache_stable_trace; simp add: cache_stable_def)

lemma keeps_getGradleVersion [keeps_intros]: "cache_stable P f \<Longrightarrow> keeps P f (getGradleVersion env)"
  unfolding getGradleVersion_def Let_def
  by (intro keeps_getValueForProperty keeps_intros cache_stable_trace; simp add: cache_stable_def)

lemma keeps_isCocoaPodsWorkingCorrectly [keeps_intros]: "cache_stable P f \<Longrightarrow> keeps P f (isCocoaPodsWorkingCorrectly env)"
  unfolding isCocoaPodsWorkingCorrectly_def Let_def
  by (intro keeps_getValueForProperty keeps_intros cache_stable_trace; simp add: cache_stable_def)

lemma keeps_getNativeScriptCliVersion [keeps_intros]: "cache_stable P f \<Longrightarrow> keeps P f (getNativeScriptCliVersion env)"
  unfolding getNativeScriptCliVersion_def Let_def
  by (intro keeps_getValueForProperty keeps_intros cache_stable_trace; simp add: cache_stable_def)

lemma keeps_getXcprojInfo [keeps_intros]: "cache_stable P f \<Longrightarrow> keeps P f (getXcprojInfo env)"
  unfolding getXcprojInfo_def Let_def
  by (intro keeps_getValueForProperty keeps_intros cache_stable_trace; simp add: cache_stable_def)

lemma keeps_isCocoaPodsUpdateRequired [keeps_intros]: "cache_stable P f \<Longrightarrow> keeps P f (isCocoaPodsUpdateRequired env)"
  unfolding isCocoaPodsUpdateRequired_def Let_def
  by (intro keeps_getValueForProperty keeps_intros cache_stable_trace; simp add: cache_stable_def)

lemma keeps_getSysInfo [keeps_intros]: "cache_stable P f \<Longrightarrow> keeps P f (getSysInfo env)"
  unfolding getSysInfo_def getNodeVersion_def Let_def
  by (intro keeps_getValueForProperty keeps_intros cache_stable_trace; simp add: cache_stable_def)

lemma keeps_darwin_checks [keeps_intros]:
  "cache_stable P f \<Longrightarrow> keeps P f (darwin_checks env sysInfoData result0)"
  unfolding darwin_checks_def Let_def by (intro keeps_intros; simp)

lemma keeps_getWarnings_checks [keeps_intros]:
  "cache_stable P f \<Longrightarrow> keeps P f (getWarnings_checks env sysInfoData)"
  unfolding getWarnings_checks_def Let_def by (intro keeps_intros; simp)


text \<open>Two instances: no probe changes the caching flag; with caching off, no probe
  changes a cache field.\<close>

lemma ok_field_never:
  "(\<And>s. P s \<Longrightarrow> \<not> shouldCache s \<or> property s \<noteq> None) \<Longrightarrow> ok_field P f property assign"
  unfolding ok_field_def by blast

lemma cache_stable_on: "cache_stable (\<lambda>s. shouldCache s) (\<lambda>s. ())"
  by (simp add: cache_stable_def ignores_trace_def ok_field_def)


text \<open>After a probe has returned a present value with caching on, its field holds it,
  and the next call returns it without running anything.\<close>

lemma getValueForProperty_stored:
  assumes "getValueForProperty property assign m s = (Inr (Some v), s')" and "shouldCache s"
    and "\<And>x t. property (assign x t) = x"
  shows "property s' = Some v"
proof (cases "property s")
  case None
  with assms(1,2) obtain s1 where "m s = (Inr (Some v), s1)" "s' = assign (Some v) s1"
    by (auto simp: getValueForProperty_def split: prod.splits sum.splits)
  with assms(3) show ?thesis by simp
next
  case (Some c)
  with assms(1,2) show ?thesis by (simp add: getValueForProperty_def)
qed

lemma getValueForProperty_again:
  assumes "getValueForProperty property assign m s = (Inr (Some v), s')"
    and "shouldCache s" and "shouldCache s'" and "\<And>x t. property (assign x t) = x"
  shows "getValueForProperty property assign m' s' = (Inr (Some v), s')"
  using getValueForProperty_stored[OF assms(1,2,4)] assms(3)
  by (simp add: getValueForProperty_def)

lemma getJavaVersion_again:
  assumes "shouldCache s" and run: "getJavaVersion env s = (Inr (Some v), s')"
  shows "getJavaVersion env' s' = (Inr (Some v), s')"
proof -
  from keepsD[OF keeps_getJavaVersion[OF cache_stable_on] assms(1) run] have "shouldCache s'" by simp
  with run assms(1) show ?thesis
    unfolding getJavaVersion_def by (rule getValueForProperty_again) simp
qed

lemma getJavaCompilerVersion_again:
  assumes "shouldCache s" and run: "getJavaCompilerVersion env s = (Inr (Some v), s')"
  shows "getJavaCompilerVersion env' s' = (Inr (Some v), s')"
proof -
  from keepsD[OF keeps_getJavaCompilerVersion[OF cache_stable_on] assms(1) run] have "shouldCache s'" by simp
  with run assms(1) show ?thesis
    unfolding getJavaCompilerVersion_def by (rule getValueForProperty_again) simp
qed

lemma getXcodeVersion_again:
  assumes "shouldCache s" and run: "getXcodeVersion env s = (Inr (Some v), s')"
  shows "getXcodeVersion env' s' = (Inr (Some v), s')"
proof -
  from keepsD[OF keeps_getXcodeVersion[OF cache_stable_on] assms(1) run] have "shouldCache s'" by simp
  with run assms(1) show ?thesis
    unfolding getXcodeVersion_def by (rule getValueForProperty_again) simp
qed

lemma getNpmVersion_again:
  assumes "shouldCache s" and run: "getNpmVersion env s = (Inr (Some v), s')"
  shows "getNpmVersion env' s' = (Inr (Some v), s')"
proof -
  from keepsD[OF keeps_getNpmVersion[OF cache_stable_on] assms(1) run] have "shouldCache s'" by simp
  with run assms(1) show ?thesis
    unfolding getNpmVersion_def by (rule getValueForProperty_again) simp
qed

lemma getNodeGypVersion_again:
  assumes "shouldCache s" and run: "getNodeGypVersion env s = (Inr (Some v), s')"
  shows "getNodeGypVersion env' s' = (Inr (Some v), s')"
proof -
  from keepsD[OF keeps_getNodeGypVersion[OF cache_stable_on] assms(1) run] have "shouldCache s'" by simp
  with run assms(1) show ?thesis
    unfolding getNodeGypVersion_def by (rule getValueForProperty_again) simp
qed

lemma getXcodeprojGemLocation_again:
  assumes "shouldCache s" and run: "getXcodeprojGemLocation env s = (Inr (Some v), s')"
  shows "getXcodeprojGemLocation env' s' = (Inr (Some v), s')"
proof -
  from keepsD[OF keeps_getXcodeprojGemLocation[OF cache_stable_on] assms(1) run] have "shouldCache s'" by simp
  with run assms(1) show ?thesis
    unfolding getXcodeprojGemLocation_def by (rule getValueForProperty_again) simp
qed

lemma isITunesInstalled_again:
  assumes "shouldCache s" and run: "isITunesInstalled env s = (Inr (Some v), s')"
  shows "isITunesInstalled env' s' = (Inr (Some v), s')"
proof -
  from keepsD[OF keeps_isITunesInstalled[OF cache_stable_on] assms(1) run] have "shouldCache s'" by simp
  with run assms(1) show ?thesis
    unfolding isITunesInstalled_def by (rule getValueForProperty_again) simp
qed

lemma getCocoaPodsVersion_again:
  assumes "shouldCache s" and run: "getCocoaPodsVersion env s = (Inr (Some v), s')"
  shows "getCocoaPodsVersion env' s' = (Inr (Some v), s')"
proof -
  from keepsD[OF keeps_getCocoaPodsVersion[OF cache_stable_on] assms(1) run] have "shouldCache s'" by simp
  with run assms(1) show ?thesis
    unfolding getCocoaPodsVersion_def by (rule getValueForProperty_again) simp
qed

lemma getOs_again:
  assumes "shouldCache s" and run: "getOs env s = (Inr (Some v), s')"
  shows "getOs env' s' = (Inr (Some v), s')"
proof -
  from keepsD[OF keeps_getOs[OF cache_stable_on] assms(1) run] have "shouldCache s'" by simp
  with run assms(1) show ?thesis
    unfolding getOs_def by (rule getValueForProperty_again) simp
qed

lemma getAdbVersion_again:
  assumes "shouldCache s" and run: "getAdbVersion env s = (Inr (Some v), s')"
  shows "getAdbVersion env' s' = (Inr (Some v), s')"
proof -
  from keepsD[OF keeps_getAdbVersion[OF cache_stable_on] assms(1) run] have "shouldCache s'" by simp
  with run assms(1) show ?thesis
    unfolding getAdbVersion_def by (rule getValueForProperty_again) simp
qed

lemma isAndroidInstalled_again:
  assumes "shouldCache s" and run: "isAndroidInstalled env s = (Inr (Some v), s')"
  shows "isAndroidInstalled env' s' = (Inr (Some v), s')"
proof -
  from keepsD[OF keeps_isAndroidInstalled[OF cache_stable_on] assms(1) run] have "shouldCache s'" by simp
  with run assms(1) show ?thesis
    unfolding isAndroidInstalled_def by (rule getValueForProperty_again) simp
qed

lemma getMonoVersion_again:
  assumes "shouldCache s" and run: "getMonoVersion env s = (Inr (Some v), s')"
  shows "getMonoVersion env' s' = (Inr (Some v), s')"
proof -
  from keepsD[OF keeps_getMonoVersion[OF cache_stable_on] assms(1) run] have "shouldCache s'" by simp
  with run assms(1) show ?thesis
    unfolding getMonoVersion_def by (rule getValueForProperty_again) simp
qed

lemma getGitVersion_again:
  assumes "shouldCache s" and run: "getGitVersion env s = (Inr (Some v), s')"
  shows "getGitVersion env' s' = (Inr (Some v), s')"
proof -
  from keepsD[OF keeps_getGitVersion[OF cache_stable_on] assms(1) run] have "shouldCache s'" by simp
  with run assms(1) show ?thesis
    unfolding getGitVersion_def by (rule getValueForProperty_again) simp
qed

lemma getGradleVersion_again:
  assumes "shouldCache s" and run: "getGradleVersion env s = (Inr (Some v), s')"
  shows "getGradleVersion env' s' = (Inr (Some v), s')"
proof -
  from keepsD[OF keeps_getGradleVersion[OF cache_stable_on] assms(1) run] have "shouldCache s'" by simp
  with run assms(1) show ?thesis
    unfolding getGradleVersion_def by (rule getValueForProperty_again) simp
qed

lemma isCocoaPodsWorkingCorrectly_again:
  assumes "shouldCache s" and run: "isCocoaPodsWorkingCorrectly env s = (Inr (Some v), s')"
  shows "isCocoaPodsWorkingCorrectly env' s' = (Inr (Some v), s')"
proof -
  from keepsD[OF keeps_isCocoaPodsWorkingCorrectly[OF cache_stable_on] assms(1) run] have "shouldCache s'" by simp
  with run assms(1) show ?thesis
    unfolding isCocoaPodsWorkingCorrectly_def by (rule getValueForProperty_again) simp
qed

lemma getNativeScriptCliVersion_again:
  assumes "shouldCache s" and run: "getNativeScriptCliVersion env s = (Inr (Some v), s')"
  shows "getNativeScriptCliVersion env' s' = (Inr (Some v), s')"
proof -
  from keepsD[OF keeps_getNativeScriptCliVersion[OF cache_stable_on] assms(1) run] have "shouldCache s'" by simp
  with run assms(1) show ?thesis
    unfolding getNativeScriptCliVersion_def by (rule getValueForProperty_again) simp
qed

lemma getXcprojInfo_again:
  assumes "shouldCache s" and run: "getXcprojInfo env s = (Inr (Some v), s')"
  shows "getXcprojInfo env' s' = (Inr (Some v), s')"
proof -
  from keepsD[OF keeps_getXcprojInfo[OF cache_stable_on] assms(1) run] have "shouldCache s'" by simp
  with run assms(1) show ?thesis
    unfolding getXcprojInfo_def by (rule getValueForProperty_again) simp
qed

lemma isCocoaPodsUpdateRequired_again:
  assumes "shouldCache s" and run: "isCocoaPodsUpdateRequired env s = (Inr (Some v), s')"
  shows "isCocoaPodsUpdateRequired env' s' = (Inr (Some v), s')"
proof -
  from keepsD[OF keeps_isCocoaPodsUpdateRequired[OF cache_stable_on] assms(1) run] have "shouldCache s'" by simp
  with run assms(1) show ?thesis
    unfolding isCocoaPodsUpdateRequired_def by (rule getValueForProperty_again) simp
qed

lemma getSysInfo_again:
  assumes "shouldCache s" and run: "getSysInfo env s = (Inr (Some v), s')"
  shows "getSysInfo env' s' = (Inr (Some v), s')"
proof -
  from keepsD[OF keeps_getSysInfo[OF cache_stable_on] assms(1) run] have "shouldCache s'" by simp
  with run assms(1) show ?thesis
    unfolding getSysInfo_def by (rule getValueForProperty_again) simp
qed

section \<open>Properties of the probe cache\<close>

lemmas promise_defs = resolve_def reject_def await_def try_catch_def settled_def
  run_command_def childProcess_exec_def childProcess_spawnFromEvent_def exec_def execCommand_def
  getValueForProperty_def

lemmas accessor_defs = getJavaVersion_def getJavaCompilerVersion_def getXcodeVersion_def
  getNodeVersion_def getNpmVersion_def getNodeGypVersion_def getXcodeprojGemLocation_def
  isITunesInstalled_def getCocoaPodsVersion_def winVer_def unixVer_def getOs_def getAdbVersion_def
  isAndroidInstalled_def getMonoVersion_def getGitVersion_def getGradleVersion_def
  isCocoaPodsWorkingCorrectly_def getNativeScriptCliVersion_def getXcprojInfo_def
  isCocoaPodsUpdateRequired_def getSysInfo_def

lemmas regexp_defs = JAVA_VERSION_REGEXP_exec_def java_version_at_def literal_def literal_i_def
  to_lower_def dotted_number_def is_digit_def to_string_def monoVerRegExp_exec_def mono_at_def
  GIT_VERSION_REGEXP_exec_def GRADLE_VERSION_REGEXP_exec_def getVersionFromString_def
  VERSION_REGEXP_match_def version_regexp_at_def XCODE_VERSION_REGEXP_match_def

lemma java_version_1_8: "JAVA_VERSION_REGEXP_exec ''java version \"1.8.0_211\"'' = Some ''1.8.0''"
  by (simp add: regexp_defs)

lemma getJavaVersion_linux_bare:
  "getJavaVersion linux_bare new_SysInfo =
     (Inr None, new_SysInfo\<lparr>executed := [''java -version'']\<rparr>)"
  by (simp add: getJavaVersion_def promise_defs new_SysInfo_def linux_bare_def)

lemma getJavaVersion_linux_java:
  "getJavaVersion linux_java new_SysInfo =
     (Inr (Some ''1.8.0''),
      new_SysInfo\<lparr>javaVerCache := Some ''1.8.0'', executed := [''java -version'']\<rparr>)"
  by (simp add: getJavaVersion_def promise_defs new_SysInfo_def linux_bare_def linux_java_def
      java_version_1_8 del: first_match.simps)

text \<open>
  C1, as the claim states it, fails: on a host without Java the first \<open>getJavaVersion\<close>
  returns the absent value, and the second call, with caching enabled, runs
  \<open>java -version\<close> again; when Java has been installed in between, the second call
  returns a version, so the two calls do not return identical values.
\<close>

theorem absent_probe_reattempted_counterexample:
  "shouldCache new_SysInfo \<and>
   fst (getJavaVersion linux_bare new_SysInfo) = Inr None \<and>
   executed (snd (getJavaVersion linux_bare (snd (getJavaVersion linux_bare new_SysInfo)))) =
     [''java -version'', ''java -version''] \<and>
   fst (getJavaVersion linux_java (snd (getJavaVersion linux_bare new_SysInfo))) =
     Inr (Some ''1.8.0'')"
  unfolding getJavaVersion_linux_bare
  by (simp add: getJavaVersion_def promise_defs new_SysInfo_def linux_bare_def linux_java_def
      java_version_1_8 del: first_match.simps)

text \<open>
  C1, amended. With caching enabled, once a probe accessor has returned a present value,
  the next call to it, in whatever environment, returns the identical value and leaves
  the state as it is: nothing is executed. This holds for every accessor that goes
  through \<open>getValueForProperty\<close>. An absent result is not stored as a terminal state:
  after \<open>getJavaVersion\<close> or \<open>getAdbVersion\<close> returned the absent value, the next call
  runs the command again.
\<close>

theorem cached_probe_not_rerun:
  assumes "shouldCache s"
  shows
    "(\<forall>v s'. getJavaVersion env s = (Inr (Some v), s') \<longrightarrow>
        getJavaVersion env' s' = (Inr (Some v), s')) \<and>
     (\<forall>v s'. getJavaCompilerVersion env s = (Inr (Some v), s') \<longrightarrow>
        getJavaCompilerVersion env' s' = (Inr (Some v), s')) \<and>
     (\<forall>v s'. getXcodeVersion env s = (Inr (Some v), s') \<longrightarrow>
        getXcodeVersion env' s' = (Inr (Some v), s')) \<and>
     (\<forall>v s'. getNpmVersion env s = (Inr (Some v), s') \<longrightarrow>
        getNpmVersion env' s' = (Inr (Some v), s')) \<and>
     (\<forall>v s'. getNodeGypVersion env s = (Inr (Some v), s') \<longrightarrow>
        getNodeGypVersion env' s' = (Inr (Some v), s')) \<and>
     (\<forall>v s'. getXcodeprojGemLocation env s = (Inr (Some v), s') \<longrightarrow>
        getXcodeprojGemLocation env' s' = (Inr (Some v), s')) \<and>
     (\<forall>v s'. isITunesInstalled env s = (Inr (Some v), s') \<longrightarrow>
        isITunesInstalled env' s' = (Inr (Some v), s')) \<and>
     (\<forall>v s'. getCocoaPodsVersion env s = (Inr (Some v), s') \<longrightarrow>
        getCocoaPodsVersion env' s' = (Inr (Some v), s')) \<and>
     (\<forall>v s'. getOs env s = (Inr (Some v), s') \<longrightarrow>
        getOs env' s' = (Inr (Some v), s')) \<and>
     (\<forall>v s'. getAdbVersion env s = (Inr (Some v), s') \<longrightarrow>
        getAdbVersion env' s' = (Inr (Some v), s')) \<and>
     (\<forall>v s'. isAndroidInstalled env s = (Inr (Some v), s') \<longrightarrow>
        isAndroidInstalled env' s' = (Inr (Some v), s')) \<and>
     (\<forall>v s'. getMonoVersion env s = (Inr (Some v), s') \<longrightarrow>
        getMonoVersion env' s' = (Inr (Some v), s')) \<and>
     (\<forall>v s'. getGitVersion env s = (Inr (Some v), s') \<longrightarrow>
        getGitVersion env' s' = (Inr (Some v), s')) \<and>
     (\<forall>v s'. getGradleVersion env s = (Inr (Some v), s') \<longrightarrow>
        getGradleVersion env' s' = (Inr (Some v), s')) \<and>
     (\<forall>v s'. isCocoaPodsWorkingCorrectly env s = (Inr (Some v), s') \<longrightarrow>
        isCocoaPodsWorkingCorrectly env' s' = (Inr (Some v), s')) \<and>
     (\<forall>v s'. getNativeScriptCliVersion env s = (Inr (Some v), s') \<longrightarrow>
        getNativeScriptCliVersion env' s' = (Inr (Some v), s')) \<and>
     (\<forall>v s'. getXcprojInfo env s = (Inr (Some v), s') \<longrightarrow>
        getXcprojInfo env' s' = (Inr (Some v), s')) \<and>
     (\<forall>v s'. isCocoaPodsUpdateRequired env s = (Inr (Some v), s') \<longrightarrow>
        isCocoaPodsUpdateRequired env' s' = (Inr (Some v), s')) \<and>
     (\<forall>v s'. getSysInfo env s = (Inr (Some v), s') \<longrightarrow>
        getSysInfo env' s' = (Inr (Some v), s')) \<and>
     (\<forall>s'. getJavaVersion env s = (Inr None, s') \<longrightarrow>
        executed (snd (getJavaVersion env' s')) = executed s' @ [''java -version'']) \<and>
     (\<forall>s'. getAdbVersion env s = (Inr None, s') \<longrightarrow>
        executed (snd (getAdbVersion env' s')) = executed s' @ [''adb version''])"
proof -
  have java: "executed (snd (getJavaVersion env' s')) = executed s' @ [''java -version'']"
    if "getJavaVersion env s = (Inr None, s')" for s'
  proof -
    from keepsD[OF keeps_getJavaVersion[OF cache_stable_on] assms that]
    have on: "shouldCache s'" by simp
    from that assms have "javaVerCache s' = None"
      by (auto simp: getJavaVersion_def getValueForProperty_def split: option.splits prod.splits
          sum.splits)
    with on show ?thesis
      by (auto simp: getJavaVersion_def promise_defs Let_def
          split: process_outcome.splits prod.splits sum.splits)
  qed
  have adb: "executed (snd (getAdbVersion env' s')) = executed s' @ [''adb version'']"
    if "getAdbVersion env s = (Inr None, s')" for s'
  proof -
    from keepsD[OF keeps_getAdbVersion[OF cache_stable_on] assms that]
    have on: "shouldCache s'" by simp
    from that assms have "adbVerCache s' = None"
      by (auto simp: getAdbVersion_def getValueForProperty_def split: option.splits prod.splits
          sum.splits)
    with on show ?thesis
      by (auto simp: getAdbVersion_def promise_defs Let_def
          split: process_outcome.splits prod.splits sum.splits)
  qed
  note again = getJavaVersion_again[OF assms] getJavaCompilerVersion_again[OF assms]
    getXcodeVersion_again[OF assms] getNpmVersion_again[OF assms]
    getNodeGypVersion_again[OF assms] getXcodeprojGemLocation_again[OF assms]
    isITunesInstalled_again[OF assms] getCocoaPodsVersion_again[OF assms] getOs_again[OF assms]
    getAdbVersion_again[OF assms] isAndroidInstalled_again[OF assms]
    getMonoVersion_again[OF assms] getGitVersion_again[OF assms] getGradleVersion_again[OF assms]
    isCocoaPodsWorkingCorrectly_again[OF assms] getNativeScriptCliVersion_again[OF assms]
    getXcprojInfo_again[OF assms] isCocoaPodsUpdateRequired_again[OF assms]
    getSysInfo_again[OF assms]
  show ?thesis
    by (intro conjI allI impI again java adb; assumption)
qed

theorem cached_probe_not_rerun_witness:
  "shouldCache new_SysInfo \<and>
   getJavaVersion linux_java new_SysInfo =
     (Inr (Some ''1.8.0''),
      new_SysInfo\<lparr>javaVerCache := Some ''1.8.0'', executed := [''java -version'']\<rparr>) \<and>
   getJavaVersion linux_bare
     (new_SysInfo\<lparr>javaVerCache := Some ''1.8.0'', executed := [''java -version'']\<rparr>) =
     (Inr (Some ''1.8.0''),
      new_SysInfo\<lparr>javaVerCache := Some ''1.8.0'', executed := [''java -version'']\<rparr>) \<and>
   getJavaVersion linux_bare new_SysInfo =
     (Inr None, new_SysInfo\<lparr>executed := [''java -version'']\<rparr>) \<and>
   executed (snd (getJavaVersion linux_java (new_SysInfo\<lparr>executed := [''java -version'']\<rparr>))) =
     [''java -version'', ''java -version'']"
proof -
  have on: "shouldCache new_SysInfo" by (simp add: new_SysInfo_def)
  note present = cached_probe_not_rerun [OF on, of linux_java linux_bare, THEN conjunct1,
      rule_format, OF getJavaVersion_linux_java]
  from cached_probe_not_rerun [OF on, of linux_bare linux_java]
  have "\<forall>s'. getJavaVersion linux_bare new_SysInfo = (Inr None, s') \<longrightarrow>
          executed (snd (getJavaVersion linux_java s')) = executed s' @ [''java -version'']"
    by (elim conjE) assumption
  from this [rule_format, OF getJavaVersion_linux_bare]
  have absent: "executed (snd (getJavaVersion linux_java
                                 (new_SysInfo\<lparr>executed := [''java -version'']\<rparr>))) =
     [''java -version'', ''java -version'']"
    by simp
  from on getJavaVersion_linux_java getJavaVersion_linux_bare present absent show ?thesis
    by simp
qed

subsection \<open>Disabling the cache\<close>









subsection \<open>The functional check of CocoaPods\<close>

text \<open>
  C7. On a Mac, when the check is computed (nothing cached, or caching off) and the
  fixture has been extracted, the result is decided by the install step alone: unknown
  when it cannot be started, unknown as well when it exits with a nonzero code (the
  runner rejects on a nonzero exit unless \<open>ignoreError\<close> is set, and
  \<open>isCocoaPodsWorkingCorrectly\<close> does not set it, so the branch
  \<open>if (spawnResult.exitCode) return false\<close> is never reached), and whether the workspace
  exists when it exits with 0. The claim's "returns false on a nonzero exit" does not
  hold of the code.
\<close>

theorem isCocoaPodsWorkingCorrectly_result:
  assumes "isDarwin env" and "isCocoaPodsWorkingCorrectlyCache s = None \<or> \<not> shouldCache s"
    and "temp_mkdirSync env ''nativescript-check-cocoapods'' = Inr tempDirectory"
    and "fs_extractZip (fileSystem env)
           (path_join [dirname env, ''..'', ''resources'', ''cocoapods-verification'', ''cocoapods.zip''])
           tempDirectory = Inr ()"
  shows "fst (isCocoaPodsWorkingCorrectly env s) =
     (case run_process env ''pod install'' of
        SpawnError e \<Rightarrow> Inr None
      | Exit r \<Rightarrow>
          if exitCode r = 0
          then Inr (Some (fs_exists (fileSystem env)
                            (path_join [path_join [tempDirectory, ''cocoapods''],
                                        ''cocoapods.xcworkspace''])))
          else Inr None)"
  using assms
  by (auto simp: isCocoaPodsWorkingCorrectly_def promise_defs Let_def
      split: process_outcome.splits option.splits)

theorem isCocoaPodsWorkingCorrectly_result_witness:
  "isDarwin mac_failing_install \<and>
   isCocoaPodsWorkingCorrectlyCache new_SysInfo = None \<and>
   run_process mac_failing_install ''pod install'' =
     Exit \<lparr> stdout = [], stderr = ''[!] Unable to find a specification'', exitCode = 1 \<rparr> \<and>
   fst (isCocoaPodsWorkingCorrectly mac_failing_install new_SysInfo) = Inr None"
proof -
  have 1: "isDarwin mac_failing_install"
    and 2: "isCocoaPodsWorkingCorrectlyCache new_SysInfo = None \<or> \<not> shouldCache new_SysInfo"
    and 3: "temp_mkdirSync mac_failing_install ''nativescript-check-cocoapods'' =
              Inr ''/tmp/nativescript-check-cocoapods''"
    and 4: "fs_extractZip (fileSystem mac_failing_install)
              (path_join [dirname mac_failing_install, ''..'', ''resources'',
                          ''cocoapods-verification'', ''cocoapods.zip''])
              ''/tmp/nativescript-check-cocoapods'' = Inr ()"
    and 5: "run_process mac_failing_install ''pod install'' =
              Exit \<lparr> stdout = [], stderr = ''[!] Unable to find a specification'', exitCode = 1 \<rparr>"
    by (simp_all add: mac_failing_install_def mac_bare_def linux_bare_def no_files_def
        new_SysInfo_def)
  from isCocoaPodsWorkingCorrectly_result [OF 1 2 3 4] 5
  have "fst (isCocoaPodsWorkingCorrectly mac_failing_install new_SysInfo) = Inr None"
    by simp
  with 1 5 show ?thesis by (simp add: new_SysInfo_def)
qed

subsection \<open>Failures that are not absorbed\<close>

text \<open>
  C2. Two probe accessors let a failure through. \<open>isCocoaPodsWorkingCorrectly\<close> extracts
  the fixture archive before its \<open>try\<close>: when the extraction fails, the accessor rejects
  with that error. \<open>getXcprojInfo\<close> calls \<open>semver.gte(xcodeVersion, "7.3.0")\<close> without a
  guard: on a Mac with CocoaPods 0.39.0 and no Xcode the Xcode version is absent and
  \<open>semver\<close> throws; \<open>getSysInfo\<close> and \<open>getWarnings\<close> reject with the same error.
\<close>

theorem probe_failures_propagate:
  "fst (isCocoaPodsWorkingCorrectly mac_broken_fixture new_SysInfo) = Inl (Error ''cannot extract'') \<and>
   fst (getXcprojInfo mac_old_pods new_SysInfo) = Inl (TypeError ''Invalid Version: undefined'') \<and>
   fst (getSysInfo mac_old_pods new_SysInfo) = Inl (TypeError ''Invalid Version: undefined'') \<and>
   fst (getWarnings mac_old_pods new_SysInfo) = Inl (TypeError ''Invalid Version: undefined'')"
proof -
  have old: "semver_lt (Some ''0.39.0'') ''1.0.0'' = Inr True"
    by (simp add: semver_lt_def semver_compare_def SemVer_def string_eval compare_eval)
  have absent: "semver_gte None ''7.3.0'' = Inl (TypeError ''Invalid Version: undefined'')"
    by (simp add: semver_gte_def semver_compare_def invalid_version_def)
  have pods: "VERSION_REGEXP_match ''0.39.0'' =
      Some \<lparr> whole = ''0.39.0'', group1 = ''0'', group2 = ''39'', group3 = ''0'' \<rparr>"
    by (simp add: VERSION_REGEXP_match_def version_regexp_at_def is_digit_def is_word_char_def
        is_alpha_def Let_def)
  have trimmed: "trim ''0.39.0'' = ''0.39.0''"
    by (simp add: trim_def is_space_def)
  have 1: "fst (isCocoaPodsWorkingCorrectly mac_broken_fixture new_SysInfo) =
      Inl (Error ''cannot extract'')"
    by (simp add: isCocoaPodsWorkingCorrectly_def promise_defs new_SysInfo_def
        mac_broken_fixture_def mac_bare_def linux_bare_def no_files_def path_join_def path_normalize_def)
  have 2: "fst (getXcprojInfo mac_old_pods new_SysInfo) =
      Inl (TypeError ''Invalid Version: undefined'')"
    by (simp add: getXcprojInfo_def getCocoaPodsVersion_def getXcodeVersion_def promise_defs
        new_SysInfo_def mac_old_pods_def mac_bare_def linux_bare_def truthy_def pods trimmed old
        absent)
  have 3: "fst (getSysInfo mac_old_pods new_SysInfo) =
      Inl (TypeError ''Invalid Version: undefined'')"
    by (simp add: accessor_defs promise_defs new_SysInfo_def mac_old_pods_def mac_bare_def
        linux_bare_def no_files_def truthy_def truthy_bool_def path_join_def path_normalize_def old absent
        to_string_def monoVerRegExp_exec_def GIT_VERSION_REGEXP_exec_def
        GRADLE_VERSION_REGEXP_exec_def literal_def literal_i_def mono_at_def
        getVersionFromString_def VERSION_REGEXP_match_def version_regexp_at_def is_digit_def
        is_word_char_def is_alpha_def Let_def trim_def is_space_def)
  from 3 have 4: "fst (getWarnings mac_old_pods new_SysInfo) =
      Inl (TypeError ''Invalid Version: undefined'')"
    by (cases "getSysInfo mac_old_pods new_SysInfo") (simp add: getWarnings_def await_def)
  from 1 2 3 4 show ?thesis by simp
qed

section \<open>Properties of the snapshot\<close>

lemma hoareD: "hoare P m Q \<Longrightarrow> P s \<Longrightarrow> m s = (Inr x, s') \<Longrightarrow> Q x s'"
  by (simp add: hoare_def)

lemma hoare_await:
  assumes "hoare P m R" and "\<And>x. hoare (R x) (k x) Q"
  shows "hoare P (await m k) Q"
  unfolding hoare_def
proof (intro allI impI)
  fix s y s' assume P: "P s" and run: "await m k s = (Inr y, s')"
  obtain r s1 where m: "m s = (r, s1)" by (cases "m s")
  with run obtain x where x: "r = Inr x" "k x s1 = (Inr y, s')"
    by (cases r) (auto simp: await_def)
  from hoareD[OF assms(1) P] m x have "R x s1" by simp
  from hoareD[OF assms(2) this x(2)] show "Q y s'" .
qed

lemma hoare_resolve: "(\<And>s. P s \<Longrightarrow> Q x s) \<Longrightarrow> hoare P (resolve x) Q"
  by (simp add: hoare_def resolve_def)

lemma hoare_resolve_keep: "hoare P (resolve x) (\<lambda>r s. P s)"
  by (simp add: hoare_def resolve_def)

lemma hoare_settled_keep: "hoare P (settled x) (\<lambda>r s. P s)"
  by (simp add: hoare_def settled_def)

lemma hoare_probe:
  assumes "keeps P f (getValueForProperty property assign m)"
    and "\<And>s. P s \<Longrightarrow> shouldCache s" and "\<And>x t. property (assign x t) = x"
  shows "hoare P (getValueForProperty property assign m)
           (\<lambda>r s. P s \<and> (r \<noteq> None \<longrightarrow> property s = r))"
  unfolding hoare_def
proof (intro allI impI conjI)
  fix s r s' assume P: "P s" and run: "getValueForProperty property assign m s = (Inr r, s')"
  from keepsD[OF assms(1) P run] show "P s'" by simp
  assume "r \<noteq> None"
  then obtain v where "r = Some v" by auto
  with getValueForProperty_stored[of property assign m s v s'] run assms(2)[OF P] assms(3)
  show "property s' = r" by simp
qed

lemma hoare_getValueForProperty_fresh:
  assumes "hoare P m Q"
  shows "hoare (\<lambda>s. P s \<and> shouldCache s \<and> property s = None)
           (getValueForProperty property assign m) (\<lambda>r s. \<exists>s1. s = assign r s1 \<and> Q r s1)"
  unfolding hoare_def
proof (intro allI impI)
  fix s r s'
  assume pre: "P s \<and> shouldCache s \<and> property s = None"
    and run: "getValueForProperty property assign m s = (Inr r, s')"
  then obtain s1 where "m s = (Inr r, s1)" "s' = assign r s1"
    by (auto simp: getValueForProperty_def split: prod.splits sum.splits)
  with hoareD[OF assms, of s r s1] pre show "\<exists>s1. s' = assign r s1 \<and> Q r s1" by blast
qed

text \<open>With caching on, a probe that resolves leaves its value, if present, in its field.\<close>

lemma hoare_getOs:
  "cache_stable P (\<lambda>s. ()) \<Longrightarrow> (\<And>s. P s \<Longrightarrow> shouldCache s) \<Longrightarrow>
   hoare P (getOs env) (\<lambda>r s. P s \<and> (r \<noteq> None \<longrightarrow> osCache s = r))"
  using hoare_probe[OF keeps_getOs[unfolded getOs_def], of P "\<lambda>s. ()" env]
  unfolding getOs_def by simp

lemma hoare_getNpmVersion:
  "cache_stable P (\<lambda>s. ()) \<Longrightarrow> (\<And>s. P s \<Longrightarrow> shouldCache s) \<Longrightarrow>
   hoare P (getNpmVersion env) (\<lambda>r s. P s \<and> (r \<noteq> None \<longrightarrow> npmVerCache s = r))"
  using hoare_probe[OF keeps_getNpmVersion[unfolded getNpmVersion_def], of P "\<lambda>s. ()" env]
  unfolding getNpmVersion_def by simp

lemma hoare_getNodeGypVersion:
  "cache_stable P (\<lambda>s. ()) \<Longrightarrow> (\<And>s. P s \<Longrightarrow> shouldCache s) \<Longrightarrow>
   hoare P (getNodeGypVersion env) (\<lambda>r s. P s \<and> (r \<noteq> None \<longrightarrow> nodeGypVerCache s = r))"
  using hoare_probe[OF keeps_getNodeGypVersion[unfolded getNodeGypVersion_def], of P "\<lambda>s. ()" env]
  unfolding getNodeGypVersion_def by simp

lemma hoare_getJavaVersion:
  "cache_stable P (\<lambda>s. ()) \<Longrightarrow> (\<And>s. P s \<Longrightarrow> shouldCache s) \<Longrightarrow>
   hoare P (getJavaVersion env) (\<lambda>r s. P s \<and> (r \<noteq> None \<longrightarrow> javaVerCache s = r))"
  using hoare_probe[OF keeps_getJavaVersion[unfolded getJavaVersion_def], of P "\<lambda>s. ()" env]
  unfolding getJavaVersion_def by simp

lemma hoare_getJavaCompilerVersion:
  "cache_stable P (\<lambda>s. ()) \<Longrightarrow> (\<And>s. P s \<Longrightarrow> shouldCache s) \<Longrightarrow>
   hoare P (getJavaCompilerVersion env) (\<lambda>r s. P s \<and> (r \<noteq> None \<longrightarrow> javaCompilerVerCache s = r))"
  using hoare_probe[OF keeps_getJavaCompilerVersion[unfolded getJavaCompilerVersion_def], of P "\<lambda>s. ()" env]
  unfolding getJavaCompilerVersion_def by simp

lemma hoare_getXcodeVersion:
  "cache_stable P (\<lambda>s. ()) \<Longrightarrow> (\<And>s. P s \<Longrightarrow> shouldCache s) \<Longrightarrow>
   hoare P (getXcodeVersion env) (\<lambda>r s. P s \<and> (r \<noteq> None \<longrightarrow> xCodeVerCache s = r))"
  using hoare_probe[OF keeps_getXcodeVersion[unfolded getXcodeVersion_def], of P "\<lambda>s. ()" env]
  unfolding getXcodeVersion_def by simp

lemma hoare_getXcodeprojGemLocation:
  "cache_stable P (\<lambda>s. ()) \<Longrightarrow> (\<And>s. P s \<Longrightarrow> shouldCache s) \<Longrightarrow>
   hoare P (getXcodeprojGemLocation env) (\<lambda>r s. P s \<and> (r \<noteq> None \<longrightarrow> xCodeprojGemLocationCache s = r))"
  using hoare_probe[OF keeps_getXcodeprojGemLocation[unfolded getXcodeprojGemLocation_def], of P "\<lambda>s. ()" env]
  unfolding getXcodeprojGemLocation_def by simp

lemma hoare_isITunesInstalled:
  "cache_stable P (\<lambda>s. ()) \<Longrightarrow> (\<And>s. P s \<Longrightarrow> shouldCache s) \<Longrightarrow>
   hoare P (isITunesInstalled env) (\<lambda>r s. P s \<and> (r \<noteq> None \<longrightarrow> iTunesInstalledCache s = r))"
  using hoare_probe[OF keeps_isITunesInstalled[unfolded isITunesInstalled_def], of P "\<lambda>s. ()" env]
  unfolding isITunesInstalled_def by simp

lemma hoare_getCocoaPodsVersion:
  "cache_stable P (\<lambda>s. ()) \<Longrightarrow> (\<And>s. P s \<Longrightarrow> shouldCache s) \<Longrightarrow>
   hoare P (getCocoaPodsVersion env) (\<lambda>r s. P s \<and> (r \<noteq> None \<longrightarrow> cocoaPodsVerCache s = r))"
  using hoare_probe[OF keeps_getCocoaPodsVersion[unfolded getCocoaPodsVersion_def], of P "\<lambda>s. ()" env]
  unfolding getCocoaPodsVersion_def by simp

lemma hoare_getAdbVersion:
  "cache_stable P (\<lambda>s. ()) \<Longrightarrow> (\<And>s. P s \<Longrightarrow> shouldCache s) \<Longrightarrow>
   hoare P (getAdbVersion env) (\<lambda>r s. P s \<and> (r \<noteq> None \<longrightarrow> adbVerCache s = r))"
  using hoare_probe[OF keeps_getAdbVersion[unfolded getAdbVersion_def], of P "\<lambda>s. ()" env]
  unfolding getAdbVersion_def by simp

lemma hoare_isAndroidInstalled:
  "cache_stable P (\<lambda>s. ()) \<Longrightarrow> (\<And>s. P s \<Longrightarrow> shouldCache s) \<Longrightarrow>
   hoare P (isAndroidInstalled env) (\<lambda>r s. P s \<and> (r \<noteq> None \<longrightarrow> androidInstalledCache s = r))"
  using hoare_probe[OF keeps_isAndroidInstalled[unfolded isAndroidInstalled_def], of P "\<lambda>s. ()" env]
  unfolding isAndroidInstalled_def by simp

lemma hoare_getMonoVersion:
  "cache_stable P (\<lambda>s. ()) \<Longrightarrow> (\<And>s. P s \<Longrightarrow> shouldCache s) \<Longrightarrow>
   hoare P (getMonoVersion env) (\<lambda>r s. P s \<and> (r \<noteq> None \<longrightarrow> monoVerCache s = r))"
  using hoare_probe[OF keeps_getMonoVersion[unfolded getMonoVersion_def], of P "\<lambda>s. ()" env]
  unfolding getMonoVersion_def by simp

lemma hoare_getGitVersion:
  "cache_stable P (\<lambda>s. ()) \<Longrightarrow> (\<And>s. P s \<Longrightarrow> shouldCache s) \<Longrightarrow>
   hoare P (getGitVersion env) (\<lambda>r s. P s \<and> (r \<noteq> None \<longrightarrow> gitVerCache s = r))"
  using hoare_probe[OF keeps_getGitVersion[unfolded getGitVersion_def], of P "\<lambda>s. ()" env]
  unfolding getGitVersion_def by simp

lemma hoare_getGradleVersion:
  "cache_stable P (\<lambda>s. ()) \<Longrightarrow> (\<And>s. P s \<Longrightarrow> shouldCache s) \<Longrightarrow>
   hoare P (getGradleVersion env) (\<lambda>r s. P s \<and> (r \<noteq> None \<longrightarrow> gradleVerCache s = r))"
  using hoare_probe[OF keeps_getGradleVersion[unfolded getGradleVersion_def], of P "\<lambda>s. ()" env]
  unfolding getGradleVersion_def by simp

lemma hoare_isCocoaPodsWorkingCorrectly:
  "cache_stable P (\<lambda>s. ()) \<Longrightarrow> (\<And>s. P s \<Longrightarrow> shouldCache s) \<Longrightarrow>
   hoare P (isCocoaPodsWorkingCorrectly env) (\<lambda>r s. P s \<and> (r \<noteq> None \<longrightarrow> isCocoaPodsWorkingCorrectlyCache s = r))"
  using hoare_probe[OF keeps_isCocoaPodsWorkingCorrectly[unfolded isCocoaPodsWorkingCorrectly_def], of P "\<lambda>s. ()" env]
  unfolding isCocoaPodsWorkingCorrectly_def by simp

lemma hoare_getNativeScriptCliVersion:
  "cache_stable P (\<lambda>s. ()) \<Longrightarrow> (\<And>s. P s \<Longrightarrow> shouldCache s) \<Longrightarrow>
   hoare P (getNativeScriptCliVersion env) (\<lambda>r s. P s \<and> (r \<noteq> None \<longrightarrow> nativeScriptCliVersionCache s = r))"
  using hoare_probe[OF keeps_getNativeScriptCliVersion[unfolded getNativeScriptCliVersion_def], of P "\<lambda>s. ()" env]
  unfolding getNativeScriptCliVersion_def by simp

lemma hoare_isCocoaPodsUpdateRequired:
  "cache_stable P (\<lambda>s. ()) \<Longrightarrow> (\<And>s. P s \<Longrightarrow> shouldCache s) \<Longrightarrow>
   hoare P (isCocoaPodsUpdateRequired env) (\<lambda>r s. P s \<and> (r \<noteq> None \<longrightarrow> isCocoaPodsUpdateRequiredCache s = r))"
  using hoare_probe[OF keeps_isCocoaPodsUpdateRequired[unfolded isCocoaPodsUpdateRequired_def], of P "\<lambda>s. ()" env]
  unfolding isCocoaPodsUpdateRequired_def by simp

text \<open>A property extended by "this field holds this value, if any" is still stable.\<close>

lemma ok_field_extend_same:
  assumes "ok_field P f property assign"
  shows "ok_field (\<lambda>s. P s \<and> (r \<noteq> None \<longrightarrow> property s = r)) f property assign"
  using assms unfolding ok_field_def by (cases r) auto

lemma ok_field_extend_other:
  assumes "ok_field P f property assign" and "\<And>v s. c (assign v s) = c s"
  shows "ok_field (\<lambda>s. P s \<and> (r \<noteq> None \<longrightarrow> c s = r)) f property assign"
  using assms unfolding ok_field_def by auto

lemma ignores_trace_extend:
  assumes "ignores_trace P f"
    and "\<And>s xs. c (s\<lparr>executed := xs\<rparr>) = c s"
    and "\<And>s i. c (s\<lparr>monoVerRegExp_lastIndex := i\<rparr>) = c s"
  shows "ignores_trace (\<lambda>s. P s \<and> (r \<noteq> None \<longrightarrow> c s = r)) f"
  using assms unfolding ignores_trace_def by simp

lemma cache_stable_osCache:
  assumes "cache_stable P f"
  shows "cache_stable (\<lambda>s. P s \<and> (r \<noteq> None \<longrightarrow> osCache s = r)) f"
  using assms unfolding cache_stable_def
  by (elim conjE, intro conjI ignores_trace_extend ok_field_extend_same ok_field_extend_other; simp)

lemma cache_stable_npmVerCache:
  assumes "cache_stable P f"
  shows "cache_stable (\<lambda>s. P s \<and> (r \<noteq> None \<longrightarrow> npmVerCache s = r)) f"
  using assms unfolding cache_stable_def
  by (elim conjE, intro conjI ignores_trace_extend ok_field_extend_same ok_field_extend_other; simp)

lemma cache_stable_nodeGypVerCache:
  assumes "cache_stable P f"
  shows "cache_stable (\<lambda>s. P s \<and> (r \<noteq> None \<longrightarrow> nodeGypVerCache s = r)) f"
  using assms unfolding cache_stable_def
  by (elim conjE, intro conjI ignores_trace_extend ok_field_extend_same ok_field_extend_other; simp)

lemma cache_stable_javaVerCache:
  assumes "cache_stable P f"
  shows "cache_stable (\<lambda>s. P s \<and> (r \<noteq> None \<longrightarrow> javaVerCache s = r)) f"
  using assms unfolding cache_stable_def
  by (elim conjE, intro conjI ignores_trace_extend ok_field_extend_same ok_field_extend_other; simp)

lemma cache_stable_javaCompilerVerCache:
  assumes "cache_stable P f"
  shows "cache_stable (\<lambda>s. P s \<and> (r \<noteq> None \<longrightarrow> javaCompilerVerCache s = r)) f"
  using assms unfolding cache_stable_def
  by (elim conjE, intro conjI ignores_trace_extend ok_field_extend_same ok_field_extend_other; simp)

lemma cache_stable_xCodeVerCache:
  assumes "cache_stable P f"
  shows "cache_stable (\<lambda>s. P s \<and> (r \<noteq> None \<longrightarrow> xCodeVerCache s = r)) f"
  using assms unfolding cache_stable_def
  by (elim conjE, intro conjI ignores_trace_extend ok_field_extend_same ok_field_extend_other; simp)

lemma cache_stable_xCodeprojGemLocationCache:
  assumes "cache_stable P f"
  shows "cache_stable (\<lambda>s. P s \<and> (r \<noteq> None \<longrightarrow> xCodeprojGemLocationCache s = r)) f"
  using assms unfolding cache_stable_def
  by (elim conjE, intro conjI ignores_trace_extend ok_field_extend_same ok_field_extend_other; simp)

lemma cache_stable_iTunesInstalledCache:
  assumes "cache_stable P f"
  shows "cache_stable (\<lambda>s. P s \<and> (r \<noteq> None \<longrightarrow> iTunesInstalledCache s = r)) f"
  using assms unfolding cache_stable_def
  by (elim conjE, intro conjI ignores_trace_extend ok_field_extend_same ok_field_extend_other; simp)

lemma cache_stable_cocoaPodsVerCache:
  assumes "cache_stable P f"
  shows "cache_stable (\<lambda>s. P s \<and> (r \<noteq> None \<longrightarrow> cocoaPodsVerCache s = r)) f"
  using assms unfolding cache_stable_def
  by (elim conjE, intro conjI ignores_trace_extend ok_field_extend_same ok_field_extend_other; simp)

lemma cache_stable_adbVerCache:
  assumes "cache_stable P f"
  shows "cache_stable (\<lambda>s. P s \<and> (r \<noteq> None \<longrightarrow> adbVerCache s = r)) f"
  using assms unfolding cache_stable_def
  by (elim conjE, intro conjI ignores_trace_extend ok_field_extend_same ok_field_extend_other; simp)

lemma cache_stable_androidInstalledCache:
  assumes "cache_stable P f"
  shows "cache_stable (\<lambda>s. P s \<and> (r \<noteq> None \<longrightarrow> androidInstalledCache s = r)) f"
  using assms unfolding cache_stable_def
  by (elim conjE, intro conjI ignores_trace_extend ok_field_extend_same ok_field_extend_other; simp)

lemma cache_stable_monoVerCache:
  assumes "cache_stable P f"
  shows "cache_stable (\<lambda>s. P s \<and> (r \<noteq> None \<longrightarrow> monoVerCache s = r)) f"
  using assms unfolding cache_stable_def
  by (elim conjE, intro conjI ignores_trace_extend ok_field_extend_same ok_field_extend_other; simp)

lemma cache_stable_gitVerCache:
  assumes "cache_stable P f"
  shows "cache_stable (\<lambda>s. P s \<and> (r \<noteq> None \<longrightarrow> gitVerCache s = r)) f"
  using assms unfolding cache_stable_def
  by (elim conjE, intro conjI ignores_trace_extend ok_field_extend_same ok_field_extend_other; simp)

lemma cache_stable_gradleVerCache:
  assumes "cache_stable P f"
  shows "cache_stable (\<lambda>s. P s \<and> (r \<noteq> None \<longrightarrow> gradleVerCache s = r)) f"
  using assms unfolding cache_stable_def
  by (elim conjE, intro conjI ignores_trace_extend ok_field_extend_same ok_field_extend_other; simp)

lemma cache_stable_isCocoaPodsWorkingCorrectlyCache:
  assumes "cache_stable P f"
  shows "cache_stable (\<lambda>s. P s \<and> (r \<noteq> None \<longrightarrow> isCocoaPodsWorkingCorrectlyCache s = r)) f"
  using assms unfolding cache_stable_def
  by (elim conjE, intro conjI ignores_trace_extend ok_field_extend_same ok_field_extend_other; simp)

lemma cache_stable_nativeScriptCliVersionCache:
  assumes "cache_stable P f"
  shows "cache_stable (\<lambda>s. P s \<and> (r \<noteq> None \<longrightarrow> nativeScriptCliVersionCache s = r)) f"
  using assms unfolding cache_stable_def
  by (elim conjE, intro conjI ignores_trace_extend ok_field_extend_same ok_field_extend_other; simp)

lemma cache_stable_isCocoaPodsUpdateRequiredCache:
  assumes "cache_stable P f"
  shows "cache_stable (\<lambda>s. P s \<and> (r \<noteq> None \<longrightarrow> isCocoaPodsUpdateRequiredCache s = r)) f"
  using assms unfolding cache_stable_def
  by (elim conjE, intro conjI ignores_trace_extend ok_field_extend_same ok_field_extend_other; simp)

lemmas cache_stable_adds =
  cache_stable_osCache
  cache_stable_npmVerCache
  cache_stable_nodeGypVerCache
  cache_stable_javaVerCache
  cache_stable_javaCompilerVerCache
  cache_stable_xCodeVerCache
  cache_stable_xCodeprojGemLocationCache
  cache_stable_iTunesInstalledCache
  cache_stable_cocoaPodsVerCache
  cache_stable_adbVerCache
  cache_stable_androidInstalledCache
  cache_stable_monoVerCache
  cache_stable_gitVerCache
  cache_stable_gradleVerCache
  cache_stable_isCocoaPodsWorkingCorrectlyCache
  cache_stable_nativeScriptCliVersionCache
  cache_stable_isCocoaPodsUpdateRequiredCache

text \<open>
  The strategy of \<open>getSysInfo\<close>, step by step: with caching on, each probe leaves its
  present value in its field and no later probe changes it, and the snapshot has no
  \<open>cocoapodVer\<close>.
\<close>

lemma getSysInfo_fresh:
  "hoare (\<lambda>s. shouldCache s \<and> shouldCache s \<and> sysInfoCache s = None) (getSysInfo env)
     (\<lambda>r s. \<exists>s1. s = s1\<lparr>sysInfoCache := r\<rparr> \<and>
        (case r of None \<Rightarrow> False
         | Some d \<Rightarrow> shouldCache s1 \<and> snapshot_cached d s1 \<and> cocoapodVer d = None))"
  unfolding getSysInfo_def getNodeVersion_def
  apply (rule hoare_getValueForProperty_fresh)
  apply (rule hoare_await, rule hoare_getOs, (intro cache_stable_adds cache_stable_on), simp)
  apply (rule hoare_await, rule hoare_resolve_keep)
  apply (rule hoare_await, rule hoare_getNpmVersion, (intro cache_stable_adds cache_stable_on), simp)
  apply (rule hoare_await, rule hoare_getNodeGypVersion, (intro cache_stable_adds cache_stable_on), simp)
  apply (rule hoare_await, rule hoare_settled_keep)
  apply (rule hoare_await, rule hoare_getJavaVersion, (intro cache_stable_adds cache_stable_on), simp)
  apply (rule hoare_await, rule hoare_getJavaCompilerVersion, (intro cache_stable_adds cache_stable_on), simp)
  apply (rule hoare_await, rule hoare_getXcodeVersion, (intro cache_stable_adds cache_stable_on), simp)
  apply (rule hoare_await, rule hoare_getXcodeprojGemLocation, (intro cache_stable_adds cache_stable_on), simp)
  apply (rule hoare_await, rule hoare_isITunesInstalled, (intro cache_stable_adds cache_stable_on), simp)
  apply (rule hoare_await, rule hoare_getCocoaPodsVersion, (intro cache_stable_adds cache_stable_on), simp)
  apply (rule hoare_await, rule hoare_getAdbVersion, (intro cache_stable_adds cache_stable_on), simp)
  apply (rule hoare_await, rule hoare_isAndroidInstalled, (intro cache_stable_adds cache_stable_on), simp)
  apply (rule hoare_await, rule hoare_getMonoVersion, (intro cache_stable_adds cache_stable_on), simp)
  apply (rule hoare_await, rule hoare_getGitVersion, (intro cache_stable_adds cache_stable_on), simp)
  apply (rule hoare_await, rule hoare_getGradleVersion, (intro cache_stable_adds cache_stable_on), simp)
  apply (rule hoare_await, rule hoare_isCocoaPodsWorkingCorrectly, (intro cache_stable_adds cache_stable_on), simp)
  apply (rule hoare_await, rule hoare_getNativeScriptCliVersion, (intro cache_stable_adds cache_stable_on), simp)
  apply (rule hoare_await, rule hoare_isCocoaPodsUpdateRequired, (intro cache_stable_adds cache_stable_on), simp)
  apply (rule hoare_resolve)
  apply (simp add: snapshot_cached_def)
  done

lemma getSysInfo_snapshot:
  assumes "shouldCache s" and "sysInfoCache s = None"
    and "getSysInfo env s = (Inr (Some d), s')"
  shows "shouldCache s' \<and> sysInfoCache s' = Some d \<and> snapshot_cached d s' \<and> cocoapodVer d = None"
proof -
  from hoareD[OF getSysInfo_fresh _ assms(3)] assms(1,2)
  obtain s1 where "s' = s1\<lparr>sysInfoCache := Some d\<rparr>" "shouldCache s1" "snapshot_cached d s1"
    "cocoapodVer d = None"
    by auto
  then show ?thesis by (simp add: snapshot_cached_def)
qed

lemma getWarnings_mac_bare:
  "executed (snd (getWarnings mac_bare new_SysInfo)) =
     [''uname -a'', ''npm -v'', ''node-gyp -v'', ''java -version'', ''\"javac\" -version'',
      ''xcodebuild -version'', ''gem which xcodeproj'', ''pod --version'', ''adb version'',
      ''android -h'', ''mono --version'', ''git --version'', ''gradle -v'', ''pod install'',
      ''tns --version'', ''pod --version'', ''xcodebuild -version'']"
  by (simp add: getWarnings_def getWarnings_checks_def darwin_checks_def push_if_def
      accessor_defs promise_defs new_SysInfo_def mac_bare_def linux_bare_def no_files_def
      truthy_def truthy_bool_def to_string_def monoVerRegExp_exec_def GIT_VERSION_REGEXP_exec_def
      GRADLE_VERSION_REGEXP_exec_def literal_def literal_i_def mono_at_def path_join_def path_normalize_def
      getVersionFromString_def VERSION_REGEXP_match_def version_regexp_at_def is_digit_def
      semver_valid_def)

lemma getSysInfo_linux_java:
  "getSysInfo linux_java new_SysInfo = (Inr (Some linux_java_snapshot), linux_java_state)"
  by (simp add: accessor_defs promise_defs new_SysInfo_def linux_java_def linux_bare_def
      no_files_def truthy_def truthy_bool_def to_string_def monoVerRegExp_exec_def
      GIT_VERSION_REGEXP_exec_def GRADLE_VERSION_REGEXP_exec_def literal_def literal_i_def
      mono_at_def path_join_def path_normalize_def getVersionFromString_def VERSION_REGEXP_match_def
      version_regexp_at_def is_digit_def is_word_char_def is_alpha_def Let_def
      JAVA_VERSION_REGEXP_exec_def java_version_at_def to_lower_def dotted_number_def
      linux_java_snapshot_def linux_java_state_def)

section \<open>The states of the object\<close>

named_theorems frame_intros

lemmas [frame_intros] = keeps_resolve keeps_reject keeps_settled keeps_await keeps_try_catch
  keeps_if keeps_case_option keeps_run_command keeps_childProcess_exec keeps_spawnFromEvent
  keeps_exec keeps_execCommand keeps_getMonoVersion_step

lemma probe_stable_trace: "probe_stable P f \<Longrightarrow> ignores_trace P f"
  by (simp add: probe_stable_def)

lemma cache_stable_probe: "cache_stable P f \<Longrightarrow> probe_stable P f"
  by (simp add: cache_stable_def probe_stable_def)

text \<open>
  The probe accessors other than \<open>getSysInfo\<close> keep what is stable under the writes of
  their own fields.
\<close>

lemma frame_getJavaVersion [frame_intros]: "probe_stable P f \<Longrightarrow> keeps P f (getJavaVersion env)"
  unfolding getJavaVersion_def Let_def
  by (intro keeps_getValueForProperty frame_intros probe_stable_trace; simp add: probe_stable_def)

lemma frame_getJavaCompilerVersion [frame_intros]: "probe_stable P f \<Longrightarrow> keeps P f (getJavaCompilerVersion env)"
  unfolding getJavaCompilerVersion_def Let_def
  by (intro keeps_getValueForProperty frame_intros probe_stable_trace; simp add: probe_stable_def)

lemma frame_getXcodeVersion [frame_intros]: "probe_stable P f \<Longrightarrow> keeps P f (getXcodeVersion env)"
  unfolding getXcodeVersion_def Let_def
  by (intro keeps_getValueForProperty frame_intros probe_stable_trace; simp add: probe_stable_def)

lemma frame_getNpmVersion [frame_intros]: "probe_stable P f \<Longrightarrow> keeps P f (getNpmVersion env)"
  unfolding getNpmVersion_def Let_def
  by (intro keeps_getValueForProperty frame_intros probe_stable_trace; simp add: probe_stable_def)

lemma frame_getNodeGypVersion [frame_intros]: "probe_stable P f \<Longrightarrow> keeps P f (getNodeGypVersion env)"
  unfolding getNodeGypVersion_def Let_def
  by (intro keeps_getValueForProperty frame_intros probe_stable_trace; simp add: probe_stable_def)

lemma frame_getXcodeprojGemLocation [frame_intros]: "probe_stable P f \<Longrightarrow> keeps P f (getXcodeprojGemLocation env)"
  unfolding getXcodeprojGemLocation_def Let_def
  by (intro keeps_getValueForProperty frame_intros probe_stable_trace; simp add: probe_stable_def)

lemma frame_isITunesInstalled [frame_intros]: "probe_stable P f \<Longrightarrow> keeps P f (isITunesInstalled env)"
  unfolding isITunesInstalled_def Let_def
  by (intro keeps_getValueForProperty frame_intros probe_stable_trace; simp add: probe_stable_def)

lemma frame_getCocoaPodsVersion [frame_intros]: "probe_stable P f \<Longrightarrow> keeps P f (getCocoaPodsVersion env)"
  unfolding getCocoaPodsVersion_def Let_def
  by (intro keeps_getValueForProperty frame_intros probe_stable_trace; simp add: probe_stable_def)

lemma frame_getOs [frame_intros]: "probe_stable P f \<Longrightarrow> keeps P f (getOs env)"
  unfolding getOs_def winVer_def unixVer_def Let_def
  by (intro keeps_getValueForProperty frame_intros probe_stable_trace; simp add: probe_stable_def)

lemma frame_getAdbVersion [frame_intros]: "probe_stable P f \<Longrightarrow> keeps P f (getAdbVersion env)"
  unfolding getAdbVersion_def Let_def
  by (intro keeps_getValueForProperty frame_intros probe_stable_trace; simp add: probe_stable_def)

lemma frame_isAndroidInstalled [frame_intros]: "probe_stable P f \<Longrightarrow> keeps P f (isAndroidInstalled env)"
  unfolding isAndroidInstalled_def Let_def
  by (intro keeps_getValueForProperty frame_intros probe_stable_trace; simp add: probe_stable_def)

lemma frame_getMonoVersion [frame_intros]: "probe_stable P f \<Longrightarrow> keeps P f (getMonoVersion env)"
  unfolding getMonoVersion_def Let_def
  by (intro keeps_getValueForProperty frame_intros probe_stable_trace; simp add: probe_stable_def)

lemma frame_getGitVersion [frame_intros]: "probe_stable P f \<Longrightarrow> keeps P f (getGitVersion env)"
  unfolding getGitVersion_def Let_def
  by (intro keeps_getValueForProperty frame_intros probe_stable_trace; simp add: probe_stable_def)

lemma frame_getGradleVersion [frame_intros]: "probe_stable P f \<Longrightarrow> keeps P f (getGradleVersion env)"
  unfolding getGradleVersion_def Let_def
  by (intro keeps_getValueForProperty frame_intros probe_stable_trace; simp add: probe_stable_def)

lemma frame_isCocoaPodsWorkingCorrectly [frame_intros]: "probe_stable P f \<Longrightarrow> keeps P f (isCocoaPodsWorkingCorrectly env)"
  unfolding isCocoaPodsWorkingCorrectly_def Let_def
  by (intro keeps_getValueForProperty frame_intros probe_stable_trace; simp add: probe_stable_def)

lemma frame_getNativeScriptCliVersion [frame_intros]: "probe_stable P f \<Longrightarrow> keeps P f (getNativeScriptCliVersion env)"
  unfolding getNativeScriptCliVersion_def Let_def
  by (intro keeps_getValueForProperty frame_intros probe_stable_trace; simp add: probe_stable_def)

lemma frame_getXcprojInfo [frame_intros]: "probe_stable P f \<Longrightarrow> keeps P f (getXcprojInfo env)"
  unfolding getXcprojInfo_def Let_def
  by (intro keeps_getValueForProperty frame_intros probe_stable_trace; simp add: probe_stable_def)

lemma frame_isCocoaPodsUpdateRequired [frame_intros]: "probe_stable P f \<Longrightarrow> keeps P f (isCocoaPodsUpdateRequired env)"
  unfolding isCocoaPodsUpdateRequired_def Let_def
  by (intro keeps_getValueForProperty frame_intros probe_stable_trace; simp add: probe_stable_def)

lemma frame_getNodeVersion [frame_intros]: "keeps P f (getNodeVersion env)"
  unfolding getNodeVersion_def by (rule keeps_resolve)

lemma frame_darwin_checks [frame_intros]:
  "probe_stable P f \<Longrightarrow> keeps P f (darwin_checks env sysInfoData result0)"
  unfolding darwin_checks_def Let_def by (intro frame_intros; simp)

lemma frame_getWarnings_checks [frame_intros]:
  "probe_stable P f \<Longrightarrow> keeps P f (getWarnings_checks env sysInfoData)"
  unfolding getWarnings_checks_def Let_def by (intro frame_intros; simp)

text \<open>\<open>getSysInfo\<close> is the wrapper around a strategy that calls these accessors.\<close>

lemma getSysInfo_strategy:
  "\<exists>m. getSysInfo env = getValueForProperty sysInfoCache (\<lambda>v s. s\<lparr>sysInfoCache := v\<rparr>) m \<and>
       (\<forall>P. probe_stable P (\<lambda>s. ()) \<longrightarrow> keeps P (\<lambda>s. ()) m)"
  unfolding getSysInfo_def
  apply (rule exI, rule conjI, rule refl)
  apply (intro allI impI)
  apply (intro frame_intros; simp)
  done

text \<open>The two cases of \<open>consistent\<close> are stable.\<close>

lemma probe_stable_no_snapshot: "probe_stable (\<lambda>s. sysInfoCache s = None) (\<lambda>s. ())"
  by (simp add: probe_stable_def ignores_trace_def ok_field_def)

lemma cache_stable_has_snapshot: "cache_stable (\<lambda>s. sysInfoCache s = Some d) (\<lambda>s. ())"
proof -
  have own: "ok_field (\<lambda>s. sysInfoCache s = Some d) (\<lambda>s. ()) sysInfoCache
          (\<lambda>v s. s\<lparr>sysInfoCache := v\<rparr>)"
    by (rule ok_field_never) simp
  have trace: "ignores_trace (\<lambda>s. sysInfoCache s = Some d) (\<lambda>s. ())"
    by (simp add: ignores_trace_def)
  have other: "ok_field (\<lambda>s. sysInfoCache s = Some d) (\<lambda>s. ()) property assign"
    if "\<And>v s. sysInfoCache (assign v s) = sysInfoCache s"
    for property :: "SysInfo \<Rightarrow> 'a option" and assign
    using that by (simp add: ok_field_def)
  show ?thesis
    unfolding cache_stable_def by (intro conjI own trace; rule other; simp)
qed

lemma cache_stable_snapshot:
  "cache_stable (\<lambda>s. sysInfoCache s = Some d \<and> snapshot_cached d s) (\<lambda>s. ())"
proof -
  have "cache_stable
          (\<lambda>s. (((((((((((((((((sysInfoCache s = Some d) \<and>
            (os d \<noteq> None \<longrightarrow> osCache s = os d)) \<and>
            (npmVer d \<noteq> None \<longrightarrow> npmVerCache s = npmVer d)) \<and>
            (nodeGypVer d \<noteq> None \<longrightarrow> nodeGypVerCache s = nodeGypVer d)) \<and>
            (javaVer d \<noteq> None \<longrightarrow> javaVerCache s = javaVer d)) \<and>
            (javacVersion d \<noteq> None \<longrightarrow> javaCompilerVerCache s = javacVersion d)) \<and>
            (xcodeVer d \<noteq> None \<longrightarrow> xCodeVerCache s = xcodeVer d)) \<and>
            (xcodeprojGemLocation d \<noteq> None \<longrightarrow> xCodeprojGemLocationCache s = xcodeprojGemLocation d)) \<and>
            (itunesInstalled d \<noteq> None \<longrightarrow> iTunesInstalledCache s = itunesInstalled d)) \<and>
            (cocoaPodsVer d \<noteq> None \<longrightarrow> cocoaPodsVerCache s = cocoaPodsVer d)) \<and>
            (adbVer d \<noteq> None \<longrightarrow> adbVerCache s = adbVer d)) \<and>
            (androidInstalled d \<noteq> None \<longrightarrow> androidInstalledCache s = androidInstalled d)) \<and>
            (monoVer d \<noteq> None \<longrightarrow> monoVerCache s = monoVer d)) \<and>
            (gitVer d \<noteq> None \<longrightarrow> gitVerCache s = gitVer d)) \<and>
            (gradleVer d \<noteq> None \<longrightarrow> gradleVerCache s = gradleVer d)) \<and>
            (isCocoaPodsWorkingCorrectly_value d \<noteq> None \<longrightarrow> isCocoaPodsWorkingCorrectlyCache s = isCocoaPodsWorkingCorrectly_value d)) \<and>
            (nativeScriptCliVersion d \<noteq> None \<longrightarrow> nativeScriptCliVersionCache s = nativeScriptCliVersion d)) \<and>
            (isCocoaPodsUpdateRequired_value d \<noteq> None \<longrightarrow> isCocoaPodsUpdateRequiredCache s = isCocoaPodsUpdateRequired_value d))
          (\<lambda>s. ())"
    by (intro cache_stable_adds cache_stable_has_snapshot)
  then show ?thesis by (simp only: snapshot_cached_def conj_assoc)
qed

lemma consistent_frame:
  assumes "\<And>P. probe_stable P (\<lambda>s. ()) \<Longrightarrow> keeps P (\<lambda>s. ()) m" and "consistent s"
  shows "consistent (snd (m s))"
proof (cases "sysInfoCache s")
  case None
  from assms(1)[OF probe_stable_no_snapshot] None
  have "sysInfoCache (snd (m s)) = None" by (simp add: keeps_def)
  then show ?thesis by (simp add: consistent_def)
next
  case (Some d)
  with assms(2) have "sysInfoCache s = Some d \<and> snapshot_cached d s"
    by (simp add: consistent_def)
  with assms(1)[OF cache_stable_probe[OF cache_stable_snapshot[of d]]]
  have "sysInfoCache (snd (m s)) = Some d \<and> snapshot_cached d (snd (m s))"
    by (simp add: keeps_def)
  then show ?thesis by (simp add: consistent_def)
qed

lemma consistent_getSysInfo:
  assumes "consistent s"
  shows "consistent (snd (getSysInfo env s))"
proof -
  from getSysInfo_strategy[of env] obtain m where
    wrapper: "getSysInfo env = getValueForProperty sysInfoCache (\<lambda>v s. s\<lparr>sysInfoCache := v\<rparr>) m"
    and frame: "\<And>P. probe_stable P (\<lambda>s. ()) \<Longrightarrow> keeps P (\<lambda>s. ()) m"
    by blast
  show ?thesis
  proof (cases "shouldCache s")
    case False
    then have "getSysInfo env s = m s" by (simp add: wrapper getValueForProperty_def)
    with consistent_frame[OF frame assms] show ?thesis by simp
  next
    case True
    show ?thesis
    proof (cases "sysInfoCache s")
      case (Some d)
      with True have "getSysInfo env s = (Inr (Some d), s)"
        by (simp add: wrapper getValueForProperty_def)
      with assms show ?thesis by simp
    next
      case None
      obtain r s1 where run: "m s = (r, s1)" by (cases "m s")
      from frame[OF probe_stable_no_snapshot] None run
      have none: "sysInfoCache s1 = None" by (auto simp: keeps_def dest!: spec[of _ s])
      show ?thesis
      proof (cases r)
        case (Inl e)
        with True None run have "snd (getSysInfo env s) = s1"
          by (simp add: wrapper getValueForProperty_def)
        with none show ?thesis by (simp add: consistent_def)
      next
        case (Inr x)
        with True None run
        have result: "getSysInfo env s = (Inr x, s1\<lparr>sysInfoCache := x\<rparr>)"
          by (simp add: wrapper getValueForProperty_def)
        show ?thesis
        proof (cases x)
          case None
          with result show ?thesis by (simp add: consistent_def)
        next
          case (Some d)
          with getSysInfo_snapshot[OF True \<open>sysInfoCache s = None\<close>, of env d] result
          show ?thesis by (simp add: consistent_def)
        qed
      qed
    qed
  qed
qed

lemma consistent_getWarnings:
  assumes "consistent s"
  shows "consistent (snd (getWarnings env s))"
proof -
  obtain r s1 where run: "getSysInfo env s = (r, s1)" by (cases "getSysInfo env s")
  with consistent_getSysInfo[OF assms, of env] have s1: "consistent s1" by simp
  show ?thesis
  proof (cases r)
    case (Inl e)
    with run s1 show ?thesis by (simp add: getWarnings_def await_def)
  next
    case (Inr x)
    show ?thesis
    proof (cases x)
      case None
      with Inr run s1 show ?thesis by (simp add: getWarnings_def await_def reject_def)
    next
      case (Some d)
      with Inr run have "getWarnings env s = getWarnings_checks env d s1"
        by (simp add: getWarnings_def await_def)
      with consistent_frame[OF frame_getWarnings_checks s1, of env d] show ?thesis by simp
    qed
  qed
qed

text \<open>Every state of the object is consistent.\<close>

lemma consistent_new: "consistent new_SysInfo"
  by (simp add: consistent_def new_SysInfo_def)

lemma consistent_call:
  assumes "consistent s" and "step \<in> set (public_calls env)"
  shows "consistent (step s)"
  using assms(2) unfolding public_calls_def
  by (auto intro: consistent_frame[OF _ assms(1)] frame_intros
      consistent_getSysInfo[OF assms(1)] consistent_getWarnings[OF assms(1)])

lemma reachable_consistent: "reachable s \<Longrightarrow> consistent s"
proof (induction rule: reachable.induct)
  case new_object
  show ?case by (rule consistent_new)
next
  case (flag s b)
  then show ?case
    by (simp add: consistent_def setShouldCacheSysInfo_def snapshot_cached_def
        split: option.splits)
next
  case (call s step env)
  then show ?case by (simp add: consistent_call)
qed

section \<open>Counting the executed commands\<close>

named_theorems costs_intros

lemma costsD:
  "costs G c m k \<Longrightarrow> G s \<Longrightarrow> G (snd (m s)) \<and> runs c (snd (m s)) \<le> runs c s + k"
  by (simp add: costs_def)

lemma costs_weaken: "costs G c m k \<Longrightarrow> k \<le> k' \<Longrightarrow> costs G c m k'"
  unfolding costs_def by (meson add_left_mono le_trans)

lemma costs_resolve [costs_intros]: "costs G c (resolve x) 0"
  by (simp add: costs_def resolve_def)

lemma costs_reject [costs_intros]: "costs G c (reject e) 0"
  by (simp add: costs_def reject_def)

lemma costs_settled [costs_intros]: "costs G c (settled r) 0"
  by (simp add: costs_def settled_def)

lemma costs_await [costs_intros]:
  assumes "costs G c m k1" and "\<And>x. costs G c (f x) k2"
  shows "costs G c (await m f) (k1 + k2)"
  unfolding costs_def
proof (intro allI impI)
  fix s assume G: "G s"
  obtain r s1 where m: "m s = (r, s1)" by (cases "m s")
  from costsD[OF assms(1) G] m have 1: "G s1" "runs c s1 \<le> runs c s + k1" by auto
  show "G (snd (await m f s)) \<and> runs c (snd (await m f s)) \<le> runs c s + (k1 + k2)"
  proof (cases r)
    case (Inl e)
    with m 1 show ?thesis by (simp add: await_def)
  next
    case (Inr x)
    from costsD[OF assms(2) 1(1), of x] 1 m Inr show ?thesis by (simp add: await_def)
  qed
qed

lemma costs_try_catch [costs_intros]:
  assumes "costs G c m k1" and "\<And>e. costs G c (h e) k2"
  shows "costs G c (try_catch m h) (k1 + k2)"
  unfolding costs_def
proof (intro allI impI)
  fix s assume G: "G s"
  obtain r s1 where m: "m s = (r, s1)" by (cases "m s")
  from costsD[OF assms(1) G] m have 1: "G s1" "runs c s1 \<le> runs c s + k1" by auto
  show "G (snd (try_catch m h s)) \<and> runs c (snd (try_catch m h s)) \<le> runs c s + (k1 + k2)"
  proof (cases r)
    case (Inr x)
    with m 1 show ?thesis by (simp add: try_catch_def)
  next
    case (Inl e)
    from costsD[OF assms(2) 1(1), of e] 1 m Inl show ?thesis by (simp add: try_catch_def)
  qed
qed

lemma costs_if [costs_intros]:
  "costs G c m1 k1 \<Longrightarrow> costs G c m2 k2 \<Longrightarrow> costs G c (if b then m1 else m2) (max k1 k2)"
  using costs_weaken[of G c m1 k1 "max k1 k2"] costs_weaken[of G c m2 k2 "max k1 k2"] by simp

lemma costs_case_option [costs_intros]:
  "costs G c m1 k1 \<Longrightarrow> (\<And>y. costs G c (m2 y) k2) \<Longrightarrow>
   costs G c (case x of None \<Rightarrow> m1 | Some y \<Rightarrow> m2 y) (max k1 k2)"
proof (cases x)
  case None
  assume "costs G c m1 k1"
  from costs_weaken[OF this, of "max k1 k2"] None show ?thesis by simp
next
  case (Some y)
  assume "\<And>y. costs G c (m2 y) k2"
  from costs_weaken[OF this, of "max k1 k2" y] Some show ?thesis by simp
qed

lemma costs_run_command [costs_intros]:
  "ignores_trace G (\<lambda>s. ()) \<Longrightarrow>
   costs G c (run_command env cmd ignoreError) (if cmd = c then 1 else 0)"
  by (auto simp: costs_def runs_def run_command_def ignores_trace_def Let_def
      split: process_outcome.splits)

lemma costs_childProcess_exec [costs_intros]:
  "ignores_trace G (\<lambda>s. ()) \<Longrightarrow> costs G c (childProcess_exec env cmd) (if cmd = c then 1 else 0)"
  by (simp add: childProcess_exec_def costs_run_command)

lemma costs_spawnFromEvent [costs_intros]:
  "ignores_trace G (\<lambda>s. ()) \<Longrightarrow>
   costs G c (childProcess_spawnFromEvent env command args ignoreError)
     (if join_with '' '' (command # args) = c then 1 else 0)"
  by (simp add: childProcess_spawnFromEvent_def costs_run_command)

lemma costs_exec [costs_intros]:
  "ignores_trace G (\<lambda>s. ()) \<Longrightarrow> costs G c (exec env cmd) (if cmd = c then 1 else 0)"
  unfolding exec_def
  by (rule costs_weaken, (rule costs_intros | assumption)+) simp

lemma costs_execCommand [costs_intros]:
  "ignores_trace G (\<lambda>s. ()) \<Longrightarrow> costs G c (execCommand env cmd) (if cmd = c then 1 else 0)"
  unfolding execCommand_def
  by (rule costs_weaken, (rule costs_intros | assumption)+) simp

lemma costs_getMonoVersion_step [costs_intros]:
  "ignores_trace G (\<lambda>s. ()) \<Longrightarrow>
   costs G c (\<lambda>s. case monoVerRegExp_exec out (monoVerRegExp_lastIndex s) of
                     (match, lastIndex) \<Rightarrow> (Inr match, s\<lparr>monoVerRegExp_lastIndex := lastIndex\<rparr>)) 0"
  by (auto simp: costs_def runs_def ignores_trace_def split: prod.splits)

text \<open>The wrapper costs what the strategy costs, and nothing when the field is filled.\<close>

lemma costs_getValueForProperty:
  assumes "costs G c m k" and "ok_field G (\<lambda>s. ()) property assign"
    and "\<And>v s. executed (assign v s) = executed s"
  shows "costs G c (getValueForProperty property assign m) k"
  unfolding costs_def
proof (intro allI impI)
  fix s assume G: "G s"
  obtain r s1 where m: "m s = (r, s1)" by (cases "m s")
  from costsD[OF assms(1) G] m have 1: "G s1" "runs c s1 \<le> runs c s + k" by auto
  show "G (snd (getValueForProperty property assign m s)) \<and>
        runs c (snd (getValueForProperty property assign m s)) \<le> runs c s + k"
  proof (cases "shouldCache s \<and> property s = None")
    case False
    with G m 1 show ?thesis
      by (auto simp: getValueForProperty_def split: option.splits)
  next
    case True
    with assms(2) G 1 have "\<And>v. G (assign v s1)"
      unfolding ok_field_def by blast
    moreover have "\<And>v. runs c (assign v s1) = runs c s1"
      by (simp add: runs_def assms(3))
    ultimately show ?thesis using True m 1
      by (cases r) (auto simp: getValueForProperty_def split: option.splits)
  qed
qed

lemma costs_cached:
  assumes "\<And>s. G s \<Longrightarrow> shouldCache s \<and> property s \<noteq> None"
  shows "costs G c (getValueForProperty property assign m) 0"
  unfolding costs_def
proof (intro allI impI)
  fix s assume G: "G s"
  with assms obtain v where "shouldCache s" "property s = Some v" by auto
  then have "getValueForProperty property assign m s = (Inr (Some v), s)"
    by (simp add: getValueForProperty_def)
  with G show "G (snd (getValueForProperty property assign m s)) \<and>
        runs c (snd (getValueForProperty property assign m s)) \<le> runs c s + 0"
    by simp
qed

text \<open>
  What a call of each probe accessor executes at most: its own command, once. The
  command of \<open>getJavaCompilerVersion\<close> depends on \<open>JAVA_HOME\<close> and starts with a
  quotation mark.
\<close>

lemma costs_getJavaVersion:
  assumes "cache_stable G (\<lambda>s. ())"
  shows "costs G c (getJavaVersion env) (if c = ''java -version'' then 1 else 0)"
  unfolding getJavaVersion_def Let_def
  apply (rule costs_weaken)
   apply (rule costs_getValueForProperty)
     apply ((rule costs_intros cache_stable_trace[OF assms])+)
  using assms apply (simp_all add: cache_stable_def)
  done

lemma costs_getJavaCompilerVersion:
  assumes "cache_stable G (\<lambda>s. ())"
  shows "costs G c (getJavaCompilerVersion env) (if hd c = CHR ''\"'' then 1 else 0)"
  unfolding getJavaCompilerVersion_def Let_def
  apply (rule costs_weaken)
   apply (rule costs_getValueForProperty)
     apply ((rule costs_intros cache_stable_trace[OF assms])+)
  using assms apply (auto simp: cache_stable_def)
  done

lemma costs_getXcodeVersion:
  assumes "cache_stable G (\<lambda>s. ())"
  shows "costs G c (getXcodeVersion env) (if c = ''xcodebuild -version'' then 1 else 0)"
  unfolding getXcodeVersion_def Let_def
  apply (rule costs_weaken)
   apply (rule costs_getValueForProperty)
     apply ((rule costs_intros cache_stable_trace[OF assms])+)
  using assms apply (simp_all add: cache_stable_def)
  done

lemma costs_getNpmVersion:
  assumes "cache_stable G (\<lambda>s. ())"
  shows "costs G c (getNpmVersion env) (if c = ''npm -v'' then 1 else 0)"
  unfolding getNpmVersion_def Let_def
  apply (rule costs_weaken)
   apply (rule costs_getValueForProperty)
     apply ((rule costs_intros cache_stable_trace[OF assms])+)
  using assms apply (simp_all add: cache_stable_def)
  done

lemma costs_getNodeGypVersion:
  assumes "cache_stable G (\<lambda>s. ())"
  shows "costs G c (getNodeGypVersion env) (if c = ''node-gyp -v'' then 1 else 0)"
  unfolding getNodeGypVersion_def Let_def
  apply (rule costs_weaken)
   apply (rule costs_getValueForProperty)
     apply ((rule costs_intros cache_stable_trace[OF assms])+)
  using assms apply (simp_all add: cache_stable_def)
  done

lemma costs_getXcodeprojGemLocation:
  assumes "cache_stable G (\<lambda>s. ())"
  shows "costs G c (getXcodeprojGemLocation env) (if c = ''gem which xcodeproj'' then 1 else 0)"
  unfolding getXcodeprojGemLocation_def Let_def
  apply (rule costs_weaken)
   apply (rule costs_getValueForProperty)
     apply ((rule costs_intros cache_stable_trace[OF assms])+)
  using assms apply (simp_all add: cache_stable_def)
  done

lemma costs_isITunesInstalled:
  assumes "cache_stable G (\<lambda>s. ())"
  shows "costs G c (isITunesInstalled env) 0"
  unfolding isITunesInstalled_def Let_def
  apply (rule costs_weaken)
   apply (rule costs_getValueForProperty)
     apply ((rule costs_intros cache_stable_trace[OF assms])+)
  using assms apply (simp_all add: cache_stable_def)
  done

lemma costs_getCocoaPodsVersion:
  assumes "cache_stable G (\<lambda>s. ())"
  shows "costs G c (getCocoaPodsVersion env) (if c = ''pod --version'' then 1 else 0)"
  unfolding getCocoaPodsVersion_def Let_def
  apply (rule costs_weaken)
   apply (rule costs_getValueForProperty)
     apply ((rule costs_intros cache_stable_trace[OF assms])+)
  using assms apply (simp_all add: cache_stable_def)
  done

lemma costs_getOs:
  assumes "cache_stable G (\<lambda>s. ())"
  shows "costs G c (getOs env) (if c = ''uname -a'' then 1 else 0)"
  unfolding getOs_def winVer_def unixVer_def Let_def
  apply (rule costs_weaken)
   apply (rule costs_getValueForProperty)
     apply ((rule costs_intros cache_stable_trace[OF assms])+)
  using assms apply (simp_all add: cache_stable_def)
  done

lemma costs_getAdbVersion:
  assumes "cache_stable G (\<lambda>s. ())"
  shows "costs G c (getAdbVersion env) (if c = ''adb version'' then 1 else 0)"
  unfolding getAdbVersion_def Let_def
  apply (rule costs_weaken)
   apply (rule costs_getValueForProperty)
     apply ((rule costs_intros cache_stable_trace[OF assms])+)
  using assms apply (simp_all add: cache_stable_def)
  done

lemma costs_isAndroidInstalled:
  assumes "cache_stable G (\<lambda>s. ())"
  shows "costs G c (isAndroidInstalled env) (if c = ''android -h'' \<or> c = ''android.bat -h'' then 1 else 0)"
  unfolding isAndroidInstalled_def Let_def
  apply (rule costs_weaken)
   apply (rule costs_getValueForProperty)
     apply ((rule costs_intros cache_stable_trace[OF assms])+)
  using assms apply (simp_all add: cache_stable_def)
  done

lemma costs_getMonoVersion:
  assumes "cache_stable G (\<lambda>s. ())"
  shows "costs G c (getMonoVersion env) (if c = ''mono --version'' then 1 else 0)"
  unfolding getMonoVersion_def Let_def
  apply (rule costs_weaken)
   apply (rule costs_getValueForProperty)
     apply ((rule costs_intros cache_stable_trace[OF assms])+)
  using assms apply (simp_all add: cache_stable_def)
  done

lemma costs_getGitVersion:
  assumes "cache_stable G (\<lambda>s. ())"
  shows "costs G c (getGitVersion env) (if c = ''git --version'' then 1 else 0)"
  unfolding getGitVersion_def Let_def
  apply (rule costs_weaken)
   apply (rule costs_getValueForProperty)
     apply ((rule costs_intros cache_stable_trace[OF assms])+)
  using assms apply (simp_all add: cache_stable_def)
  done

lemma costs_getGradleVersion:
  assumes "cache_stable G (\<lambda>s. ())"
  shows "costs G c (getGradleVersion env) (if c = ''gradle -v'' then 1 else 0)"
  unfolding getGradleVersion_def Let_def
  apply (rule costs_weaken)
   apply (rule costs_getValueForProperty)
     apply ((rule costs_intros cache_stable_trace[OF assms])+)
  using assms apply (simp_all add: cache_stable_def)
  done

lemma costs_isCocoaPodsWorkingCorrectly:
  assumes "cache_stable G (\<lambda>s. ())"
  shows "costs G c (isCocoaPodsWorkingCorrectly env) (if c = ''pod install'' then 1 else 0)"
  unfolding isCocoaPodsWorkingCorrectly_def Let_def
  apply (rule costs_weaken)
   apply (rule costs_getValueForProperty)
     apply ((rule costs_intros cache_stable_trace[OF assms])+)
  using assms apply (simp_all add: cache_stable_def)
  done

lemma costs_getNativeScriptCliVersion:
  assumes "cache_stable G (\<lambda>s. ())"
  shows "costs G c (getNativeScriptCliVersion env) (if c = ''tns --version'' then 1 else 0)"
  unfolding getNativeScriptCliVersion_def Let_def
  apply (rule costs_weaken)
   apply (rule costs_getValueForProperty)
     apply ((rule costs_intros cache_stable_trace[OF assms])+)
  using assms apply (simp_all add: cache_stable_def)
  done

text \<open>The accessors that call other accessors, and the checks of \<open>getWarnings\<close>.\<close>

lemma costs_getXcprojInfo:
  assumes "cache_stable G (\<lambda>s. ())"
    and pods: "costs G c (getCocoaPodsVersion env) k1"
    and xcode: "costs G c (getXcodeVersion env) k2"
  shows "costs G c (getXcprojInfo env) (k1 + k2 + (if c = ''xcproj --version'' then 1 else 0))"
  unfolding getXcprojInfo_def Let_def
  apply (rule costs_weaken)
   apply (rule costs_getValueForProperty)
     apply ((rule pods xcode costs_intros cache_stable_trace[OF assms(1)])+)
  using assms(1) apply (simp_all add: cache_stable_def)
  done

lemma costs_isCocoaPodsUpdateRequired:
  assumes "cache_stable G (\<lambda>s. ())" and info: "costs G c (getXcprojInfo env) k"
  shows "costs G c (isCocoaPodsUpdateRequired env) k"
  unfolding isCocoaPodsUpdateRequired_def Let_def
  apply (rule costs_weaken)
   apply (rule costs_getValueForProperty)
     apply ((rule info costs_intros)+)
  using assms(1) apply (simp_all add: cache_stable_def)
  done

lemma costs_darwin_checks:
  assumes working: "costs G c (isCocoaPodsWorkingCorrectly env) k"
  shows "costs G c (darwin_checks env sysInfoData result0) k"
  unfolding darwin_checks_def Let_def
  by (rule costs_weaken, (rule working costs_intros)+) simp

lemma costs_getWarnings_checks:
  assumes working: "costs G c (isCocoaPodsWorkingCorrectly env) k"
  shows "costs G c (getWarnings_checks env sysInfoData) k"
  unfolding getWarnings_checks_def Let_def
  by (rule costs_weaken, (rule costs_darwin_checks[OF working] costs_intros)+) simp

lemma cache_stable_True: "cache_stable (\<lambda>s. True) (\<lambda>s. ())"
  by (simp add: cache_stable_def ignores_trace_def ok_field_def)

text \<open>
  A command other than those of the CocoaPods and Xcode version probes is executed at most
  once by \<open>getSysInfo\<close>, whatever the caching flag says: its probe is asked once.
\<close>

lemma costs_getSysInfo_other:
  assumes "c \<noteq> ''pod --version''" and "c \<noteq> ''xcodebuild -version''"
  shows "costs (\<lambda>s. True) c (getSysInfo env) 1"
  unfolding getSysInfo_def getNodeVersion_def
  apply (rule costs_weaken)
   apply (rule costs_getValueForProperty)
     apply ((rule costs_isCocoaPodsUpdateRequired costs_getXcprojInfo
        costs_getJavaVersion costs_getJavaCompilerVersion costs_getXcodeVersion
        costs_getNpmVersion costs_getNodeGypVersion costs_getXcodeprojGemLocation
        costs_isITunesInstalled costs_getCocoaPodsVersion costs_getOs costs_getAdbVersion
        costs_isAndroidInstalled costs_getMonoVersion costs_getGitVersion
        costs_getGradleVersion costs_isCocoaPodsWorkingCorrectly
        costs_getNativeScriptCliVersion costs_intros cache_stable_True)+)
    apply (simp add: ok_field_def)
   apply simp
  using assms apply (auto split: if_splits)
  done

text \<open>Steps of an evaluation: the bound on the runs of a command is kept by a call
  that does not execute it.\<close>

lemma quiet_step:
  assumes "costs G c m 0"
  shows "hoare (\<lambda>s. G s \<and> (b \<longrightarrow> runs c s \<le> n)) m (\<lambda>r s. G s \<and> (b \<longrightarrow> runs c s \<le> n))"
  unfolding hoare_def
proof (intro allI impI)
  fix s x s' assume pre: "G s \<and> (b \<longrightarrow> runs c s \<le> n)" and run: "m s = (Inr x, s')"
  from costsD[OF assms, of s] pre run have "G s'" "runs c s' \<le> runs c s" by auto
  with pre show "G s' \<and> (b \<longrightarrow> runs c s' \<le> n)" by auto
qed

lemma guarded_step:
  assumes "b \<Longrightarrow> costs G c m 0" and "costs G c m k"
  shows "hoare (\<lambda>s. G s \<and> (b \<longrightarrow> runs c s \<le> n)) m (\<lambda>r s. G s \<and> (b \<longrightarrow> runs c s \<le> n))"
proof (cases b)
  case True
  from quiet_step[OF assms(1)[OF True]] show ?thesis .
next
  case False
  show ?thesis
    unfolding hoare_def
  proof (intro allI impI)
    fix s x s' assume pre: "G s \<and> (b \<longrightarrow> runs c s \<le> n)" and run: "m s = (Inr x, s')"
    from costsD[OF assms(2), of s] pre run have "G s'" by auto
    with False show "G s' \<and> (b \<longrightarrow> runs c s' \<le> n)" by simp
  qed
qed

text \<open>The first call of a probe in an evaluation: it runs its command at most once, and
  a present result is in its field afterwards.\<close>

lemma first_call:
  assumes "costs (\<lambda>s. shouldCache s) c (getValueForProperty property assign m) 1"
    and "\<And>x t. property (assign x t) = x"
  shows "hoare (\<lambda>s. shouldCache s \<and> (True \<longrightarrow> runs c s \<le> n))
           (getValueForProperty property assign m)
           (\<lambda>r s. (shouldCache s \<and> (r \<noteq> None \<longrightarrow> property s = r)) \<and>
                  (r \<noteq> None \<longrightarrow> runs c s \<le> n + 1))"
  unfolding hoare_def
proof (intro allI impI)
  fix s r s'
  assume pre: "shouldCache s \<and> (True \<longrightarrow> runs c s \<le> n)"
    and run: "getValueForProperty property assign m s = (Inr r, s')"
  from costsD[OF assms(1), of s] pre run
  have on: "shouldCache s'" and bound: "runs c s' \<le> n + 1" by auto
  have "property s' = r" if "r \<noteq> None"
  proof -
    from that obtain v where "r = Some v" by auto
    with getValueForProperty_stored[of property assign m s v s'] run pre assms(2)
    show ?thesis by simp
  qed
  with on bound
  show "(shouldCache s' \<and> (r \<noteq> None \<longrightarrow> property s' = r)) \<and> (r \<noteq> None \<longrightarrow> runs c s' \<le> n + 1)"
    by simp
qed

lemma hoare_wrapper:
  assumes "hoare P m Q" and "\<And>v s. P s \<Longrightarrow> property s = Some v \<Longrightarrow> Q (Some v) s"
    and "\<And>r s. Q r s \<Longrightarrow> Q r (assign r s)"
  shows "hoare P (getValueForProperty property assign m) Q"
  unfolding hoare_def
proof (intro allI impI)
  fix s r s'
  assume pre: "P s" and run: "getValueForProperty property assign m s = (Inr r, s')"
  show "Q r s'"
  proof (cases "shouldCache s")
    case False
    with run have "m s = (Inr r, s')" by (simp add: getValueForProperty_def)
    from hoareD[OF assms(1) pre this] show ?thesis .
  next
    case True
    show ?thesis
    proof (cases "property s")
      case (Some v)
      with True run have "r = Some v" "s' = s" by (simp_all add: getValueForProperty_def)
      with assms(2)[OF pre Some] show ?thesis by simp
    next
      case None
      with True run obtain s1 where "m s = (Inr r, s1)" "s' = assign r s1"
        by (auto simp: getValueForProperty_def split: prod.splits sum.splits)
      with hoareD[OF assms(1) pre, of r s1] assms(3) show ?thesis by simp
    qed
  qed
qed

text \<open>\<open>isCocoaPodsUpdateRequired\<close> asks the CocoaPods and Xcode versions again.\<close>

lemma costs_update_required:
  assumes "cache_stable G (\<lambda>s. ())"
  shows "costs G c (isCocoaPodsUpdateRequired env)
           ((if c = ''pod --version'' then 1 else 0) + (if c = ''xcodebuild -version'' then 1 else 0) +
            (if c = ''xcproj --version'' then 1 else 0))"
  by (rule costs_isCocoaPodsUpdateRequired[OF assms costs_getXcprojInfo[OF assms
        costs_getCocoaPodsVersion[OF assms] costs_getXcodeVersion[OF assms]]])

lemma costs_update_required_pods:
  assumes "r \<noteq> None"
  shows "costs (\<lambda>s. shouldCache s \<and> (r \<noteq> None \<longrightarrow> cocoaPodsVerCache s = r)) ''pod --version''
           (isCocoaPodsUpdateRequired env) 0"
proof -
  let ?G = "\<lambda>s. shouldCache s \<and> (r \<noteq> None \<longrightarrow> cocoaPodsVerCache s = r)"
  have stable: "cache_stable ?G (\<lambda>s. ())"
    by (rule cache_stable_cocoaPodsVerCache[OF cache_stable_on])
  have cached: "costs ?G ''pod --version'' (getCocoaPodsVersion env) 0"
    unfolding getCocoaPodsVersion_def by (rule costs_cached) (simp add: assms)
  from costs_isCocoaPodsUpdateRequired[OF stable costs_getXcprojInfo[OF stable cached
        costs_getXcodeVersion[OF stable]]]
  show ?thesis by simp
qed

lemma costs_update_required_xcode:
  assumes "r \<noteq> None"
  shows "costs (\<lambda>s. shouldCache s \<and> (r \<noteq> None \<longrightarrow> xCodeVerCache s = r)) ''xcodebuild -version''
           (isCocoaPodsUpdateRequired env) 0"
proof -
  let ?G = "\<lambda>s. shouldCache s \<and> (r \<noteq> None \<longrightarrow> xCodeVerCache s = r)"
  have stable: "cache_stable ?G (\<lambda>s. ())"
    by (rule cache_stable_xCodeVerCache[OF cache_stable_on])
  have cached: "costs ?G ''xcodebuild -version'' (getXcodeVersion env) 0"
    unfolding getXcodeVersion_def by (rule costs_cached) (simp add: assms)
  from costs_isCocoaPodsUpdateRequired[OF stable costs_getXcprojInfo[OF stable
        costs_getCocoaPodsVersion[OF stable] cached]]
  show ?thesis by simp
qed

text \<open>The command of the CocoaPods version within one \<open>getSysInfo\<close>, with caching on.\<close>

lemma first_pods:
  "hoare (\<lambda>s. shouldCache s \<and> (True \<longrightarrow> runs ''pod --version'' s \<le> n)) (getCocoaPodsVersion env)
     (\<lambda>r s. (shouldCache s \<and> (r \<noteq> None \<longrightarrow> cocoaPodsVerCache s = r)) \<and>
            (r \<noteq> None \<longrightarrow> runs ''pod --version'' s \<le> n + 1))"
proof -
  have "costs (\<lambda>s. shouldCache s) ''pod --version'' (getCocoaPodsVersion env) 1"
    by (rule costs_weaken, rule costs_getCocoaPodsVersion, rule cache_stable_on, simp)
  then show ?thesis
    unfolding getCocoaPodsVersion_def Let_def by (rule first_call) simp
qed

lemma getSysInfo_runs_pods:
  "hoare (\<lambda>s. shouldCache s \<and> (True \<longrightarrow> runs ''pod --version'' s \<le> n)) (getSysInfo env)
     (\<lambda>r s. \<forall>d. r = Some d \<longrightarrow> cocoaPodsVer d \<noteq> None \<longrightarrow>
        runs ''pod --version'' s \<le> n + 1 \<and> (runs ''pod --version'' s \<le> n \<or> shouldCache s \<and> cocoaPodsVerCache s = cocoaPodsVer d))"
  unfolding getSysInfo_def getNodeVersion_def
  apply (rule hoare_wrapper)
    apply (rule hoare_await, rule quiet_step, rule costs_weaken, rule costs_getOs,
      rule cache_stable_on, simp)
    apply (rule hoare_await, rule quiet_step, rule costs_resolve)
    apply (rule hoare_await, rule quiet_step, rule costs_weaken, rule costs_getNpmVersion,
      rule cache_stable_on, simp)
    apply (rule hoare_await, rule quiet_step, rule costs_weaken, rule costs_getNodeGypVersion,
      rule cache_stable_on, simp)
    apply (rule hoare_await, rule quiet_step, rule costs_settled)
    apply (rule hoare_await, rule quiet_step, rule costs_weaken, rule costs_getJavaVersion,
      rule cache_stable_on, simp)
    apply (rule hoare_await, rule quiet_step, rule costs_weaken, rule costs_getJavaCompilerVersion,
      rule cache_stable_on, simp)
    apply (rule hoare_await, rule quiet_step, rule costs_weaken, rule costs_getXcodeVersion,
      rule cache_stable_on, simp)
    apply (rule hoare_await, rule quiet_step, rule costs_weaken, rule costs_getXcodeprojGemLocation,
      rule cache_stable_on, simp)
    apply (rule hoare_await, rule quiet_step, rule costs_weaken, rule costs_isITunesInstalled,
      rule cache_stable_on, simp)
    apply (rule hoare_await, rule first_pods)
    apply (rule hoare_await, rule quiet_step, rule costs_weaken, rule costs_getAdbVersion,
      rule cache_stable_cocoaPodsVerCache, rule cache_stable_on, simp)
    apply (rule hoare_await, rule quiet_step, rule costs_weaken, rule costs_isAndroidInstalled,
      rule cache_stable_cocoaPodsVerCache, rule cache_stable_on, simp)
    apply (rule hoare_await, rule quiet_step, rule costs_weaken, rule costs_getMonoVersion,
      rule cache_stable_cocoaPodsVerCache, rule cache_stable_on, simp)
    apply (rule hoare_await, rule quiet_step, rule costs_weaken, rule costs_getGitVersion,
      rule cache_stable_cocoaPodsVerCache, rule cache_stable_on, simp)
    apply (rule hoare_await, rule quiet_step, rule costs_weaken, rule costs_getGradleVersion,
      rule cache_stable_cocoaPodsVerCache, rule cache_stable_on, simp)
    apply (rule hoare_await, rule quiet_step, rule costs_weaken, rule costs_isCocoaPodsWorkingCorrectly,
      rule cache_stable_cocoaPodsVerCache, rule cache_stable_on, simp)
    apply (rule hoare_await, rule quiet_step, rule costs_weaken, rule costs_getNativeScriptCliVersion,
      rule cache_stable_cocoaPodsVerCache, rule cache_stable_on, simp)
    apply (rule hoare_await, rule guarded_step, rule costs_update_required_pods, assumption,
      rule costs_update_required, rule cache_stable_cocoaPodsVerCache, rule cache_stable_on)
    apply (rule hoare_resolve)
    apply simp
   apply simp
  apply (simp add: runs_def)
  done

text \<open>The command of the Xcode version within one \<open>getSysInfo\<close>, with caching on.\<close>

lemma first_xcode:
  "hoare (\<lambda>s. shouldCache s \<and> (True \<longrightarrow> runs ''xcodebuild -version'' s \<le> n)) (getXcodeVersion env)
     (\<lambda>r s. (shouldCache s \<and> (r \<noteq> None \<longrightarrow> xCodeVerCache s = r)) \<and>
            (r \<noteq> None \<longrightarrow> runs ''xcodebuild -version'' s \<le> n + 1))"
proof -
  have "costs (\<lambda>s. shouldCache s) ''xcodebuild -version'' (getXcodeVersion env) 1"
    by (rule costs_weaken, rule costs_getXcodeVersion, rule cache_stable_on, simp)
  then show ?thesis
    unfolding getXcodeVersion_def Let_def by (rule first_call) simp
qed

lemma getSysInfo_runs_xcode:
  "hoare (\<lambda>s. shouldCache s \<and> (True \<longrightarrow> runs ''xcodebuild -version'' s \<le> n)) (getSysInfo env)
     (\<lambda>r s. \<forall>d. r = Some d \<longrightarrow> xcodeVer d \<noteq> None \<longrightarrow>
        runs ''xcodebuild -version'' s \<le> n + 1 \<and> (runs ''xcodebuild -version'' s \<le> n \<or> shouldCache s \<and> xCodeVerCache s = xcodeVer d))"
  unfolding getSysInfo_def getNodeVersion_def
  apply (rule hoare_wrapper)
    apply (rule hoare_await, rule quiet_step, rule costs_weaken, rule costs_getOs,
      rule cache_stable_on, simp)
    apply (rule hoare_await, rule quiet_step, rule costs_resolve)
    apply (rule hoare_await, rule quiet_step, rule costs_weaken, rule costs_getNpmVersion,
      rule cache_stable_on, simp)
    apply (rule hoare_await, rule quiet_step, rule costs_weaken, rule costs_getNodeGypVersion,
      rule cache_stable_on, simp)
    apply (rule hoare_await, rule quiet_step, rule costs_settled)
    apply (rule hoare_await, rule quiet_step, rule costs_weaken, rule costs_getJavaVersion,
      rule cache_stable_on, simp)
    apply (rule hoare_await, rule quiet_step, rule costs_weaken, rule costs_getJavaCompilerVersion,
      rule cache_stable_on, simp)
    apply (rule hoare_await, rule first_xcode)
    apply (rule hoare_await, rule quiet_step, rule costs_weaken, rule costs_getXcodeprojGemLocation,
      rule cache_stable_xCodeVerCache, rule cache_stable_on, simp)
    apply (rule hoare_await, rule quiet_step, rule costs_weaken, rule costs_isITunesInstalled,
      rule cache_stable_xCodeVerCache, rule cache_stable_on, simp)
    apply (rule hoare_await, rule quiet_step, rule costs_weaken, rule costs_getCocoaPodsVersion,
      rule cache_stable_xCodeVerCache, rule cache_stable_on, simp)
    apply (rule hoare_await, rule quiet_step, rule costs_weaken, rule costs_getAdbVersion,
      rule cache_stable_xCodeVerCache, rule cache_stable_on, simp)
    apply (rule hoare_await, rule quiet_step, rule costs_weaken, rule costs_isAndroidInstalled,
      rule cache_stable_xCodeVerCache, rule cache_stable_on, simp)
    apply (rule hoare_await, rule quiet_step, rule costs_weaken, rule costs_getMonoVersion,
      rule cache_stable_xCodeVerCache, rule cache_stable_on, simp)
    apply (rule hoare_await, rule quiet_step, rule costs_weaken, rule costs_getGitVersion,
      rule cache_stable_xCodeVerCache, rule cache_stable_on, simp)
    apply (rule hoare_await, rule quiet_step, rule costs_weaken, rule costs_getGradleVersion,
      rule cache_stable_xCodeVerCache, rule cache_stable_on, simp)
    apply (rule hoare_await, rule quiet_step, rule costs_weaken, rule costs_isCocoaPodsWorkingCorrectly,
      rule cache_stable_xCodeVerCache, rule cache_stable_on, simp)
    apply (rule hoare_await, rule quiet_step, rule costs_weaken, rule costs_getNativeScriptCliVersion,
      rule cache_stable_xCodeVerCache, rule cache_stable_on, simp)
    apply (rule hoare_await, rule guarded_step, rule costs_update_required_xcode, assumption,
      rule costs_update_required, rule cache_stable_xCodeVerCache, rule cache_stable_on)
    apply (rule hoare_resolve)
    apply simp
   apply simp
  apply (simp add: runs_def)
  done

text \<open>The command of the CocoaPods functional check within one \<open>getSysInfo\<close>, with caching on.\<close>

lemma first_install:
  "hoare (\<lambda>s. shouldCache s \<and> (True \<longrightarrow> runs ''pod install'' s \<le> n)) (isCocoaPodsWorkingCorrectly env)
     (\<lambda>r s. (shouldCache s \<and> (r \<noteq> None \<longrightarrow> isCocoaPodsWorkingCorrectlyCache s = r)) \<and>
            (r \<noteq> None \<longrightarrow> runs ''pod install'' s \<le> n + 1))"
proof -
  have "costs (\<lambda>s. shouldCache s) ''pod install'' (isCocoaPodsWorkingCorrectly env) 1"
    by (rule costs_weaken, rule costs_isCocoaPodsWorkingCorrectly, rule cache_stable_on, simp)
  then show ?thesis
    unfolding isCocoaPodsWorkingCorrectly_def Let_def by (rule first_call) simp
qed

lemma getSysInfo_runs_install:
  "hoare (\<lambda>s. shouldCache s \<and> (True \<longrightarrow> runs ''pod install'' s \<le> n)) (getSysInfo env)
     (\<lambda>r s. \<forall>d. r = Some d \<longrightarrow> isCocoaPodsWorkingCorrectly_value d \<noteq> None \<longrightarrow>
        runs ''pod install'' s \<le> n + 1 \<and> (runs ''pod install'' s \<le> n \<or> shouldCache s \<and> isCocoaPodsWorkingCorrectlyCache s = isCocoaPodsWorkingCorrectly_value d))"
  unfolding getSysInfo_def getNodeVersion_def
  apply (rule hoare_wrapper)
    apply (rule hoare_await, rule quiet_step, rule costs_weaken, rule costs_getOs,
      rule cache_stable_on, simp)
    apply (rule hoare_await, rule quiet_step, rule costs_resolve)
    apply (rule hoare_await, rule quiet_step, rule costs_weaken, rule costs_getNpmVersion,
      rule cache_stable_on, simp)
    apply (rule hoare_await, rule quiet_step, rule costs_weaken, rule costs_getNodeGypVersion,
      rule cache_stable_on, simp)
    apply (rule hoare_await, rule quiet_step, rule costs_settled)
    apply (rule hoare_await, rule quiet_step, rule costs_weaken, rule costs_getJavaVersion,
      rule cache_stable_on, simp)
    apply (rule hoare_await, rule quiet_step, rule costs_weaken, rule costs_getJavaCompilerVersion,
      rule cache_stable_on, simp)
    apply (rule hoare_await, rule quiet_step, rule costs_weaken, rule costs_getXcodeVersion,
      rule cache_stable_on, simp)
    apply (rule hoare_await, rule quiet_step, rule costs_weaken, rule costs_getXcodeprojGemLocation,
      rule cache_stable_on, simp)
    apply (rule hoare_await, rule quiet_step, rule costs_weaken, rule costs_isITunesInstalled,
      rule cache_stable_on, simp)
    apply (rule hoare_await, rule quiet_step, rule costs_weaken, rule costs_getCocoaPodsVersion,
      rule cache_stable_on, simp)
    apply (rule hoare_await, rule quiet_step, rule costs_weaken, rule costs_getAdbVersion,
      rule cache_stable_on, simp)
    apply (rule hoare_await, rule quiet_step, rule costs_weaken, rule costs_isAndroidInstalled,
      rule cache_stable_on, simp)
    apply (rule hoare_await, rule quiet_step, rule costs_weaken, rule costs_getMonoVersion,
      rule cache_stable_on, simp)
    apply (rule hoare_await, rule quiet_step, rule costs_weaken, rule costs_getGitVersion,
      rule cache_stable_on, simp)
    apply (rule hoare_await, rule quiet_step, rule costs_weaken, rule costs_getGradleVersion,
      rule cache_stable_on, simp)
    apply (rule hoare_await, rule first_install)
    apply (rule hoare_await, rule quiet_step, rule costs_weaken, rule costs_getNativeScriptCliVersion,
      rule cache_stable_isCocoaPodsWorkingCorrectlyCache, rule cache_stable_on, simp)
    apply (rule hoare_await, rule quiet_step, rule costs_weaken, rule costs_update_required,
      rule cache_stable_isCocoaPodsWorkingCorrectlyCache, rule cache_stable_on, simp)
    apply (rule hoare_resolve)
    apply simp
   apply simp
  apply (simp add: runs_def)
  done

text \<open>One \<open>getWarnings\<close> evaluation, with caching on, from its snapshot on.\<close>

lemma getWarnings_runs:
  assumes "shouldCache s" and "getSysInfo env s = (Inr (Some d), s1)"
    and "c = ''pod --version'' \<longrightarrow> cocoaPodsVer d \<noteq> None"
    and "c = ''xcodebuild -version'' \<longrightarrow> xcodeVer d \<noteq> None"
    and "c = ''pod install'' \<longrightarrow> isCocoaPodsWorkingCorrectly_value d \<noteq> None"
  shows "runs c s1 \<le> runs c s + 1"
    and "runs c (snd (getWarnings env s)) \<le> runs c s + 1"
proof -
  let ?s' = "snd (getWarnings_checks env d s1)"
  have checks: "getWarnings env s = getWarnings_checks env d s1"
    using assms(2) by (simp add: getWarnings_def await_def)
  have pre: "shouldCache s \<and> (True \<longrightarrow> runs c s \<le> runs c s)"
    using assms(1) by simp
  have other: "runs c ?s' \<le> runs c s1" if "c \<noteq> ''pod install''"
  proof -
    have "costs (\<lambda>s. True) c (getWarnings_checks env d) 0"
      using that
      by (intro costs_weaken[OF costs_getWarnings_checks[OF
              costs_isCocoaPodsWorkingCorrectly[OF cache_stable_True]]]) simp
    from costsD[OF this, of s1] show ?thesis by simp
  qed
  consider (pods) "c = ''pod --version''" | (xcode) "c = ''xcodebuild -version''"
    | (install) "c = ''pod install''"
    | (other) "c \<noteq> ''pod --version''" "c \<noteq> ''xcodebuild -version''" "c \<noteq> ''pod install''"
    by blast
  then have "runs c s1 \<le> runs c s + 1 \<and> runs c ?s' \<le> runs c s + 1"
  proof cases
    case pods
    from hoareD[OF getSysInfo_runs_pods[of "runs c s"] _ assms(2)] pre assms(3) pods
    have "runs c s1 \<le> runs c s + 1" by simp
    with other pods show ?thesis by simp
  next
    case xcode
    from hoareD[OF getSysInfo_runs_xcode[of "runs c s"] _ assms(2)] pre assms(4) xcode
    have "runs c s1 \<le> runs c s + 1" by simp
    with other xcode show ?thesis by simp
  next
    case install
    from hoareD[OF getSysInfo_runs_install[of "runs c s"] _ assms(2)] pre assms(5) install
    have bound: "runs c s1 \<le> runs c s + 1"
      and cases: "runs c s1 \<le> runs c s \<or>
        shouldCache s1 \<and> isCocoaPodsWorkingCorrectlyCache s1 = isCocoaPodsWorkingCorrectly_value d"
      by simp_all
    from cases have "runs c ?s' \<le> runs c s + 1"
    proof
      assume first: "runs c s1 \<le> runs c s"
      have "costs (\<lambda>s. True) c (getWarnings_checks env d) 1"
        by (intro costs_weaken[OF costs_getWarnings_checks[OF
                costs_isCocoaPodsWorkingCorrectly[OF cache_stable_True]]]) simp
      from costsD[OF this, of s1] first show ?thesis by simp
    next
      assume cached: "shouldCache s1 \<and>
        isCocoaPodsWorkingCorrectlyCache s1 = isCocoaPodsWorkingCorrectly_value d"
      let ?G = "\<lambda>s. shouldCache s \<and> isCocoaPodsWorkingCorrectlyCache s \<noteq> None"
      have "costs ?G c (isCocoaPodsWorkingCorrectly env) 0"
        unfolding isCocoaPodsWorkingCorrectly_def by (rule costs_cached) simp
      from costsD[OF costs_getWarnings_checks[OF this, of d], of s1] cached assms(5) install bound
      show ?thesis by simp
    qed
    with bound show ?thesis by simp
  next
    case other
    from costsD[OF costs_getSysInfo_other[OF other(1,2), of env], of s] assms(2)
    have "runs c s1 \<le> runs c s + 1" by simp
    with \<open>c \<noteq> ''pod install'' \<Longrightarrow> runs c ?s' \<le> runs c s1\<close> other(3) show ?thesis by simp
  qed
  with checks show "runs c s1 \<le> runs c s + 1"
    and "runs c (snd (getWarnings env s)) \<le> runs c s + 1"
    by simp_all
qed

lemma getSysInfo_stored:
  assumes "consistent s" and "shouldCache s" and "getSysInfo env s = (Inr (Some d), s1)"
  shows "shouldCache s1 \<and> sysInfoCache s1 = Some d \<and> snapshot_cached d s1"
proof (cases "sysInfoCache s")
  case None
  from getSysInfo_snapshot[OF assms(2) None assms(3)] show ?thesis by simp
next
  case (Some d0)
  with assms(2,3) have "d = d0" "s1 = s"
    by (simp_all add: getSysInfo_def getValueForProperty_def)
  with Some assms(1,2) show ?thesis by (simp add: consistent_def)
qed

text \<open>
  C8, as the claim states it, fails: in one \<open>getWarnings\<close> evaluation on a Mac without
  CocoaPods and Xcode, with caching enabled, the commands \<open>pod --version\<close> and
  \<open>xcodebuild -version\<close> are each executed twice: once for the snapshot's own field
  and once more inside \<open>getXcprojInfo\<close>, because the first result was absent.
\<close>

theorem probe_run_twice_counterexample:
  "shouldCache new_SysInfo \<and>
   count_list (executed (snd (getWarnings mac_bare new_SysInfo))) ''pod --version'' = 2 \<and>
   count_list (executed (snd (getWarnings mac_bare new_SysInfo))) ''xcodebuild -version'' = 2"
  unfolding getWarnings_mac_bare by (simp add: new_SysInfo_def)

text \<open>
  C8, amended. Let the object be in any state it can reach, with caching enabled, and let
  the \<open>getSysInfo\<close> call of a \<open>getWarnings\<close> evaluation return a snapshot. Then the
  checks of that evaluation are run on this one snapshot. Every present value of the
  snapshot is the content of its probe's cache field when the checks start, so the
  probes asked again answer with the snapshot's value and run nothing: the CocoaPods
  functional check that the warning logic calls, the CocoaPods and Xcode version probes,
  and \<open>getSysInfo\<close> itself. And over the whole evaluation, the building of the snapshot
  included, every command is executed at most once, as long as the snapshot's value is
  present for the three probes that are asked twice (the CocoaPods and Xcode versions,
  asked again by \<open>getXcprojInfo\<close>, and the CocoaPods functional check, asked again by the
  warning logic). Nothing is said of these three commands when the snapshot's value is
  absent: an absent result is not stored, and the example above runs them twice.
\<close>

theorem snapshot_read_once:
  assumes "reachable s" and "shouldCache s"
    and "getSysInfo env s = (Inr (Some d), s1)"
  shows "getWarnings env s = getWarnings_checks env d s1 \<and>
     shouldCache s1 \<and> snapshot_cached d s1 \<and>
     (\<forall>b. isCocoaPodsWorkingCorrectly_value d = Some b \<longrightarrow>
        isCocoaPodsWorkingCorrectly env' s1 = (Inr (Some b), s1)) \<and>
     (\<forall>v. cocoaPodsVer d = Some v \<longrightarrow> getCocoaPodsVersion env' s1 = (Inr (Some v), s1)) \<and>
     (\<forall>v. xcodeVer d = Some v \<longrightarrow> getXcodeVersion env' s1 = (Inr (Some v), s1)) \<and>
     getSysInfo env' s1 = (Inr (Some d), s1) \<and>
     (\<forall>c. (c = ''pod --version'' \<longrightarrow> cocoaPodsVer d \<noteq> None) \<and>
          (c = ''xcodebuild -version'' \<longrightarrow> xcodeVer d \<noteq> None) \<and>
          (c = ''pod install'' \<longrightarrow> isCocoaPodsWorkingCorrectly_value d \<noteq> None) \<longrightarrow>
          runs c s1 \<le> runs c s + 1 \<and>
          runs c (snd (getWarnings env s)) \<le> runs c s + 1)"
proof -
  from getSysInfo_stored[OF reachable_consistent[OF assms(1)] assms(2,3)]
  have on: "shouldCache s1" and stored: "sysInfoCache s1 = Some d"
    and cached: "snapshot_cached d s1"
    by simp_all
  have checks: "getWarnings env s = getWarnings_checks env d s1"
    using assms(3) by (simp add: getWarnings_def await_def)
  have working: "isCocoaPodsWorkingCorrectly env' s1 = (Inr (Some b), s1)"
    if "isCocoaPodsWorkingCorrectly_value d = Some b" for b
    using that cached on
    by (simp add: snapshot_cached_def isCocoaPodsWorkingCorrectly_def getValueForProperty_def)
  have pods: "getCocoaPodsVersion env' s1 = (Inr (Some v), s1)"
    if "cocoaPodsVer d = Some v" for v
    using that cached on
    by (simp add: snapshot_cached_def getCocoaPodsVersion_def getValueForProperty_def)
  have xcode: "getXcodeVersion env' s1 = (Inr (Some v), s1)"
    if "xcodeVer d = Some v" for v
    using that cached on
    by (simp add: snapshot_cached_def getXcodeVersion_def getValueForProperty_def)
  have again: "getSysInfo env' s1 = (Inr (Some d), s1)"
    using on stored by (simp add: getSysInfo_def getValueForProperty_def)
  have once: "runs c s1 \<le> runs c s + 1 \<and> runs c (snd (getWarnings env s)) \<le> runs c s + 1"
    if "(c = ''pod --version'' \<longrightarrow> cocoaPodsVer d \<noteq> None) \<and>
        (c = ''xcodebuild -version'' \<longrightarrow> xcodeVer d \<noteq> None) \<and>
        (c = ''pod install'' \<longrightarrow> isCocoaPodsWorkingCorrectly_value d \<noteq> None)" for c
    using getWarnings_runs[OF assms(2,3), of c] that by blast
  from checks on cached working pods xcode again once show ?thesis by blast
qed

lemma getSysInfo_mac_pods_xcode:
  "getSysInfo mac_pods_xcode new_SysInfo =
     (Inr (Some mac_pods_xcode_snapshot), mac_pods_xcode_state)"
proof -
  have recent: "semver_lt (Some ''1.2.1'') ''1.0.0'' = Inr False"
    by (simp add: semver_lt_def semver_compare_def SemVer_def string_eval compare_eval)
  show ?thesis
    by (simp add: accessor_defs promise_defs new_SysInfo_def mac_pods_xcode_def mac_bare_def
        linux_bare_def no_files_def truthy_def truthy_bool_def path_join_def path_normalize_def recent
        to_string_def monoVerRegExp_exec_def GIT_VERSION_REGEXP_exec_def
        GRADLE_VERSION_REGEXP_exec_def literal_def literal_i_def mono_at_def
        getVersionFromString_def VERSION_REGEXP_match_def version_regexp_at_def is_digit_def
        is_word_char_def is_alpha_def Let_def trim_def is_space_def
        XCODE_VERSION_REGEXP_match_def mac_pods_xcode_snapshot_def mac_pods_xcode_state_def)
qed

theorem snapshot_read_once_witness:
  "reachable new_SysInfo \<and> shouldCache new_SysInfo \<and>
   getSysInfo mac_pods_xcode new_SysInfo =
     (Inr (Some mac_pods_xcode_snapshot), mac_pods_xcode_state) \<and>
   cocoaPodsVer mac_pods_xcode_snapshot = Some ''1.2.1'' \<and>
   xcodeVer mac_pods_xcode_snapshot = Some ''9.0.0'' \<and>
   getWarnings mac_pods_xcode new_SysInfo =
     getWarnings_checks mac_pods_xcode mac_pods_xcode_snapshot mac_pods_xcode_state \<and>
   snapshot_cached mac_pods_xcode_snapshot mac_pods_xcode_state \<and>
   getCocoaPodsVersion mac_bare mac_pods_xcode_state = (Inr (Some ''1.2.1''), mac_pods_xcode_state) \<and>
   getXcodeVersion mac_bare mac_pods_xcode_state = (Inr (Some ''9.0.0''), mac_pods_xcode_state) \<and>
   runs ''pod --version'' (snd (getWarnings mac_pods_xcode new_SysInfo)) \<le> 1 \<and>
   runs ''xcodebuild -version'' (snd (getWarnings mac_pods_xcode new_SysInfo)) \<le> 1 \<and>
   runs ''java -version'' (snd (getWarnings mac_pods_xcode new_SysInfo)) \<le> 1"
proof -
  have 1: "reachable new_SysInfo" by (rule reachable.new_object)
  have 2: "shouldCache new_SysInfo" and 3: "\<And>c. runs c new_SysInfo = 0"
    by (simp_all add: new_SysInfo_def runs_def)
  have 4: "cocoaPodsVer mac_pods_xcode_snapshot = Some ''1.2.1''"
    "xcodeVer mac_pods_xcode_snapshot = Some ''9.0.0''"
    by (simp_all add: mac_pods_xcode_snapshot_def)
  note main = snapshot_read_once [OF 1 2 getSysInfo_mac_pods_xcode, of mac_bare]
  from main have checks: "getWarnings mac_pods_xcode new_SysInfo =
      getWarnings_checks mac_pods_xcode mac_pods_xcode_snapshot mac_pods_xcode_state"
    and cached: "snapshot_cached mac_pods_xcode_snapshot mac_pods_xcode_state"
    by blast+
  from main 4 have again:
    "getCocoaPodsVersion mac_bare mac_pods_xcode_state = (Inr (Some ''1.2.1''), mac_pods_xcode_state)"
    "getXcodeVersion mac_bare mac_pods_xcode_state = (Inr (Some ''9.0.0''), mac_pods_xcode_state)"
    by blast+
  from main have once: "\<And>c. (c = ''pod --version'' \<longrightarrow> cocoaPodsVer mac_pods_xcode_snapshot \<noteq> None) \<and>
          (c = ''xcodebuild -version'' \<longrightarrow> xcodeVer mac_pods_xcode_snapshot \<noteq> None) \<and>
          (c = ''pod install'' \<longrightarrow>
             isCocoaPodsWorkingCorrectly_value mac_pods_xcode_snapshot \<noteq> None) \<Longrightarrow>
          runs c (snd (getWarnings mac_pods_xcode new_SysInfo)) \<le> runs c new_SysInfo + 1"
    by blast
  have "runs ''pod --version'' (snd (getWarnings mac_pods_xcode new_SysInfo)) \<le> 1"
    "runs ''xcodebuild -version'' (snd (getWarnings mac_pods_xcode new_SysInfo)) \<le> 1"
    "runs ''java -version'' (snd (getWarnings mac_pods_xcode new_SysInfo)) \<le> 1"
    using once[of "''pod --version''"] once[of "''xcodebuild -version''"]
      once[of "''java -version''"] 3 4 by simp_all
  with 1 2 4 checks cached again getSysInfo_mac_pods_xcode show ?thesis by blast
qed

section \<open>Properties of the Doctor\<close>

lemmas warning_defs = adb_warning_def android_sdk_warning_def xcode_warning_def
  xcodeproj_warning_def cocoapods_warning_def cocoapods_problem_warning_def
  cocoapods_version_warning_def mono_warning_def ios_note_def itunes_warning_def
  jdk_warning_def git_warning_def

lemma subseq_push_if: "subseq xs ys \<Longrightarrow> subseq (push_if cond w xs) (ys @ [w])"
  by (simp add: push_if_def subseq_rev_drop_many)

lemma hoare_if:
  "(cond \<Longrightarrow> hoare P m Q) \<Longrightarrow> (\<not> cond \<Longrightarrow> hoare P n Q) \<Longrightarrow> hoare P (if cond then m else n) Q"
  by simp

lemma hoare_settled: "(\<And>x s. v = Inr x \<Longrightarrow> P s \<Longrightarrow> Q x s) \<Longrightarrow> hoare P (settled v) Q"
  by (simp add: hoare_def settled_def)

lemma hoare_any: "hoare P m (\<lambda>r s. True)"
  by (simp add: hoare_def)

text \<open>
  The block under \<open>isDarwin\<close> appends to the list it is given a subsequence of the six
  warnings of the iOS subsequence, whatever the probes it calls return.
\<close>

lemma darwin_checks_order:
  assumes "subseq result0 ys"
  shows "hoare (\<lambda>s. True) (darwin_checks env d result0)
           (\<lambda>r s. subseq r (ys @ ios_subsequence (EOL env)))"
proof -
  let ?e = "EOL env"
  let ?y3 = "((ys @ [xcode_warning ?e]) @ [xcodeproj_warning ?e]) @ [cocoapods_warning ?e]"
  let ?y4 = "?y3 @ [cocoapods_problem_warning ?e]"
  let ?y5 = "?y4 @ [cocoapods_version_warning ?e]"
  let ?r3 = "push_if (\<not> truthy (cocoapodVer d)) (cocoapods_warning ?e)
               (push_if (\<not> truthy (xcodeprojGemLocation d)) (xcodeproj_warning ?e)
                 (push_if (\<not> truthy (xcodeVer d)) (xcode_warning ?e) result0))"
  have r3: "subseq ?r3 ?y3"
    by (intro subseq_push_if assms)
  have all: "ys @ ios_subsequence ?e = ?y5 @ [mono_warning ?e]"
    by (simp add: ios_subsequence_def)
  show ?thesis
    unfolding darwin_checks_def Let_def all
  proof (rule hoare_await[where R = "\<lambda>r s. subseq r ?y4"])
    show "hoare (\<lambda>s. True)
            (if truthy (xcodeVer d) \<and> truthy (cocoapodVer d)
             then await (isCocoaPodsWorkingCorrectly env) (\<lambda>working.
                    resolve (push_if (\<not> truthy_bool working) (cocoapods_problem_warning ?e) ?r3))
             else resolve ?r3)
            (\<lambda>r s. subseq r ?y4)"
    proof (rule hoare_if)
      show "hoare (\<lambda>s. True)
              (await (isCocoaPodsWorkingCorrectly env) (\<lambda>working.
                 resolve (push_if (\<not> truthy_bool working) (cocoapods_problem_warning ?e) ?r3)))
              (\<lambda>r s. subseq r ?y4)"
        by (rule hoare_await[OF hoare_any], rule hoare_resolve, rule subseq_push_if, rule r3)
      show "hoare (\<lambda>s. True) (resolve ?r3) (\<lambda>r s. subseq r ?y4)"
        by (rule hoare_resolve, rule subseq_rev_drop_many, rule r3)
    qed
  next
    fix result4
    show "hoare (\<lambda>s. subseq result4 ?y4)
            (await (if truthy (cocoapodVer d) \<and> semver_valid (cocoapodVer d)
                    then await (settled (semver_lt (cocoapodVer d) MIN_SUPPORTED_POD_VERSION))
                           (\<lambda>older. resolve (push_if older (cocoapods_version_warning ?e) result4))
                    else resolve result4)
               (\<lambda>result5.
                  await (if \<not> truthy (monoVer d) then resolve True
                         else settled (semver_lt (monoVer d) ''3.12.0''))
                    (\<lambda>monoMissing. resolve (push_if monoMissing (mono_warning ?e) result5))))
            (\<lambda>r s. subseq r (?y5 @ [mono_warning ?e]))"
    proof (rule hoare_await[where R = "\<lambda>r s. subseq r ?y5"])
      show "hoare (\<lambda>s. subseq result4 ?y4)
              (if truthy (cocoapodVer d) \<and> semver_valid (cocoapodVer d)
               then await (settled (semver_lt (cocoapodVer d) MIN_SUPPORTED_POD_VERSION))
                      (\<lambda>older. resolve (push_if older (cocoapods_version_warning ?e) result4))
               else resolve result4)
              (\<lambda>r s. subseq r ?y5)"
      proof (rule hoare_if)
        show "hoare (\<lambda>s. subseq result4 ?y4)
                (await (settled (semver_lt (cocoapodVer d) MIN_SUPPORTED_POD_VERSION))
                   (\<lambda>older. resolve (push_if older (cocoapods_version_warning ?e) result4)))
                (\<lambda>r s. subseq r ?y5)"
          by (rule hoare_await[OF hoare_settled_keep], rule hoare_resolve, rule subseq_push_if)
        show "hoare (\<lambda>s. subseq result4 ?y4) (resolve result4) (\<lambda>r s. subseq r ?y5)"
          by (rule hoare_resolve, rule subseq_rev_drop_many)
      qed
    next
      fix result5
      show "hoare (\<lambda>s. subseq result5 ?y5)
              (await (if \<not> truthy (monoVer d) then resolve True
                      else settled (semver_lt (monoVer d) ''3.12.0''))
                 (\<lambda>monoMissing. resolve (push_if monoMissing (mono_warning ?e) result5)))
              (\<lambda>r s. subseq r (?y5 @ [mono_warning ?e]))"
      proof (rule hoare_await[where R = "\<lambda>r s. subseq result5 ?y5"])
        show "hoare (\<lambda>s. subseq result5 ?y5)
                (if \<not> truthy (monoVer d) then resolve True
                 else settled (semver_lt (monoVer d) ''3.12.0''))
                (\<lambda>r s. subseq result5 ?y5)"
          by (rule hoare_if, rule hoare_resolve_keep, rule hoare_settled_keep)
        show "hoare (\<lambda>s. subseq result5 ?y5)
                (resolve (push_if monoMissing (mono_warning ?e) result5))
                (\<lambda>r s. subseq r (?y5 @ [mono_warning ?e]))" for monoMissing
          by (rule hoare_resolve, rule subseq_push_if)
      qed
    qed
  qed
qed

lemma getWarnings_checks_darwin:
  assumes "isDarwin env" and "getWarnings_checks env d s = (Inr ws, s')"
  shows "subseq ws (warning_order (EOL env))"
proof -
  let ?e = "EOL env"
  let ?r2 = "push_if (\<not> truthy_bool (androidInstalled d)) (android_sdk_warning ?e)
               (push_if (\<not> truthy (adbVer d)) (adb_warning ?e) [])"
  have "subseq ?r2 ([] @ [adb_warning ?e] @ [android_sdk_warning ?e])"
    using subseq_push_if[OF subseq_push_if[of "[]" "[]"]] by simp
  then have r2: "subseq ?r2 [adb_warning ?e, android_sdk_warning ?e]" by simp
  from assms obtain result3 where
    run: "darwin_checks env d ?r2 s = (Inr result3, s')" and
    ws: "ws = push_if (\<not> truthy (gitVer d)) (git_warning ?e)
               (push_if (\<not> truthy (javaVer d)) (jdk_warning ?e)
                 (push_if (\<not> truthy_bool (itunesInstalled d)) (itunes_warning ?e) result3))"
    by (auto simp: getWarnings_checks_def Let_def await_def resolve_def
        split: prod.splits sum.splits)
  from hoareD[OF darwin_checks_order[OF r2] _ run]
  have "subseq result3 ([adb_warning ?e, android_sdk_warning ?e] @ ios_subsequence ?e)"
    by simp
  then have "subseq result3 (([adb_warning ?e, android_sdk_warning ?e] @ ios_subsequence ?e)
               @ [ios_note ?e])"
    by (rule subseq_rev_drop_many)
  from subseq_push_if[OF subseq_push_if[OF subseq_push_if[OF this]]]
  show ?thesis unfolding ws warning_order_def by simp
qed

lemma getWarnings_checks_elsewhere:
  assumes "\<not> isDarwin env"
  shows "getWarnings_checks env d s =
    (Inr (push_if (\<not> truthy (gitVer d)) (git_warning (EOL env))
           (push_if (\<not> truthy (javaVer d)) (jdk_warning (EOL env))
             (push_if (\<not> truthy_bool (itunesInstalled d)) (itunes_warning (EOL env))
               (push_if (\<not> truthy_bool (androidInstalled d)) (android_sdk_warning (EOL env))
                  (push_if (\<not> truthy (adbVer d)) (adb_warning (EOL env)) [])
                @ [ios_note (EOL env)])))), s)"
  using assms by (simp add: getWarnings_checks_def Let_def await_def resolve_def)

lemma distinct_warning_order: "distinct (warning_order eol)"
  by (simp add: warning_order_def ios_subsequence_def warning_defs)

lemma filter_push_if:
  "filter P (push_if cond w xs) = (if cond \<and> P w then filter P xs @ [w] else filter P xs)"
  by (simp add: push_if_def)

lemma ios_related_cases:
  "\<not> ios_related eol (adb_warning eol)" "\<not> ios_related eol (android_sdk_warning eol)"
  "ios_related eol (ios_note eol)" "\<not> ios_related eol (itunes_warning eol)"
  "\<not> ios_related eol (jdk_warning eol)" "\<not> ios_related eol (git_warning eol)"
  by (simp_all add: ios_related_def ios_subsequence_def warning_defs)

lemma getWarnings_elsewhere_order:
  assumes "\<not> isDarwin env" and "getWarnings_checks env d s = (Inr ws, s')"
  shows "subseq ws (warning_order (EOL env))"
    and "filter (ios_related (EOL env)) ws = [ios_note (EOL env)]"
proof -
  let ?e = "EOL env"
  let ?r2 = "push_if (\<not> truthy_bool (androidInstalled d)) (android_sdk_warning ?e)
               (push_if (\<not> truthy (adbVer d)) (adb_warning ?e) [])"
  have ws: "ws = push_if (\<not> truthy (gitVer d)) (git_warning ?e)
           (push_if (\<not> truthy (javaVer d)) (jdk_warning ?e)
             (push_if (\<not> truthy_bool (itunesInstalled d)) (itunes_warning ?e)
               (?r2 @ [ios_note ?e])))"
    using assms(2) unfolding getWarnings_checks_elsewhere[OF assms(1)] by simp
  have "subseq ?r2 ([] @ [adb_warning ?e] @ [android_sdk_warning ?e])"
    using subseq_push_if[OF subseq_push_if[of "[]" "[]"]] by simp
  then have "subseq ?r2 [adb_warning ?e, android_sdk_warning ?e]" by simp
  then have "subseq ?r2 ([adb_warning ?e, android_sdk_warning ?e] @ ios_subsequence ?e)"
    by (rule subseq_rev_drop_many)
  then have "subseq (?r2 @ [ios_note ?e])
               (([adb_warning ?e, android_sdk_warning ?e] @ ios_subsequence ?e) @ [ios_note ?e])"
    by (simp only: subseq_append)
  from subseq_push_if[OF subseq_push_if[OF subseq_push_if[OF this]]]
  show "subseq ws (warning_order ?e)" unfolding ws warning_order_def by simp
  show "filter (ios_related ?e) ws = [ios_note ?e]"
    unfolding ws by (simp add: filter_push_if ios_related_cases)
qed

text \<open>
  C3. Whenever \<open>getWarnings\<close> returns a list, the list is a subsequence of the fixed
  order (debug bridge, Android SDK, the six warnings of the iOS subsequence, the note,
  device-sync utility, JDK, version control), whose members are pairwise different, so
  the relative order of any two warnings is fixed. On a host that is not Darwin the
  warnings about the second target are exactly one: the note, whatever the snapshot
  says about Xcode, the xcodeproj gem, CocoaPods and Mono; and there the checks on a
  snapshot always return, without running anything.
\<close>

theorem getWarnings_fixed_order:
  "distinct (warning_order (EOL env)) \<and>
   (\<forall>ws s'. getWarnings env s = (Inr ws, s') \<longrightarrow>
      subseq ws (warning_order (EOL env)) \<and>
      (\<not> isDarwin env \<longrightarrow> filter (ios_related (EOL env)) ws = [ios_note (EOL env)])) \<and>
   (\<not> isDarwin env \<longrightarrow> (\<exists>ws. getWarnings_checks env d s = (Inr ws, s) \<and>
      filter (ios_related (EOL env)) ws = [ios_note (EOL env)]))"
proof (intro conjI allI impI)
  show "distinct (warning_order (EOL env))" by (rule distinct_warning_order)
next
  fix ws s' assume run: "getWarnings env s = (Inr ws, s')"
  then obtain d0 s1 where checks: "getWarnings_checks env d0 s1 = (Inr ws, s')"
    by (auto simp: getWarnings_def await_def reject_def
        split: prod.splits sum.splits option.splits)
  show "subseq ws (warning_order (EOL env))"
    using getWarnings_checks_darwin[OF _ checks] getWarnings_elsewhere_order(1)[OF _ checks]
    by blast
  assume "\<not> isDarwin env"
  from getWarnings_elsewhere_order(2)[OF this checks]
  show "filter (ios_related (EOL env)) ws = [ios_note (EOL env)]" .
next
  assume other: "\<not> isDarwin env"
  from getWarnings_elsewhere_order(2)[OF other getWarnings_checks_elsewhere[OF other]]
    getWarnings_checks_elsewhere[OF other]
  show "\<exists>ws. getWarnings_checks env d s = (Inr ws, s) \<and>
          filter (ios_related (EOL env)) ws = [ios_note (EOL env)]"
    by blast
qed

lemma getWarnings_linux_java:
  "getWarnings linux_java new_SysInfo =
     (Inr [adb_warning ''\<newline>'', android_sdk_warning ''\<newline>'', ios_note ''\<newline>'',
           itunes_warning ''\<newline>'', git_warning ''\<newline>''], linux_java_state)"
proof -
  have env: "\<not> isDarwin linux_java" "EOL linux_java = ''\<newline>''"
    by (simp_all add: linux_java_def linux_bare_def)
  show ?thesis
    unfolding getWarnings_def
    by (simp add: await_def getSysInfo_linux_java getWarnings_checks_elsewhere[OF env(1)] env(2))
      (simp add: linux_java_snapshot_def push_if_def truthy_def truthy_bool_def)
qed

theorem getWarnings_fixed_order_witness:
  "getWarnings linux_java new_SysInfo =
     (Inr [adb_warning ''\<newline>'', android_sdk_warning ''\<newline>'', ios_note ''\<newline>'',
           itunes_warning ''\<newline>'', git_warning ''\<newline>''], linux_java_state) \<and>
   \<not> isDarwin linux_java \<and>
   subseq [adb_warning ''\<newline>'', android_sdk_warning ''\<newline>'', ios_note ''\<newline>'',
           itunes_warning ''\<newline>'', git_warning ''\<newline>''] (warning_order ''\<newline>'') \<and>
   filter (ios_related ''\<newline>'')
     [adb_warning ''\<newline>'', android_sdk_warning ''\<newline>'', ios_note ''\<newline>'',
      itunes_warning ''\<newline>'', git_warning ''\<newline>''] = [ios_note ''\<newline>'']"
proof -
  have env: "\<not> isDarwin linux_java" "EOL linux_java = ''\<newline>''"
    by (simp_all add: linux_java_def linux_bare_def)
  from getWarnings_fixed_order [of linux_java new_SysInfo] getWarnings_linux_java env
  show ?thesis by simp
qed

lemma isPlatformSupported_two:
  assumes "SUPPORTED_PLATFORMS c = [ANDROID_PLATFORM_NAME c, IOS_PLATFORM_NAME c]"
  shows "isPlatformSupported c platformName =
     (toLocaleLowerCase platformName = toLocaleLowerCase (ANDROID_PLATFORM_NAME c) \<or>
      toLocaleLowerCase platformName = toLocaleLowerCase (IOS_PLATFORM_NAME c))"
  using assms by (auto simp: isPlatformSupported_def)

text \<open>
  C10. When the list of supported platforms is the Android name followed by the iOS
  name, a platform that \<open>validatePlatform\<close> accepts is, up to letter case, one of the
  two names, so \<open>canExecuteLocalBuild\<close> returns the outcome of the Android requirements
  check or the outcome of the iOS requirements check, and the final \<open>return false\<close> is
  never reached: a value it returns is the value of the check of the platform asked
  for.
\<close>

theorem canExecuteLocalBuild_result:
  assumes "SUPPORTED_PLATFORMS c = [ANDROID_PLATFORM_NAME c, IOS_PLATFORM_NAME c]"
  shows "(validatePlatform c platformName = Inr () \<longrightarrow>
      (toLocaleLowerCase platformName = toLocaleLowerCase (ANDROID_PLATFORM_NAME c) \<and>
       canExecuteLocalBuild c androidCheckRequirements iosCheckRequirements platformName
         = androidCheckRequirements) \<or>
      (toLocaleLowerCase platformName \<noteq> toLocaleLowerCase (ANDROID_PLATFORM_NAME c) \<and>
       toLocaleLowerCase platformName = toLocaleLowerCase (IOS_PLATFORM_NAME c) \<and>
       canExecuteLocalBuild c androidCheckRequirements iosCheckRequirements platformName
         = iosCheckRequirements)) \<and>
    (\<forall>b. canExecuteLocalBuild c androidCheckRequirements iosCheckRequirements platformName = Inr b
       \<longrightarrow> validatePlatform c platformName = Inr () \<and>
           (androidCheckRequirements = Inr b \<or> iosCheckRequirements = Inr b))"
proof -
  have accepted: "toLocaleLowerCase platformName = toLocaleLowerCase (ANDROID_PLATFORM_NAME c) \<or>
      toLocaleLowerCase platformName = toLocaleLowerCase (IOS_PLATFORM_NAME c)"
    if "validatePlatform c platformName = Inr ()"
    using that isPlatformSupported_two[OF assms, of platformName]
    by (simp add: validatePlatform_def split: if_splits)
  have first: "validatePlatform c platformName = Inr () \<longrightarrow>
      (toLocaleLowerCase platformName = toLocaleLowerCase (ANDROID_PLATFORM_NAME c) \<and>
       canExecuteLocalBuild c androidCheckRequirements iosCheckRequirements platformName
         = androidCheckRequirements) \<or>
      (toLocaleLowerCase platformName \<noteq> toLocaleLowerCase (ANDROID_PLATFORM_NAME c) \<and>
       toLocaleLowerCase platformName = toLocaleLowerCase (IOS_PLATFORM_NAME c) \<and>
       canExecuteLocalBuild c androidCheckRequirements iosCheckRequirements platformName
         = iosCheckRequirements)"
    using accepted by (auto simp: canExecuteLocalBuild_def)
  have second: "validatePlatform c platformName = Inr () \<and>
           (androidCheckRequirements = Inr b \<or> iosCheckRequirements = Inr b)"
    if "canExecuteLocalBuild c androidCheckRequirements iosCheckRequirements platformName = Inr b"
    for b
  proof -
    from that have ok: "validatePlatform c platformName = Inr ()"
      by (cases "validatePlatform c platformName") (simp_all add: canExecuteLocalBuild_def)
    with first that show ?thesis by auto
  qed
  from first second show ?thesis by blast
qed

theorem canExecuteLocalBuild_result_witness:
  "SUPPORTED_PLATFORMS standard_constants =
     [ANDROID_PLATFORM_NAME standard_constants, IOS_PLATFORM_NAME standard_constants] \<and>
   validatePlatform standard_constants ''ANDROID'' = Inr () \<and>
   canExecuteLocalBuild standard_constants (Inr True) (Inr False) ''ANDROID'' = Inr True \<and>
   validatePlatform standard_constants ''ios'' = Inr () \<and>
   canExecuteLocalBuild standard_constants (Inr True) (Inr False) ''ios'' = Inr False"
proof -
  have two: "SUPPORTED_PLATFORMS standard_constants =
     [ANDROID_PLATFORM_NAME standard_constants, IOS_PLATFORM_NAME standard_constants]"
    by (simp add: standard_constants_def)
  have lower: "toLocaleLowerCase ''ANDROID'' = ''android''"
    "toLocaleLowerCase ''Android'' = ''android''"
    "toLocaleLowerCase ''iOS'' = ''ios''" "toLocaleLowerCase ''ios'' = ''ios''"
    by code_simp+
  have valid: "validatePlatform standard_constants ''ANDROID'' = Inr ()"
    "validatePlatform standard_constants ''ios'' = Inr ()"
    by (simp_all add: validatePlatform_def isPlatformSupported_def standard_constants_def lower)
  have names: "ANDROID_PLATFORM_NAME standard_constants = ''Android''"
    "IOS_PLATFORM_NAME standard_constants = ''iOS''"
    by (simp_all add: standard_constants_def)
  from canExecuteLocalBuild_result [OF two, of "''ANDROID''" "Inr True" "Inr False"]
    canExecuteLocalBuild_result [OF two, of "''ios''" "Inr True" "Inr False"]
    two valid
  show ?thesis by (simp add: names lower)
qed

end
